(* ===== verification/Prelude.thy ===== *)
theory Prelude
  imports Complex_Main "HOL-Library.Word"
begin

text \<open>
  Shared vocabulary of the development: Python's run-time errors as a datatype,
  the error-propagating sequencing of a statement list (\<open>bindE\<close>), the
  named collections the component theories fill, and generic facts on lists
  and on Python integers used as bit sets.
\<close>

section \<open>Python errors and sequencing\<close>

text \<open>
  The exceptions the modelled code can raise: \<open>IndexError\<close> (\<open>pop\<close> on an empty
  list, an index out of range), \<open>ZeroDivisionError\<close> (a float division by
  \<open>0.0\<close>) and \<open>ValueError\<close> (\<open>bytearray\<close> of a value outside \<open>0..255\<close>). A statement that may raise returns \<open>py_error + 'a\<close>, \<open>Inl\<close> the
  exception; \<open>bindE\<close> runs the rest of the block only if no exception was raised,
  as Python does.
\<close>

datatype py_error = IndexError | ZeroDivisionError | ValueError

definition bindE :: "'e + 'a \<Rightarrow> ('a \<Rightarrow> 'e + 'b) \<Rightarrow> 'e + 'b" where
  "bindE m f = (case m of Inl e \<Rightarrow> Inl e | Inr x \<Rightarrow> f x)"

named_theorems py_simps "evaluation rules of the Python list and error model"

lemma bindE_Inl [simp, py_simps]: "bindE (Inl e) f = Inl e"
  by (simp add: bindE_def)

lemma bindE_Inr [simp, py_simps]: "bindE (Inr x) f = f x"
  by (simp add: bindE_def)

lemma bindE_eq_Inr:
  "bindE m f = Inr y \<longleftrightarrow> (\<exists>x. m = Inr x \<and> f x = Inr y)"
  by (cases m) (auto simp: bindE_def)

lemma bindE_assoc [py_simps]:
  "bindE (bindE m f) g = bindE m (\<lambda>x. bindE (f x) g)"
  by (cases m) simp_all

lemma bindE_isr:
  assumes "m = Inr x" and "\<exists>y. f x = Inr y"
  shows "\<exists>y. bindE m f = Inr y"
  using assms by simp

section \<open>Lists\<close>

lemma sum_list_map_add [simp]:
  "(\<Sum>p\<leftarrow>ps. f p + g p) = (\<Sum>p\<leftarrow>ps. f p) + (\<Sum>p\<leftarrow>ps. (g p :: 'a :: comm_monoid_add))"
  by (induction ps) (simp_all add: algebra_simps)

lemma sum_list_map_cmult:
  "(\<Sum>p\<leftarrow>ps. c * f p) = c * (\<Sum>p\<leftarrow>ps. (f p :: 'a :: comm_semiring_0))"
  by (induction ps) (simp_all add: algebra_simps)

lemma sum_list_map_const:
  "(\<Sum>p\<leftarrow>ps. (c :: 'a :: semiring_1)) = of_nat (length ps) * c"
  by (induction ps) (simp_all add: algebra_simps)

lemma length_tl_append_single [simp]:
  "xs \<noteq> [] \<Longrightarrow> length (tl xs @ [x]) = length xs"
  by (cases xs) simp_all

lemma length_butlast_append_single [simp]:
  "xs \<noteq> [] \<Longrightarrow> length (butlast xs @ [x]) = length xs"
  by (cases xs rule: rev_cases) simp_all

section \<open>Python integers as bit sets\<close>

text \<open>
  The drivers keep their status flags in one Python integer and update it with
  \<open>|=\<close>, \<open>&=\<close> and \<open>&= ~c\<close>. Python integers are unbounded, so the model
  uses \<open>int\<close> with the library's bit operations on it; the bound that the flags
  stay within one byte is a lemma of the driver theories, not an assumption.
\<close>

unbundle bit_operations_syntax

named_theorems status_simps "evaluation rules of the status flag byte"

lemma int_and_nonneg [simp]: "0 \<le> (a :: int) \<Longrightarrow> 0 \<le> a AND b"
  by simp

lemma int_or_byte_bounded:
  assumes "0 \<le> (a :: int)" and "a < 256" and "b < 256"
  shows "a OR b < 256"
proof -
  have "a OR b < 2 ^ 8" using assms by (intro OR_upper) simp_all
  then show ?thesis by simp
qed

lemma int_and_byte_bounded:
  "0 \<le> (a :: int) \<Longrightarrow> a < 256 \<Longrightarrow> a AND b < 256"
  by simp

lemma or_flag_absorb: "(x :: int) AND 2 ^ n \<noteq> 0 \<Longrightarrow> x OR 2 ^ n = x"
proof -
  assume "x AND 2 ^ n \<noteq> 0"
  then have "bit x n" using and_exp_eq_0_iff_not_bit by blast
  then show ?thesis by (intro bit_eqI) (auto simp: bit_or_iff bit_exp_iff)
qed

end
