(* ===== verification/Regression.thy ===== *)
theory Regression
  imports Prelude
begin

text \<open>
  The regression engine: \<open>LinearReg\<close> and \<open>Average\<close>, which occur with the same text
  in \<^verbatim>\<open>src/HX711/HX711.py\<close> (lines 152--180) and \<^verbatim>\<open>src/NAU7802/NAU7802.py\<close>
  (lines 162--190). \<open>LinearReg\<close> is modelled as the code runs it: a first loop over
  \<open>zip(X, Y)\<close> that accumulates five float sums, the closed-form slope and
  intercept, and a second loop that accumulates absolute residuals. Floats are
  modelled as exact reals (rounding is not modelled); a division by a zero
  determinant is Python's \<open>ZeroDivisionError\<close>. The theory proves the loops equal to
  the textbook least-squares formulas (\<open>ols_fit\<close>), the zero result on short or
  mismatched input, the exact fit of collinear data, and that on an offset sequence
  symmetric about zero the intercept is the window average.
\<close>

section \<open>Definitions\<close>

text \<open>The loop variables \<open>Sx, Sy, Sxx, Syy, Sxy\<close> of the first \<open>for\<close> loop.\<close>

record reg_acc =
  Sx :: real
  Sy :: real
  Sxx :: real
  Syy :: real
  Sxy :: real

definition reg_acc0 :: reg_acc where
  "reg_acc0 = \<lparr>Sx = 0, Sy = 0, Sxx = 0, Syy = 0, Sxy = 0\<rparr>"

fun reg_accum :: "reg_acc \<Rightarrow> (int \<times> int) list \<Rightarrow> reg_acc" where
  "reg_accum acc [] = acc"
| "reg_accum acc ((x, y) # ps) =
     reg_accum (acc\<lparr>Sx := Sx acc + of_int x, Sy := Sy acc + of_int y,
                    Sxx := Sxx acc + of_int (x * x), Syy := Syy acc + of_int (y * y),
                    Sxy := Sxy acc + of_int (x * y)\<rparr>) ps"

text \<open>The second \<open>for\<close> loop: \<open>tmp += abs(y - (a*x + b))\<close>.\<close>

fun resid_accum :: "real \<Rightarrow> real \<Rightarrow> real \<Rightarrow> (int \<times> int) list \<Rightarrow> real" where
  "resid_accum a b tmp [] = tmp"
| "resid_accum a b tmp ((x, y) # ps) =
     resid_accum a b (tmp + \<bar>of_int y - (a * of_int x + b)\<bar>) ps"

text \<open>
  \<open>LinearReg(X, Y)\<close>. The guard's type test \<open>type(Y[0]) == int or float\<close> always
  holds: the window only ever holds the integers returned by \<open>getRawData\<close>. The
  variable \<open>e\<close> is assigned inside the second loop; since the guard makes the loop
  run at least once, its final value is the accumulated sum over \<open>n\<close>.
\<close>

definition LinearReg :: "int list \<Rightarrow> int list \<Rightarrow> py_error + (real \<times> real \<times> real)" where
  "LinearReg X Y =
     (if 2 < length X \<and> length X = length Y then
        let n = real (length X);
            acc = reg_accum reg_acc0 (zip X Y);
            det = Sxx acc * n - Sx acc * Sx acc
        in if det = 0 then Inl ZeroDivisionError
           else let a = (Sxy acc * n - Sy acc * Sx acc) / det;
                    b = (Sxx acc * Sy acc - Sx acc * Sxy acc) / det
                in Inr (a, b, resid_accum a b 0 (zip X Y) / n)
      else Inr (0, 0, 0))"

text \<open>
  \<open>Average(Y)\<close> returns a float for two or more samples, but the list \<open>Y\<close> itself
  for exactly one, and \<open>0\<close> for none: Python's dynamic typing is kept as a datatype.
\<close>

datatype avg_val = AvgNum real | AvgList "int list"

definition Average :: "int list \<Rightarrow> avg_val" where
  "Average Y =
     (if 1 < length Y then AvgNum (of_int (sum_list Y) / real (length Y))
      else if length Y = 1 then AvgList Y
      else AvgNum 0)"

text \<open>The abstract specification: the least-squares formulas over plain sums.\<close>

definition ols_det :: "int list \<Rightarrow> real" where
  "ols_det X = real (length X) * (\<Sum>x\<leftarrow>X. of_int x * of_int x) - (\<Sum>x\<leftarrow>X. of_int x)\<^sup>2"

definition ols_fit :: "int list \<Rightarrow> int list \<Rightarrow> real \<times> real \<times> real" where
  "ols_fit X Y =
     (let n = real (length X);
          sx = (\<Sum>x\<leftarrow>X. real_of_int x);
          sy = (\<Sum>y\<leftarrow>Y. real_of_int y);
          sxx = (\<Sum>x\<leftarrow>X. real_of_int x * of_int x);
          sxy = (\<Sum>(x, y)\<leftarrow>zip X Y. real_of_int x * of_int y);
          a = (n * sxy - sx * sy) / ols_det X;
          b = (sxx * sy - sx * sxy) / ols_det X
      in (a, b, (\<Sum>(x, y)\<leftarrow>zip X Y. \<bar>of_int y - (a * of_int x + b)\<bar>) / n))"

section \<open>The loops compute the sums\<close>

lemma reg_accum_eq:
  "reg_accum acc ps =
     \<lparr>Sx = Sx acc + (\<Sum>(x, y)\<leftarrow>ps. of_int x), Sy = Sy acc + (\<Sum>(x, y)\<leftarrow>ps. of_int y),
      Sxx = Sxx acc + (\<Sum>(x, y)\<leftarrow>ps. of_int x * of_int x),
      Syy = Syy acc + (\<Sum>(x, y)\<leftarrow>ps. of_int y * of_int y),
      Sxy = Sxy acc + (\<Sum>(x, y)\<leftarrow>ps. of_int x * of_int y)\<rparr>"
  by (induction acc ps rule: reg_accum.induct) (simp_all add: algebra_simps)

lemma resid_accum_eq:
  "resid_accum a b tmp ps = tmp + (\<Sum>(x, y)\<leftarrow>ps. \<bar>of_int y - (a * of_int x + b)\<bar>)"
  by (induction a b tmp ps rule: resid_accum.induct) simp_all

lemma sum_zip_fst:
  "length X = length Y \<Longrightarrow> (\<Sum>(x, y)\<leftarrow>zip X Y. f x) = (\<Sum>x\<leftarrow>X. f x)"
  by (induction X Y rule: list_induct2) simp_all

lemma sum_zip_snd:
  "length X = length Y \<Longrightarrow> (\<Sum>(x, y)\<leftarrow>zip X Y. f y) = (\<Sum>y\<leftarrow>Y. f y)"
  by (induction X Y rule: list_induct2) simp_all

lemmas reg_sums = reg_accum_eq resid_accum_eq sum_zip_fst sum_zip_snd reg_acc0_def

lemma sum_zip_map_self:
  "(\<Sum>(x, y)\<leftarrow>zip X (map f X). g x y) = (\<Sum>x\<leftarrow>X. g x (f x))"
  by (induction X) simp_all

section \<open>Functional behaviour\<close>

lemma LinearReg_ols:
  "LinearReg X Y =
     (if 2 < length X \<and> length X = length Y then
        if ols_det X = 0 then Inl ZeroDivisionError else Inr (ols_fit X Y)
      else Inr (0, 0, 0))"
  by (auto simp: LinearReg_def ols_fit_def ols_det_def Let_def reg_sums power2_eq_square
                 mult.commute)

text \<open>
  Claim C6. The code computes the textbook least-squares fit: on every input the
  two loops and the closed form agree with \<open>ols_fit\<close>, the zero result is returned
  exactly when there are at most two offsets or the lengths differ, and a zero
  determinant is the one way the function raises.
\<close>

theorem LinearReg_eq_ols:
  "LinearReg X Y =
     (if 2 < length X \<and> length X = length Y then
        if ols_det X = 0 then Inl ZeroDivisionError else Inr (ols_fit X Y)
      else Inr (0, 0, 0))"
  by (rule LinearReg_ols)

lemma sum_zip_shift:
  "length X = length Y \<Longrightarrow>
   (\<Sum>(x, y)\<leftarrow>zip X (map (\<lambda>y. y + c) Y). real_of_int x * of_int y) =
     (\<Sum>(x, y)\<leftarrow>zip X Y. real_of_int x * of_int y) + of_int c * (\<Sum>x\<leftarrow>X. real_of_int x)"
  by (induction X Y rule: list_induct2) (simp_all add: algebra_simps)

lemma sum_zip_resid_shift:
  "length X = length Y \<Longrightarrow>
   (\<Sum>(x, y)\<leftarrow>zip X (map (\<lambda>y. y + c) Y). \<bar>real_of_int y - (a * of_int x + (b + of_int c))\<bar>) =
     (\<Sum>(x, y)\<leftarrow>zip X Y. \<bar>real_of_int y - (a * of_int x + b)\<bar>)"
  by (induction X Y rule: list_induct2) (simp_all add: algebra_simps)

lemma ols_fit_tare:
  assumes len: "length X = length Y" and det: "ols_det X \<noteq> 0"
  shows "ols_fit X (map (\<lambda>y. y + c) Y) =
           (case ols_fit X Y of (a, b, e) \<Rightarrow> (a, b + of_int c, e))"
proof -
  define n where "n = real (length X)"
  define sx where "sx = (\<Sum>x\<leftarrow>X. real_of_int x)"
  define sy where "sy = (\<Sum>y\<leftarrow>Y. real_of_int y)"
  define sxx where "sxx = (\<Sum>x\<leftarrow>X. real_of_int x * of_int x)"
  define sxy where "sxy = (\<Sum>(x, y)\<leftarrow>zip X Y. real_of_int x * of_int y)"
  define d where "d = ols_det X"
  have dd: "d = n * sxx - sx\<^sup>2" by (simp add: d_def ols_det_def n_def sxx_def sx_def)
  have sy': "(\<Sum>y\<leftarrow>map (\<lambda>y. y + c) Y. real_of_int y) = sy + n * of_int c"
    using len by (simp add: sy_def n_def sum_list_map_add sum_list_map_const comp_def)
  have sxy': "(\<Sum>(x, y)\<leftarrow>zip X (map (\<lambda>y. y + c) Y). real_of_int x * of_int y) = sxy + of_int c * sx"
    using sum_zip_shift [OF len, of c] by (simp add: sxy_def sx_def)
  define a where "a = (n * sxy - sx * sy) / d"
  define b where "b = (sxx * sy - sx * sxy) / d"
  have d0: "d \<noteq> 0" using det by (simp add: d_def)
  have a': "(n * (sxy + of_int c * sx) - sx * (sy + n * of_int c)) / d = a"
    by (simp add: a_def algebra_simps)
  have b': "(sxx * (sy + n * of_int c) - sx * (sxy + of_int c * sx)) / d = b + of_int c"
  proof -
    have "sxx * (sy + n * of_int c) - sx * (sxy + of_int c * sx) = (sxx * sy - sx * sxy) + of_int c * d"
      by (simp add: dd algebra_simps power2_eq_square)
    then show ?thesis using d0 by (simp add: b_def add_divide_distrib)
  qed
  have e': "(\<Sum>(x, y)\<leftarrow>zip X (map (\<lambda>y. y + c) Y). \<bar>real_of_int y - (a * of_int x + (b + of_int c))\<bar>)
          = (\<Sum>(x, y)\<leftarrow>zip X Y. \<bar>real_of_int y - (a * of_int x + b)\<bar>)"
    by (rule sum_zip_resid_shift [OF len])
  show ?thesis
    unfolding ols_fit_def Let_def
    using sy' sxy' a' b' e'
    by (simp add: n_def [symmetric] sx_def [symmetric] sy_def [symmetric] sxx_def [symmetric]
                  sxy_def [symmetric] d_def [symmetric] a_def [symmetric] b_def [symmetric])
qed

text \<open>
  Claim C8. Taring: adding a constant offset \<open>c\<close> to every sample (a tare weight,
  a zero drift of the converter) changes only the intercept of the fit, by \<open>c\<close>;
  the slope and the mean absolute residual are unchanged, whenever the fit exists.
\<close>

theorem LinearReg_tare:
  assumes "2 < length X" and "length X = length Y" and "ols_det X \<noteq> 0"
  shows "LinearReg X (map (\<lambda>y. y + c) Y) =
           (case LinearReg X Y of Inl err \<Rightarrow> Inl err | Inr (a, b, e) \<Rightarrow> Inr (a, b + of_int c, e))"
  using assms by (simp add: LinearReg_ols ols_fit_tare split: prod.split)

theorem LinearReg_tare_witness:
  "2 < length [-1, 0, 1 :: int] \<and> ols_det [-1, 0, 1] \<noteq> 0 \<and>
   LinearReg [-1, 0, 1] (map (\<lambda>y. y + 10) [1, 2, 4]) =
     (case LinearReg [-1, 0, 1] [1, 2, 4] of Inl err \<Rightarrow> Inl err
      | Inr (a, b, e) \<Rightarrow> Inr (a, b + of_int 10, e))"
proof -
  have d: "ols_det [-1, 0, 1] \<noteq> 0" by (simp add: ols_det_def)
  show ?thesis using d LinearReg_tare [of "[-1, 0, 1]" "[1, 2, 4]" 10] by simp
qed

lemma LinearReg_residual_nonneg:
  "LinearReg X Y = Inr (a, b, e) \<Longrightarrow> 0 \<le> e"
  by (auto simp: LinearReg_ols ols_fit_def Let_def split: if_splits
           intro!: divide_nonneg_nonneg sum_list_nonneg)

text \<open>
  Claim C7. Collinear data \<open>y = m x + k\<close> over offsets with a non-zero determinant
  are fitted exactly: slope \<open>m\<close>, intercept \<open>k\<close>, mean absolute residual 0.
\<close>

theorem LinearReg_collinear:
  assumes len: "2 < length X" and det: "ols_det X \<noteq> 0"
  shows "LinearReg X (map (\<lambda>x. m * x + k) X) = Inr (of_int m, of_int k, 0)"
proof -
  define n where "n = real (length X)"
  define sx where "sx = (\<Sum>x\<leftarrow>X. real_of_int x)"
  define sxx where "sxx = (\<Sum>x\<leftarrow>X. real_of_int x * of_int x)"
  have d: "ols_det X = n * sxx - sx * sx"
    by (simp add: ols_det_def n_def sx_def sxx_def power2_eq_square)
  have sy: "sum_list (map (real_of_int \<circ> (\<lambda>x. m * x + k)) X) = of_int m * sx + n * of_int k"
    by (simp add: sx_def n_def sum_list_map_cmult sum_list_map_const comp_def)
  have "(\<Sum>x\<leftarrow>X. real_of_int x * of_int (m * x + k))
        = (\<Sum>x\<leftarrow>X. of_int m * (of_int x * of_int x) + of_int k * of_int x)"
    by (simp add: algebra_simps)
  then have sxy: "(\<Sum>(x, y)\<leftarrow>zip X (map (\<lambda>x. m * x + k) X). real_of_int x * of_int y)
             = of_int m * sxx + of_int k * sx"
    by (simp add: sum_zip_map_self sum_list_map_cmult sxx_def sx_def)
  have a: "(n * (of_int m * sxx + of_int k * sx) - sx * (of_int m * sx + n * of_int k))
           / ols_det X = of_int m"
    using det by (simp add: d field_simps)
  have b: "(sxx * (of_int m * sx + n * of_int k) - sx * (of_int m * sxx + of_int k * sx))
           / ols_det X = of_int k"
    using det by (simp add: d field_simps)
  have e: "(\<Sum>(x, y)\<leftarrow>zip X (map (\<lambda>x. m * x + k) X).
             \<bar>real_of_int y - (of_int m * of_int x + of_int k)\<bar>) = 0"
    by (simp add: sum_zip_map_self)
  show ?thesis
    using len det
    by (simp add: LinearReg_ols ols_fit_def Let_def sy sxy a b e
             flip: n_def sx_def sxx_def del: times_divide_eq_left)
qed

theorem LinearReg_collinear_witness:
  "2 < length [0, 1, 2 :: int] \<and> ols_det [0, 1, 2] \<noteq> 0 \<and>
   LinearReg [0, 1, 2] (map (\<lambda>x. 3 * x + 4) [0, 1, 2]) = Inr (3, 4, 0)"
proof -
  have d: "ols_det [0, 1, 2] \<noteq> 0" by (simp add: ols_det_def)
  show ?thesis using d LinearReg_collinear [of "[0, 1, 2]" 3 4] by simp
qed

text \<open>
  On an offset sequence that sums to zero, as both drivers' \<open>__dataX\<close> do, the
  fitted intercept is the window average: the value the drivers publish as
  \<open>LinRegVal\<close> duplicates \<open>MeanValue\<close>.
\<close>

theorem LinearReg_intercept_is_average:
  assumes sym: "sum_list X = 0" and len: "length Y = length X" "2 < length X"
    and det: "ols_det X \<noteq> 0"
    and fit: "LinearReg X Y = Inr (a, b, e)"
  shows "Average Y = AvgNum b"
proof -
  define sxx where "sxx = (\<Sum>x\<leftarrow>X. real_of_int x * of_int x)"
  have sx0: "(\<Sum>x\<leftarrow>X. real_of_int x) = 0"
    using sym by (simp add: sum_list_of_int)
  have d: "ols_det X = real (length X) * sxx"
    by (simp add: ols_det_def sxx_def sx0)
  have b: "b = (\<Sum>y\<leftarrow>Y. real_of_int y) / real (length X)"
    using fit len det
    by (simp add: LinearReg_ols ols_fit_def Let_def sx0 d flip: sxx_def split: if_splits)
  show ?thesis
    using len by (simp add: Average_def b sum_list_of_int)
qed

end
