(* ===== verification/Window.thy ===== *)
theory Window
  imports Prelude
begin

text \<open>
  The sliding window. Neither driver has a window class: the window is the list
  \<open>__dataY\<close>, updated in place with the Python list operations below, which the
  filter steps of both drivers call (\<^verbatim>\<open>HX711.py\<close> lines 103, 107--108, 114--116,
  122--123; \<^verbatim>\<open>NAU7802.py\<close> lines 130, 133--134). Each is modelled with the exception it
  raises out of range. The lemmas give their results on the lists where they
  succeed and the two window moves they make: the slide (drop the oldest, append
  the newest) and the replacement of the newest sample.
\<close>

section \<open>Python list operations\<close>

text \<open>\<open>xs.pop(0)\<close>: the removed head and the rest.\<close>

definition pop_front :: "'a list \<Rightarrow> py_error + ('a \<times> 'a list)" where
  "pop_front xs = (case xs of [] \<Rightarrow> Inl IndexError | x # ys \<Rightarrow> Inr (x, ys))"

text \<open>\<open>xs.pop()\<close>: the removed last element and the rest.\<close>

definition pop_back :: "'a list \<Rightarrow> py_error + ('a \<times> 'a list)" where
  "pop_back xs = (if xs = [] then Inl IndexError else Inr (last xs, butlast xs))"

text \<open>\<open>xs.append(v)\<close> never fails.\<close>

definition append_py :: "'a list \<Rightarrow> 'a \<Rightarrow> 'a list" where
  "append_py xs v = xs @ [v]"

text \<open>\<open>xs[i] = v\<close> for a non-negative index.\<close>

definition set_idx :: "'a list \<Rightarrow> nat \<Rightarrow> 'a \<Rightarrow> py_error + 'a list" where
  "set_idx xs i v = (if i < length xs then Inr (xs[i := v]) else Inl IndexError)"

text \<open>\<open>xs[-1] = v\<close>.\<close>

definition set_last :: "'a list \<Rightarrow> 'a \<Rightarrow> py_error + 'a list" where
  "set_last xs v = (if xs = [] then Inl IndexError else Inr (butlast xs @ [v]))"

section \<open>Behaviour\<close>

lemma pop_front_Cons [simp, py_simps]: "pop_front (x # xs) = Inr (x, xs)"
  by (simp add: pop_front_def)

lemma pop_front_Nil [simp, py_simps]: "pop_front [] = Inl IndexError"
  by (simp add: pop_front_def)

lemma pop_back_nonempty [simp, py_simps]:
  "xs \<noteq> [] \<Longrightarrow> pop_back xs = Inr (last xs, butlast xs)"
  by (simp add: pop_back_def)

lemma set_idx_in_range [simp, py_simps]:
  "i < length xs \<Longrightarrow> set_idx xs i v = Inr (xs[i := v])"
  by (simp add: set_idx_def)

lemma set_last_nonempty [simp, py_simps]:
  "xs \<noteq> [] \<Longrightarrow> set_last xs v = Inr (butlast xs @ [v])"
  by (simp add: set_last_def)

declare append_py_def [simp, py_simps]

text \<open>
  The two window moves the filters make. \<open>slide\<close> is \<open>pop(0)\<close> then
  \<open>append\<close>; \<open>replace_newest\<close> is \<open>pop()\<close> then \<open>append\<close>.
\<close>

lemma slide_window:
  "xs \<noteq> [] \<Longrightarrow> bindE (pop_front xs) (\<lambda>(_, ys). Inr (append_py ys v)) = Inr (tl xs @ [v])"
  by (cases xs) simp_all

text \<open>
  Sliding a full window over a sequence of samples keeps its last \<open>length xs\<close>
  samples of the whole history: the refinement of the window list to the
  suffix of the accepted stream.
\<close>

lemma fold_slide_suffix:
  "xs \<noteq> [] \<Longrightarrow>
     fold (\<lambda>v w. tl w @ [v]) vs xs = drop (length vs) (xs @ vs)"
proof (induction vs arbitrary: xs)
  case Nil
  then show ?case by simp
next
  case (Cons v vs)
  have "fold (\<lambda>v w. tl w @ [v]) vs (tl xs @ [v]) = drop (length vs) ((tl xs @ [v]) @ vs)"
    by (rule Cons.IH) simp
  also have "\<dots> = drop (length (v # vs)) (xs @ v # vs)"
    using Cons.prems by (cases xs) (simp_all del: drop_append)
  finally show ?case by simp
qed

lemma length_fold_slide [simp]:
  "xs \<noteq> [] \<Longrightarrow> length (fold (\<lambda>v w. tl w @ [v]) vs xs) = length xs"
  by (simp add: fold_slide_suffix)

end
