(* ===== verification/Adc_Common.thy ===== *)
theory Adc_Common
  imports Regression Window
begin

text \<open>
  The state both driver classes declare with the same names and initial values
  (\<^verbatim>\<open>HX711.py\<close> lines 25--42, \<^verbatim>\<open>NAU7802.py\<close> lines 38--56): the status byte, the
  timer, the window and the published outputs. It is a record that each driver's
  record extends with its device-specific fields, so that the filter steps are
  stated once over \<open>'a adc_common_scheme\<close>. Also here: the status bits the two files
  define alike, and the reset and timer arming of \<open>startReadADC\<close>.
\<close>

unbundle bit_operations_syntax

section \<open>State\<close>

text \<open>
  \<open>Tim_callback\<close> and \<open>Tim_freq\<close> stand for the \<open>machine.Timer\<close> object \<open>__Tim\<close>:
  whether a periodic callback is armed, and at which frequency. \<open>dataI\<close> is a
  Python integer that only counts up from 0 and is kept as \<open>nat\<close>.
\<close>

record adc_common =
  Status :: int
  SPS :: int
  Tim_callback :: bool
  Tim_freq :: real
  dataI :: nat
  dataX :: "int list"
  dataY :: "int list"
  LinRegA :: real
  LinRegB :: real
  LinRegE :: real
  Check :: int
  MeanValue :: avg_val
  LinRegVal :: real
  ValStable :: int

section \<open>Status bits shared by both drivers\<close>

definition Status_Inited :: int where "Status_Inited = 0x80"
definition Status_EnTimer :: int where "Status_EnTimer = 0x20"
definition Status_PowerOn :: int where "Status_PowerOn = 0x10"
definition Status_PeriodicRead :: int where "Status_PeriodicRead = 0x08"

lemmas common_status_defs [status_simps] =
  Status_Inited_def Status_EnTimer_def Status_PowerOn_def Status_PeriodicRead_def

text \<open>\<open>if self.__Status & c:\<close> tests whether the masked value is non-zero.\<close>

definition has_flag :: "int \<Rightarrow> int \<Rightarrow> bool" where
  "has_flag st c \<longleftrightarrow> st AND c \<noteq> 0"

section \<open>Reset and timer of \<open>startReadADC\<close>\<close>

text \<open>
  The eight assignments that open the successful branch of \<open>startReadADC(1, Freq)\<close>
  in both drivers. The window list itself is not cleared: \<open>dataI = 0\<close> makes the
  next samples overwrite it from index 0.
\<close>

definition reset_filter :: "'a adc_common_scheme \<Rightarrow> 'a adc_common_scheme" where
  "reset_filter s =
     s\<lparr>dataI := 0, LinRegA := 0, LinRegB := 0, LinRegE := 0,
       MeanValue := AvgNum 0, LinRegVal := 0, ValStable := 0, Check := 0\<rparr>"

text \<open>\<open>Tim.init(freq=Freq, mode=Timer.PERIODIC, callback=self.updateADC)\<close>.\<close>

definition arm_timer :: "real \<Rightarrow> 'a adc_common_scheme \<Rightarrow> 'a adc_common_scheme" where
  "arm_timer f s = s\<lparr>Tim_callback := True, Tim_freq := f\<rparr>"

text \<open>\<open>Tim.init(callback=None)\<close>.\<close>

definition disarm_timer :: "'a adc_common_scheme \<Rightarrow> 'a adc_common_scheme" where
  "disarm_timer s = s\<lparr>Tim_callback := False\<rparr>"

section \<open>Facts\<close>

lemma has_flag_or_self [simp]:
  "c \<noteq> 0 \<Longrightarrow> has_flag (st OR c) c"
proof -
  assume "c \<noteq> 0"
  have "(st OR c) AND c = c" by (rule bit_eqI) (auto simp: bit_and_iff bit_or_iff)
  with \<open>c \<noteq> 0\<close> show ?thesis by (simp add: has_flag_def)
qed

lemma has_flag_or_mono:
  "has_flag st c \<Longrightarrow> has_flag (st OR d) c"
proof -
  assume "has_flag st c"
  have "(st OR d) AND c = (st AND c) OR (d AND c)"
    by (rule bit_eqI) (auto simp: bit_and_iff bit_or_iff)
  with \<open>has_flag st c\<close> show ?thesis by (simp add: has_flag_def or_eq_0_iff)
qed

lemma reset_filter_fields [simp]:
  "dataI (reset_filter s) = 0" "dataY (reset_filter s) = dataY s"
  "dataX (reset_filter s) = dataX s" "Check (reset_filter s) = 0"
  "ValStable (reset_filter s) = 0" "MeanValue (reset_filter s) = AvgNum 0"
  "LinRegVal (reset_filter s) = 0" "Status (reset_filter s) = Status s"
  "Tim_callback (reset_filter s) = Tim_callback s"
  by (simp_all add: reset_filter_def)

lemma has_flag_zero [simp]: "\<not> has_flag st 0"
  by (simp add: has_flag_def)

lemma has_flag_or:
  "has_flag (st OR d) c \<longleftrightarrow> has_flag st c \<or> has_flag d c"
proof -
  have "(st OR d) AND c = (st AND c) OR (d AND c)"
    by (rule bit_eqI) (auto simp: bit_and_iff bit_or_iff)
  then show ?thesis by (simp add: has_flag_def or_eq_0_iff)
qed

lemma has_flag_and:
  "has_flag (st AND d) c \<longleftrightarrow> has_flag st (d AND c)"
  by (simp add: has_flag_def and.assoc)

lemma has_flag_of_masked:
  "st AND m = v \<Longrightarrow> v AND c \<noteq> 0 \<Longrightarrow> has_flag st c"
proof -
  assume m: "st AND m = v" and c: "v AND c \<noteq> 0"
  have "(st AND c) AND m = v AND c" using m by (simp add: ac_simps)
  with c show ?thesis by (auto simp: has_flag_def)
qed

end
