(* ===== verification/HX711_Filter.thy ===== *)
theory HX711_Filter
  imports Adc_Common
begin

text \<open>
  The drift filter of the bit-banged driver: the body of \<open>HX711.updateADC\<close> after
  a sample \<open>tmp\<close> has been read and found different from the saturation code
  (\<^verbatim>\<open>src/HX711/HX711.py\<close> lines 102--129). It is stated over
  \<open>'a adc_common_scheme\<close>, so it applies to the driver record of theory \<open>HX711\<close>.
  Its modes are encoded as in the code: \<open>dataI < 11\<close> is filling, \<open>Check = 0\<close>
  tracking, \<open>Check = 1\<close> rechecking a suspect window.
\<close>

section \<open>Definitions\<close>

text \<open>The class attributes \<open>__dataX\<close> and \<open>__dataY\<close> (lines 33--34).\<close>

definition hx_dataX :: "int list" where
  "hx_dataX = [-5, -4, -3, -2, -1, 0, 1, 2, 3, 4, 5]"

definition hx_dataY0 :: "int list" where
  "hx_dataY0 = replicate 11 0"

text \<open>Filling (lines 102--104): \<open>__dataY[__dataI] = tmp; __dataI += 1\<close>.\<close>

definition hx_fill :: "int \<Rightarrow> 'a adc_common_scheme \<Rightarrow> py_error + 'a adc_common_scheme" where
  "hx_fill tmp s =
     bindE (set_idx (dataY s) (dataI s) tmp) (\<lambda>ys. Inr (s\<lparr>dataY := ys, dataI := dataI s + 1\<rparr>))"

text \<open>Tracking (lines 122--127): slide, refit, publish, and flag a suspect fit.\<close>

definition hx_track :: "int \<Rightarrow> 'a adc_common_scheme \<Rightarrow> py_error + 'a adc_common_scheme" where
  "hx_track tmp s =
     bindE (pop_front (dataY s)) (\<lambda>(_, ys).
     let ys' = append_py ys tmp in
     bindE (LinearReg (dataX s) ys') (\<lambda>(a, b, e).
     let s1 = s\<lparr>dataY := ys', LinRegA := a, LinRegB := b, LinRegE := e\<rparr>;
         s2 = s1\<lparr>MeanValue := Average (dataY s1), LinRegVal := LinRegB s1\<rparr>
     in Inr (if 10000 < LinRegE s2 then s2\<lparr>Check := 1\<rparr> else s2)))"

text \<open>
  Rechecking (lines 106--120). \<open>backup\<close> is the suspect newest sample, replaced by
  \<open>tmp\<close>; if the fit without it is good (\<open>e < 500\<close>) the replacement stays.
  Otherwise the code drops the oldest sample, puts \<open>backup\<close> back as the last
  element and appends \<open>tmp\<close> again, and refits. The \<open>print\<close> is not modelled.
\<close>

definition hx_recheck :: "int \<Rightarrow> 'a adc_common_scheme \<Rightarrow> py_error + 'a adc_common_scheme" where
  "hx_recheck tmp s =
     bindE (pop_back (dataY s)) (\<lambda>(backup, ys).
     let ys1 = append_py ys tmp in
     bindE (LinearReg (dataX s) ys1) (\<lambda>(a, b, e).
     bindE
       (if e < 500 then Inr (s\<lparr>dataY := ys1, LinRegA := a, LinRegB := b, LinRegE := e\<rparr>)
        else
          bindE (pop_front ys1) (\<lambda>(_, ys2).
          bindE (set_last ys2 backup) (\<lambda>ys3.
          let ys4 = append_py ys3 tmp in
          bindE (LinearReg (dataX s) ys4) (\<lambda>(a', b', e').
          Inr (s\<lparr>dataY := ys4, LinRegA := a', LinRegB := b', LinRegE := e'\<rparr>)))))
       (\<lambda>s1. Inr (s1\<lparr>MeanValue := Average (dataY s1), LinRegVal := LinRegB s1, Check := 0\<rparr>))))"

text \<open>The whole filter step (lines 102--129), with the stability rule of lines 128--129.\<close>

definition hx_filter :: "int \<Rightarrow> 'a adc_common_scheme \<Rightarrow> py_error + 'a adc_common_scheme" where
  "hx_filter tmp s =
     (if dataI s < 11 then hx_fill tmp s
      else bindE (if Check s = 1 then hx_recheck tmp s else hx_track tmp s)
             (\<lambda>s1. Inr (s1\<lparr>ValStable := (if LinRegE s1 < 250 then 1 else 0)\<rparr>)))"

text \<open>
  The class-attribute defaults of the filter fields (lines 31--42), which every
  instance starts from.
\<close>

definition hx_filter_defaults :: adc_common where
  "hx_filter_defaults =
     \<lparr>Status = 0, SPS = 0, Tim_callback = False, Tim_freq = 0, dataI = 0,
      dataX = hx_dataX, dataY = hx_dataY0, LinRegA = 0, LinRegB = 0, LinRegE = 0,
      Check = 0, MeanValue = AvgNum 0, LinRegVal = 0, ValStable = 0\<rparr>"

text \<open>Two states used by the witnesses below: a full window of zeros, with and without a pending recheck.\<close>

abbreviation hx_full_zero :: adc_common where
  "hx_full_zero \<equiv> hx_filter_defaults\<lparr>dataI := 11\<rparr>"

abbreviation hx_full_suspect :: adc_common where
  "hx_full_suspect \<equiv> hx_filter_defaults\<lparr>dataI := 11, Check := 1\<rparr>"

text \<open>The state the filter settles in under a constant load \<open>c\<close>.\<close>

abbreviation hx_const_state :: "int \<Rightarrow> 'a adc_common_scheme \<Rightarrow> 'a adc_common_scheme" where
  "hx_const_state c s \<equiv> s\<lparr>dataY := replicate 11 c, LinRegA := 0, LinRegB := of_int c, LinRegE := 0,
                           MeanValue := AvgNum (of_int c), LinRegVal := of_int c, ValStable := 1\<rparr>"

text \<open>Successive accepted samples, one timer tick each.\<close>

fun hx_filter_run :: "int list \<Rightarrow> 'a adc_common_scheme \<Rightarrow> py_error + 'a adc_common_scheme" where
  "hx_filter_run [] s = Inr s"
| "hx_filter_run (v # vs) s = bindE (hx_filter v s) (hx_filter_run vs)"

text \<open>
  The invariant of the filter: the offsets are the class constant, the window has
  its eleven slots, the fill index is at most eleven, and a recheck is pending only
  in the steady state.
\<close>

definition hx_filter_inv :: "'a adc_common_scheme \<Rightarrow> bool" where
  "hx_filter_inv s \<longleftrightarrow>
     dataX s = hx_dataX \<and> length (dataY s) = 11 \<and> dataI s \<le> 11 \<and>
     (Check s = 0 \<or> Check s = 1 \<and> dataI s = 11)"

text \<open>The published outputs agree with the regression of the current window.\<close>

definition hx_outputs_consistent :: "'a adc_common_scheme \<Rightarrow> bool" where
  "hx_outputs_consistent s \<longleftrightarrow>
     (LinRegA s, LinRegB s, LinRegE s) = ols_fit hx_dataX (dataY s) \<and>
     MeanValue s = Average (dataY s) \<and> LinRegVal s = LinRegB s \<and>
     ValStable s = (if LinRegE s < 250 then 1 else 0)"

section \<open>Branch lemmas\<close>

lemma ols_det_hx_dataX [simp]: "ols_det hx_dataX = 1210"
  by (simp add: ols_det_def hx_dataX_def)

lemma LinearReg_hx [simp]:
  "length Y = 11 \<Longrightarrow> LinearReg hx_dataX Y = Inr (ols_fit hx_dataX Y)"
  by (simp add: LinearReg_ols) (simp add: hx_dataX_def)

lemma tl_butlast_last:
  "2 \<le> length xs \<Longrightarrow> tl (butlast xs) @ [last xs] = tl xs"
  by (cases xs) (auto simp: butlast_append [symmetric])

lemma hx_track_eq:
  assumes "dataX s = hx_dataX" and "length (dataY s) = 11"
  shows "hx_track tmp s =
     (let ys = tl (dataY s) @ [tmp]; (a, b, e) = ols_fit hx_dataX ys;
          s2 = s\<lparr>dataY := ys, LinRegA := a, LinRegB := b, LinRegE := e,
                 MeanValue := Average ys, LinRegVal := b\<rparr>
      in Inr (if 10000 < e then s2\<lparr>Check := 1\<rparr> else s2))"
proof -
  obtain y ys where Y: "dataY s = y # ys" and "length ys = 10"
    using assms(2) by (cases "dataY s") auto
  then show ?thesis
    using assms by (simp add: hx_track_def Let_def split: prod.splits)
qed

lemma hx_recheck_eq:
  assumes "dataX s = hx_dataX" and "length (dataY s) = 11"
  shows "hx_recheck tmp s =
     (let ys1 = butlast (dataY s) @ [tmp]; ys2 = tl (dataY s) @ [tmp];
          s1 = (if snd (snd (ols_fit hx_dataX ys1)) < 500
                then s\<lparr>dataY := ys1, LinRegA := fst (ols_fit hx_dataX ys1),
                       LinRegB := fst (snd (ols_fit hx_dataX ys1)),
                       LinRegE := snd (snd (ols_fit hx_dataX ys1))\<rparr>
                else s\<lparr>dataY := ys2, LinRegA := fst (ols_fit hx_dataX ys2),
                       LinRegB := fst (snd (ols_fit hx_dataX ys2)),
                       LinRegE := snd (snd (ols_fit hx_dataX ys2))\<rparr>)
      in Inr (s1\<lparr>MeanValue := Average (dataY s1), LinRegVal := LinRegB s1, Check := 0\<rparr>))"
proof -
  have ne: "dataY s \<noteq> []"
    using assms(2) by auto
  have "length (butlast (dataY s)) = 10"
    using assms(2) by simp
  then obtain y ys where B: "butlast (dataY s) = y # ys" and L: "length ys = 9"
    by (cases "butlast (dataY s)") auto
  have tlb: "ys @ [last (dataY s)] = tl (dataY s)"
    using assms(2) tl_butlast_last [of "dataY s"] B by simp
  show ?thesis
    using assms ne B L
    by (simp add: hx_recheck_def Let_def case_prod_beta tlb [symmetric])
qed

lemmas hx_filter_branches = hx_filter_def hx_fill_def hx_track_eq hx_recheck_eq

text \<open>The step from the steady state, on every branch, publishes the fit of the new window.\<close>

lemma hx_filter_steady:
  assumes "hx_filter_inv s" and "dataI s = 11" and "hx_filter tmp s = Inr s'"
  shows "hx_outputs_consistent s' \<and> length (dataY s') = 11 \<and> dataX s' = hx_dataX"
  using assms
  by (auto simp: hx_filter_inv_def hx_filter_def hx_track_eq hx_recheck_eq
                 hx_outputs_consistent_def Let_def split: prod.splits if_splits)

lemma hx_inv_demo [simp]:
  "hx_filter_inv hx_filter_defaults" "hx_filter_inv hx_full_zero" "hx_filter_inv hx_full_suspect"
  by (simp_all add: hx_filter_inv_def hx_filter_defaults_def hx_dataY0_def)

lemma hx_demo_fields [simp]:
  "dataX hx_filter_defaults = hx_dataX" "dataY hx_filter_defaults = replicate 11 0"
  "dataI hx_filter_defaults = 0" "Check hx_filter_defaults = 0"
  by (simp_all add: hx_filter_defaults_def hx_dataY0_def)

lemma hx_demo_step_exists:
  "\<exists>s'. hx_filter t hx_full_zero = Inr s'" "\<exists>s'. hx_filter t hx_full_suspect = Inr s'"
  by (simp_all add: hx_filter_def hx_track_eq hx_recheck_eq Let_def case_prod_beta)

text \<open>Every step from an invariant state succeeds and lands in an invariant state.\<close>

lemma hx_filter_step_ok:
  "hx_filter_inv s \<Longrightarrow> \<exists>s'. hx_filter tmp s = Inr s' \<and> hx_filter_inv s'"
  by (auto simp: hx_filter_inv_def hx_filter_def hx_fill_def hx_track_eq hx_recheck_eq
                 Let_def split: prod.splits)

text \<open>The filter step writes only the filter fields.\<close>

lemma hx_filter_frame:
  assumes "hx_filter_inv s" and "hx_filter tmp s = Inr s'"
  shows "Status s' = Status s \<and> SPS s' = SPS s \<and> Tim_callback s' = Tim_callback s \<and>
         Tim_freq s' = Tim_freq s \<and> adc_common.more s' = adc_common.more s"
  using assms
  by (auto simp: hx_filter_inv_def hx_filter_def hx_fill_def hx_track_eq hx_recheck_eq
                 Let_def split: prod.splits if_splits)

section \<open>Runs of the filter\<close>

lemma hx_filter_run_append:
  "hx_filter_run (xs @ ys) s = bindE (hx_filter_run xs s) (hx_filter_run ys)"
  by (induction xs arbitrary: s) (auto simp: bindE_def split: sum.splits)

text \<open>While the window fills, a run of samples only writes them into the next slots.\<close>

lemma hx_fill_run:
  assumes "hx_filter_inv s" and "dataI s + length vs \<le> 11"
  shows "hx_filter_run vs s =
           Inr (s\<lparr>dataY := take (dataI s) (dataY s) @ vs @ drop (dataI s + length vs) (dataY s),
                  dataI := dataI s + length vs\<rparr>)"
  using assms
proof (induction vs arbitrary: s)
  case Nil
  then show ?case by simp
next
  case (Cons v vs)
  let ?s1 = "s\<lparr>dataY := (dataY s)[dataI s := v], dataI := Suc (dataI s)\<rparr>"
  have step: "hx_filter v s = Inr ?s1"
    using Cons.prems by (simp add: hx_filter_def hx_fill_def hx_filter_inv_def)
  have i1: "hx_filter_inv ?s1" and l1: "dataI ?s1 + length vs \<le> 11"
    using Cons.prems by (auto simp: hx_filter_inv_def)
  have "hx_filter_run vs ?s1 =
          Inr (?s1\<lparr>dataY := take (dataI ?s1) (dataY ?s1) @ vs @ drop (dataI ?s1 + length vs) (dataY ?s1),
                  dataI := dataI ?s1 + length vs\<rparr>)"
    by (rule Cons.IH [OF i1 l1])
  moreover have "take (Suc (dataI s)) ((dataY s)[dataI s := v]) = take (dataI s) (dataY s) @ [v]"
    using Cons.prems by (simp add: hx_filter_inv_def take_Suc_conv_app_nth)
  ultimately show ?case using step Cons.prems by (simp add: hx_filter_inv_def)
qed

text \<open>A window of one constant value: flat fit, zero residual, the value as mean.\<close>

lemma ols_fit_hx_const: "ols_fit hx_dataX (replicate 11 c) = (0, of_int c, 0)"
  unfolding ols_fit_def Let_def ols_det_hx_dataX by (simp add: hx_dataX_def numeral_eq_Suc)

lemma Average_const:
  "0 < n \<Longrightarrow> Average (replicate n c) = (if n = 1 then AvgList [c] else AvgNum (of_int c))"
  by (simp add: Average_def sum_list_replicate)

lemma hx_const_step:
  assumes "hx_filter_inv s" and "dataI s = 11" and "Check s = 0" and "dataY s = replicate 11 c"
  shows "hx_filter c s = Inr (hx_const_state c s)"
proof -
  have "tl (replicate 11 c) @ [c] = replicate 11 c" by (simp add: numeral_eq_Suc)
  with assms show ?thesis
    by (simp add: hx_filter_def hx_track_eq hx_filter_inv_def ols_fit_hx_const Average_const)
qed

text \<open>Once settled on \<open>c\<close>, further samples of \<open>c\<close> leave the state as it is.\<close>

lemma hx_const_fixed:
  assumes "hx_filter_inv s" and "dataI s = 11" and "Check s = 0" and "dataY s = replicate 11 c"
  shows "hx_filter_run (replicate k c) (hx_const_state c s) = Inr (hx_const_state c s)"
proof (induction k)
  case 0
  then show ?case by simp
next
  case (Suc k)
  have "hx_filter c (hx_const_state c s) = Inr (hx_const_state c (hx_const_state c s))"
    by (rule hx_const_step) (use assms in \<open>simp_all add: hx_filter_inv_def\<close>)
  with Suc.IH show ?case by simp
qed

section \<open>Properties of the filter step\<close>

text \<open>
  Claim C1. From any state satisfying the filter invariant, the filter step raises
  no exception: every \<open>pop\<close>, index assignment and \<open>LinearReg\<close> call of
  lines 102--129 succeeds, so the timer callback never dies in the filter.
\<close>

theorem hx_filter_no_exception:
  "hx_filter_inv s \<Longrightarrow> \<exists>s'. hx_filter tmp s = Inr s'"
  using hx_filter_step_ok by blast


theorem hx_filter_no_exception_witness:
  "hx_filter_inv hx_full_zero \<and> (\<exists>s'. hx_filter 7 hx_full_zero = Inr s')"
  using hx_filter_no_exception [of hx_full_zero 7] by simp

text \<open>
  Claim C2. The filter step preserves the invariant: the window keeps exactly
  eleven samples, the fill index stays at most eleven, the offsets are unchanged,
  and a recheck is only ever pending once the window is full.
\<close>

theorem hx_filter_preserves_inv:
  "hx_filter_inv s \<Longrightarrow> hx_filter tmp s = Inr s' \<Longrightarrow> hx_filter_inv s'"
  using hx_filter_step_ok [of s tmp] by auto


theorem hx_filter_preserves_inv_witness:
  "\<exists>s'. hx_filter_inv hx_full_zero \<and> hx_filter 7 hx_full_zero = Inr s' \<and> hx_filter_inv s'"
proof -
  obtain s' where r: "hx_filter 7 hx_full_zero = Inr s'"
    using hx_demo_step_exists(1) by blast
  show ?thesis using hx_filter_preserves_inv [OF _ r] r by auto
qed

text \<open>
  Claim C3. A pending recheck is resolved by the very next sample and never lasts
  longer: \<open>Check\<close> returns to 0, and the window is the previous one with its
  suspect newest sample replaced by the new sample if that fit has mean absolute
  residual below 500, and the plain slide otherwise.
\<close>

theorem hx_recheck_resolves:
  assumes "hx_filter_inv s" and "Check s = 1" and "hx_filter tmp s = Inr s'"
  shows "Check s' = 0 \<and>
         dataY s' = (if snd (snd (ols_fit hx_dataX (butlast (dataY s) @ [tmp]))) < 500
                     then butlast (dataY s) @ [tmp] else tl (dataY s) @ [tmp])"
  using assms
  by (auto simp: hx_filter_inv_def hx_filter_def hx_recheck_eq Let_def)


theorem hx_recheck_resolves_witness:
  "\<exists>s'. hx_filter_inv hx_full_suspect \<and> Check hx_full_suspect = 1 \<and>
        hx_filter 7 hx_full_suspect = Inr s' \<and> Check s' = 0 \<and>
        dataY s' = (if snd (snd (ols_fit hx_dataX (butlast (replicate 11 0) @ [7]))) < 500
                    then butlast (replicate 11 0) @ [7] else tl (replicate 11 0) @ [7])"
proof -
  obtain s' where r: "hx_filter 7 hx_full_suspect = Inr s'"
    using hx_demo_step_exists(2) by blast
  show ?thesis using hx_recheck_resolves [OF _ _ r] r by auto
qed

text \<open>
  Claim C4. In the tracking mode the window slides by one sample (the oldest
  leaves, the new one is appended), and the step raises the recheck flag exactly
  when the new fit's mean absolute residual exceeds 10000.
\<close>

theorem hx_track_slides:
  assumes "hx_filter_inv s" and "dataI s = 11" and "Check s = 0"
    and "hx_filter tmp s = Inr s'"
  shows "dataY s' = tl (dataY s) @ [tmp] \<and> (Check s' = 1 \<longleftrightarrow> 10000 < LinRegE s')"
  using assms
  by (auto simp: hx_filter_inv_def hx_filter_def hx_track_eq Let_def split: prod.splits if_splits)


theorem hx_track_slides_witness:
  "\<exists>s'. hx_filter_inv hx_full_zero \<and> dataI hx_full_zero = 11 \<and> Check hx_full_zero = 0 \<and>
        hx_filter 7 hx_full_zero = Inr s' \<and>
        dataY s' = tl (replicate 11 0) @ [7] \<and> (Check s' = 1 \<longleftrightarrow> 10000 < LinRegE s')"
proof -
  obtain s' where r: "hx_filter 7 hx_full_zero = Inr s'"
    using hx_demo_step_exists(1) by blast
  show ?thesis using hx_track_slides [OF _ _ _ r] r by auto
qed

text \<open>
  Claim C5. After every step in the steady state the stability flag is 1 exactly
  when the least-squares fit of the current window has mean absolute residual
  below 250.
\<close>

theorem hx_stable_iff_residual:
  assumes "hx_filter_inv s" and "dataI s = 11" and "hx_filter tmp s = Inr s'"
  shows "ValStable s' = 1 \<longleftrightarrow> snd (snd (ols_fit hx_dataX (dataY s'))) < 250"
proof -
  from hx_filter_steady [OF assms] have "hx_outputs_consistent s'" by blast
  then show ?thesis
    by (auto simp: hx_outputs_consistent_def dest: sym)
qed


theorem hx_stable_iff_residual_witness:
  "\<exists>s'. hx_filter_inv hx_full_zero \<and> dataI hx_full_zero = 11 \<and>
        hx_filter 7 hx_full_zero = Inr s' \<and>
        (ValStable s' = 1 \<longleftrightarrow> snd (snd (ols_fit hx_dataX (dataY s'))) < 250)"
proof -
  obtain s' where r: "hx_filter 7 hx_full_zero = Inr s'"
    using hx_demo_step_exists(1) by blast
  show ?thesis using hx_stable_iff_residual [OF _ _ r] r by auto
qed

text \<open>
  Claim C9. The value published as \<open>LinRegVal\<close> is the intercept \<open>__LinRegB\<close>, and
  with the symmetric offsets it equals the window average \<open>MeanValue\<close>: the driver
  publishes the mean twice, not the slope the specification calls the trend value.
\<close>

theorem hx_linregval_is_mean:
  assumes "hx_filter_inv s" and "dataI s = 11" and "hx_filter tmp s = Inr s'"
  shows "MeanValue s' = AvgNum (LinRegVal s')"
proof -
  from hx_filter_steady [OF assms]
  have c: "hx_outputs_consistent s'" and l: "length (dataY s') = 11" by blast+
  then have fit: "LinearReg hx_dataX (dataY s') = Inr (LinRegA s', LinRegB s', LinRegE s')"
    by (simp add: hx_outputs_consistent_def)
  have "Average (dataY s') = AvgNum (LinRegB s')"
    by (rule LinearReg_intercept_is_average [OF _ _ _ _ fit]) (simp_all add: l, simp_all add: hx_dataX_def)
  with c show ?thesis by (simp add: hx_outputs_consistent_def)
qed


theorem hx_linregval_is_mean_witness:
  "\<exists>s'. hx_filter_inv hx_full_zero \<and> dataI hx_full_zero = 11 \<and>
        hx_filter 7 hx_full_zero = Inr s' \<and> MeanValue s' = AvgNum (LinRegVal s')"
proof -
  obtain s' where r: "hx_filter 7 hx_full_zero = Inr s'"
    using hx_demo_step_exists(1) by blast
  show ?thesis using hx_linregval_is_mean [OF _ _ r] r by auto
qed

section \<open>Runs from a restart\<close>

text \<open>
  Claim C11. After a restart (\<open>dataI = 0\<close>, as \<open>startReadADC(1)\<close> leaves it),
  any eleven samples only fill the window: the resulting state is the start state
  with the window holding exactly those samples and the fill index at eleven. No
  fit, average or stability flag is published, whatever the samples are; the
  specification's scenario expects a stable reading after the eleventh sample.
\<close>

theorem hx_eleven_samples_fill_only:
  assumes "hx_filter_inv s" and "dataI s = 0" and "length vs = 11"
  shows "hx_filter_run vs s = Inr (s\<lparr>dataY := vs, dataI := 11\<rparr>)"
  using hx_fill_run [OF assms(1), of vs] assms by (simp add: hx_filter_inv_def)

theorem hx_eleven_samples_fill_only_witness:
  "hx_filter_run (replicate 11 1000) hx_filter_defaults =
     Inr (hx_filter_defaults\<lparr>dataY := replicate 11 1000, dataI := 11\<rparr>)"
  using hx_eleven_samples_fill_only [of hx_filter_defaults "replicate 11 1000"] by simp

text \<open>
  Claim C12. A constant load is reported as stable: after a restart, every stream
  of \<open>n \<ge> 12\<close> samples of one value \<open>c\<close> leaves the full window of \<open>c\<close>, slope 0,
  intercept, residual and published value \<open>c\<close> and 0, mean \<open>c\<close>, no recheck pending
  and \<open>ValStable = 1\<close>; further samples of \<open>c\<close> keep this state.
\<close>

theorem hx_constant_load_stable:
  assumes "hx_filter_inv s" and "dataI s = 0" and "12 \<le> n"
  shows "hx_filter_run (replicate n c) s =
           Inr (s\<lparr>dataY := replicate 11 c, dataI := 11, LinRegA := 0, LinRegB := of_int c,
                  LinRegE := 0, MeanValue := AvgNum (of_int c), LinRegVal := of_int c,
                  ValStable := 1\<rparr>)"
proof -
  let ?s1 = "s\<lparr>dataY := replicate 11 c, dataI := 11\<rparr>"
  have l: "length (dataY s) = 11" and c0: "Check s = 0"
    using assms(1,2) by (auto simp: hx_filter_inv_def)
  have fill: "hx_filter_run (replicate 11 c) s = Inr ?s1"
    using hx_fill_run [OF assms(1), of "replicate 11 c"] assms(2) l by simp
  have i1: "hx_filter_inv ?s1" using assms(1) c0 by (simp add: hx_filter_inv_def)
  have "hx_filter c ?s1 = Inr (hx_const_state c ?s1)"
    by (rule hx_const_step [OF i1]) (simp_all add: c0)
  moreover have "hx_filter_run (replicate (n - 12) c) (hx_const_state c ?s1) = Inr (hx_const_state c ?s1)"
    by (rule hx_const_fixed [OF i1]) (simp_all add: c0)
  moreover have "replicate n c = replicate 11 c @ c # replicate (n - 12) c"
  proof -
    have "n = 11 + Suc (n - 12)" using assms(3) by simp
    then show ?thesis by (metis replicate_add replicate_Suc)
  qed
  ultimately show ?thesis using fill by (simp add: hx_filter_run_append)
qed

theorem hx_constant_load_stable_witness:
  "hx_filter_run (replicate 12 1000) hx_filter_defaults =
     Inr (hx_filter_defaults\<lparr>dataY := replicate 11 1000, dataI := 11, LinRegA := 0, LinRegB := 1000,
            LinRegE := 0, MeanValue := AvgNum 1000, LinRegVal := 1000, ValStable := 1\<rparr>)"
  using hx_constant_load_stable [of hx_filter_defaults 12 1000] by simp

end
