(* ===== verification/Sample_Decode.thy ===== *)
theory Sample_Decode
  imports Prelude
begin

text \<open>
  The conversion of a 24-bit two's-complement code to a Python integer, which both
  drivers write the same way (\<^verbatim>\<open>HX711.py\<close> line 93, \<^verbatim>\<open>NAU7802.py\<close> line 124):
  \<open>if data & 0x800000: data = (data & 0x7FFFFF) - 0x800000\<close>. On a 24-bit code it
  is the signed reading of the code, and every code decodes into
  \<open>[-2^23, 2^23)\<close>.
\<close>

unbundle bit_operations_syntax

definition sign24 :: "int \<Rightarrow> int" where
  "sign24 data = (if data AND 0x800000 \<noteq> 0 then (data AND 0x7FFFFF) - 0x800000 else data)"

lemma sign24_code:
  assumes "0 \<le> d" and "d < 2 ^ 24"
  shows "sign24 d = (if 2 ^ 23 \<le> d then d - 2 ^ 24 else d)"
proof -
  have m: "(8388607 :: int) = mask 23"
    by (simp add: mask_eq_exp_minus_1)
  have e: "d AND 8388608 = 0 \<longleftrightarrow> \<not> bit d 23"
    using and_exp_eq_0_iff_not_bit [of d 23] by simp
  have b: "bit d 23 \<longleftrightarrow> 2 ^ 23 \<le> d"
  proof -
    have "d div 2 ^ 23 < 2" using assms(2) by (simp add: div_less_iff_less_mult)
    moreover have "0 \<le> d div 2 ^ 23" using assms(1) by simp
    ultimately have "d div 2 ^ 23 = 0 \<or> d div 2 ^ 23 = 1" by linarith
    then show ?thesis
      using assms(1) by (auto simp: bit_iff_odd div_pos_geq pos_imp_zdiv_neg_iff
                                    zdiv_eq_0_iff)
  qed
  have t: "d AND 8388607 = d mod 2 ^ 23"
    by (simp only: m take_bit_eq_mask [symmetric] take_bit_eq_mod)
  show ?thesis
  proof (cases "2 ^ 23 \<le> d")
    case True
    have c: "d AND 8388608 \<noteq> 0" using e b True by simp
    have "d mod 2 ^ 23 = (d - 2 ^ 23 + 2 ^ 23) mod 2 ^ 23" by simp
    also have "\<dots> = (d - 2 ^ 23) mod 2 ^ 23" by (simp only: mod_add_self2)
    also have "\<dots> = d - 2 ^ 23"
      using True assms(2) by (intro mod_pos_pos_trivial) simp_all
    finally have md: "d mod 2 ^ 23 = d - 2 ^ 23" .
    have "sign24 d = (d AND 8388607) - 8388608"
      unfolding sign24_def by (rule if_P [OF c])
    also have "\<dots> = d - 2 ^ 24" by (simp only: t md) simp
    finally show ?thesis using True by (simp only: if_P)
  next
    case False
    have c: "\<not> d AND 8388608 \<noteq> 0" using e b False by simp
    have "sign24 d = d" unfolding sign24_def by (rule if_not_P [OF c])
    then show ?thesis using False by simp
  qed
qed

lemma sign24_range:
  "0 \<le> d \<Longrightarrow> d < 2 ^ 24 \<Longrightarrow> - (2 ^ 23) \<le> sign24 d \<and> sign24 d < 2 ^ 23"
  by (simp add: sign24_code)

lemma sign24_mod:
  "- (2 ^ 23) \<le> v \<Longrightarrow> v < 2 ^ 23 \<Longrightarrow> sign24 (v mod 2 ^ 24) = v"
proof -
  assume lo: "- (2 ^ 23) \<le> v" and hi: "v < 2 ^ 23"
  show ?thesis
  proof (cases "0 \<le> v")
    case True
    with hi have "v mod 2 ^ 24 = v" by simp
    moreover have "sign24 v = v" using True hi by (simp add: sign24_code)
    ultimately show ?thesis by simp
  next
    case False
    have "v mod 2 ^ 24 = (v + 2 ^ 24) mod 2 ^ 24" by (simp only: mod_add_self2)
    also have "\<dots> = v + 2 ^ 24"
      using lo False by (intro mod_pos_pos_trivial) simp_all
    finally have "v mod 2 ^ 24 = v + 2 ^ 24" .
    with lo False show ?thesis by (simp add: sign24_code)
  qed
qed

end
