(* ===== verification/HX711.thy ===== *)
theory HX711
  imports HX711_Filter Sample_Decode
begin

text \<open>
  The bit-banged HX711 driver, \<^verbatim>\<open>src/HX711/HX711.py\<close>: the instance record, the
  constructor, power sequencing with the interrupt-driven ready flag, the 24-bit
  read, the gain switch, the timer callback \<open>updateADC\<close> and \<open>startReadADC\<close>.
  The status byte is the Python integer \<open>__Status\<close> with its bit operations. The
  pins are kept as the two facts the code relies on: the level of SCK and whether
  the falling-edge handler on DOUT is armed. The hardware enters as arguments: the
  level of DOUT at each clock pulse of a read, and at each 100 microsecond poll of
  \<open>PowerOn\<close> whether the falling edge has occurred.
\<close>

unbundle bit_operations_syntax

section \<open>State and constants\<close>

record hx711 = adc_common +
  ChMode :: int
  PinSCK :: bool
  dout_irq :: bool

definition Status_OutReady :: int where "Status_OutReady = 0x04"
definition MaskCanPeriodicRead :: int where "MaskCanPeriodicRead = 0xB0"

definition ChAx128 :: int where "ChAx128 = 25"
definition ChBx32 :: int where "ChBx32 = 26"
definition ChAx64 :: int where "ChAx64 = 27"

text \<open>The saturation code that \<open>updateADC\<close> discards (line 101).\<close>

definition hx_sentinel :: int where "hx_sentinel = 8388607"

text \<open>The class attributes (lines 25--42); the pins are \<open>None\<close>, kept as low and unarmed.\<close>

definition hx711_defaults :: hx711 where
  "hx711_defaults =
     \<lparr>Status = 0, SPS = 0, Tim_callback = False, Tim_freq = 0, dataI = 0,
      dataX = hx_dataX, dataY = hx_dataY0, LinRegA = 0, LinRegB = 0, LinRegE = 0,
      Check = 0, MeanValue = AvgNum 0, LinRegVal = 0, ValStable = 0,
      ChMode = 0, PinSCK = False, dout_irq = False\<rparr>"

section \<open>Operations\<close>

text \<open>
  \<open>__init__(SCK, DOUT, ChMode, TimerPort)\<close> (lines 43--54); \<open>timer\<close> says whether a
  \<open>TimerPort\<close> was given. On invalid arguments \<open>__init__\<close> returns early and the
  instance keeps the class defaults, status 0 included.
\<close>

definition HX711_init :: "int \<Rightarrow> int \<Rightarrow> int \<Rightarrow> bool \<Rightarrow> hx711" where
  "HX711_init sck dout mode timer =
     (if (0 \<le> sck \<and> sck \<le> 22) \<and> (0 \<le> dout \<and> dout \<le> 22) \<and> sck \<noteq> dout \<and>
         (25 \<le> mode \<and> mode \<le> 27)
      then hx711_defaults\<lparr>PinSCK := True, ChMode := mode,
             Status := (if timer then Status_Inited OR Status_EnTimer else Status_Inited)\<rparr>
      else hx711_defaults)"

text \<open>\<open>PinDOUT_IRQHandler\<close> (lines 74--76): disarm, and flag the conversion ready.\<close>

definition PinDOUT_IRQHandler :: "hx711 \<Rightarrow> hx711" where
  "PinDOUT_IRQHandler s =
     (let s1 = s\<lparr>dout_irq := False\<rparr>
      in if has_flag (Status s1) Status_PowerOn
         then s1\<lparr>Status := Status s1 OR Status_OutReady\<rparr> else s1)"

text \<open>
  The wait loop of \<open>PowerOn\<close> (line 66): \<open>while (Status & OutReady) == 0:
  sleep_us(100)\<close>. The flag is set only by the interrupt handler, which runs during a
  sleep when the falling edge \<open>irq i\<close> occurs at poll \<open>i\<close> and the handler is armed.
  The loop has no bound in the code; the model counts polls with \<open>fuel\<close>, and
  \<open>None\<close> is ``has not returned after \<open>fuel\<close> polls''.
\<close>

fun PowerOn_wait :: "nat \<Rightarrow> (nat \<Rightarrow> bool) \<Rightarrow> nat \<Rightarrow> hx711 \<Rightarrow> hx711 option" where
  "PowerOn_wait 0 irq i s = None"
| "PowerOn_wait (Suc n) irq i s =
     (if Status s AND Status_OutReady = 0
      then PowerOn_wait n irq (Suc i) (if irq i \<and> dout_irq s then PinDOUT_IRQHandler s else s)
      else Some s)"

text \<open>\<open>PowerOn\<close> (lines 61--66).\<close>

definition PowerOn :: "nat \<Rightarrow> (nat \<Rightarrow> bool) \<Rightarrow> hx711 \<Rightarrow> hx711 option" where
  "PowerOn fuel irq s =
     (if Status s AND (Status_Inited OR Status_PowerOn) = Status_Inited
      then PowerOn_wait fuel irq 0
             (s\<lparr>Status := Status s OR Status_PowerOn, dout_irq := True, PinSCK := False\<rparr>)
      else Some s)"

text \<open>\<open>PowerOff\<close> (lines 68--72): SCK high for 64 us powers the chip down.\<close>

definition PowerOff :: "hx711 \<Rightarrow> hx711" where
  "PowerOff s =
     (if has_flag (Status s) Status_PowerOn
      then s\<lparr>PinSCK := True, Status := Status s AND 0xE0\<rparr> else s)"

text \<open>
  The clock loop of \<open>getRawData\<close> (lines 87--92): \<open>ChMode\<close> pulses, the first 24
  of which shift in the level of DOUT, most significant bit first; the extra pulses
  select the next conversion's channel and gain.
\<close>

definition clock_in :: "(nat \<Rightarrow> bool) \<Rightarrow> nat \<Rightarrow> int" where
  "clock_in dout n =
     foldl (\<lambda>data i. if i < 24 then push_bit 1 data OR of_bool (dout i) else data) 0 [0..<n]"

text \<open>\<open>getRawData\<close> (lines 83--96): the value read, with the updated instance.\<close>

definition getRawData :: "(nat \<Rightarrow> bool) \<Rightarrow> hx711 \<Rightarrow> int \<times> hx711" where
  "getRawData dout s =
     (if has_flag (Status s) Status_OutReady
      then (sign24 (clock_in dout (nat (ChMode s))),
            s\<lparr>Status := Status s AND NOT Status_OutReady, dout_irq := True\<rparr>)
      else (0, s))"

text \<open>\<open>setChGain\<close> (lines 78--81): the new mode takes effect with a dummy read.\<close>

definition setChGain :: "int \<Rightarrow> (nat \<Rightarrow> bool) \<Rightarrow> hx711 \<Rightarrow> hx711" where
  "setChGain mode dout s =
     (if (25 \<le> mode \<and> mode \<le> 27) \<and> has_flag (Status s) Status_OutReady
      then snd (getRawData dout (s\<lparr>ChMode := mode\<rparr>)) else s)"

text \<open>The timer callback \<open>updateADC\<close> (lines 98--129).\<close>

definition updateADC :: "(nat \<Rightarrow> bool) \<Rightarrow> hx711 \<Rightarrow> py_error + hx711" where
  "updateADC dout s =
     (if has_flag (Status s) Status_OutReady
      then (let (tmp, s1) = getRawData dout s
            in if tmp \<noteq> hx_sentinel then hx_filter tmp s1 else Inr s1)
      else Inr s)"

text \<open>
  \<open>startReadADC(state, Freq)\<close> (lines 131--150). It returns \<open>1\<close>, \<open>0\<close>, or,
  when the outer test fails, falls off its end and returns \<open>None\<close>.
\<close>

definition startReadADC :: "int \<Rightarrow> real \<Rightarrow> hx711 \<Rightarrow> int option \<times> hx711" where
  "startReadADC state freq s =
     (if Status s AND MaskCanPeriodicRead = MaskCanPeriodicRead then
        if state = 1 \<and> Status s AND Status_PeriodicRead = 0 \<and> (0 < freq \<and> freq \<le> 2)
        then (Some 1, (arm_timer freq (reset_filter s))\<lparr>Status := Status s OR Status_PeriodicRead\<rparr>)
        else if state = 0 \<and> has_flag (Status s) Status_PeriodicRead
        then (Some 1, (disarm_timer s)\<lparr>Status := Status s AND NOT Status_PeriodicRead\<rparr>)
        else (Some 0, s)
      else (None, s))"

text \<open>\<open>__del__\<close> (lines 56--59), with \<open>startReadADC\<close>'s default frequency.\<close>

definition HX711_del :: "hx711 \<Rightarrow> hx711" where
  "HX711_del s =
     (let s1 = (if has_flag (Status s) Status_PeriodicRead then snd (startReadADC 0 2 s) else s);
          s2 = (if has_flag (Status s1) Status_PowerOn then PowerOff s1 else s1)
      in s2\<lparr>Status := 0\<rparr>)"

section \<open>The driver as a state machine\<close>

text \<open>
  One rule per entry point: the caller's methods, the interrupt handler when its
  edge arrives while it is armed, and the timer callback while a callback is armed.
  A callback that raised would leave the state unchanged; the lemmas below show it
  never raises.
\<close>

inductive hx_step :: "hx711 \<Rightarrow> hx711 \<Rightarrow> bool" where
  power_on: "PowerOn fuel irq s = Some s' \<Longrightarrow> hx_step s s'"
| irq: "dout_irq s \<Longrightarrow> hx_step s (PinDOUT_IRQHandler s)"
| tick: "Tim_callback s \<Longrightarrow> updateADC dout s = Inr s' \<Longrightarrow> hx_step s s'"
| start_read: "hx_step s (snd (startReadADC st f s))"
| power_off: "hx_step s (PowerOff s)"
| set_gain: "hx_step s (setChGain m dout s)"
| del: "hx_step s (HX711_del s)"

inductive hx_reachable :: "hx711 \<Rightarrow> bool" where
  init: "hx_reachable (HX711_init sck dout mode timer)"
| step: "hx_reachable s \<Longrightarrow> hx_step s s' \<Longrightarrow> hx_reachable s'"

text \<open>
  The status values the byte can take: none before a valid construction or after
  \<open>__del__\<close>; otherwise \<open>Inited\<close>, with or without \<open>EnTimer\<close>, and the power,
  ready and periodic flags in the combinations the methods allow.
\<close>

definition hx_status_values :: "int list" where
  "hx_status_values = [0, 0x80, 0xA0, 0x90, 0x94, 0xB0, 0xB4, 0xB8, 0xBC]"

definition hx_inv :: "hx711 \<Rightarrow> bool" where
  "hx_inv s \<longleftrightarrow>
     Status s \<in> set hx_status_values \<and> hx_filter_inv s \<and>
     (has_flag (Status s) Status_PeriodicRead \<longrightarrow> Tim_callback s)"

section \<open>Invariant of the state machine\<close>

lemmas hx_status_defs [status_simps] =
  Status_OutReady_def MaskCanPeriodicRead_def common_status_defs

lemma hx_filter_inv_update [simp]:
  "hx_filter_inv (s\<lparr>Status := x\<rparr>) = hx_filter_inv s"
  "hx_filter_inv (s\<lparr>dout_irq := b\<rparr>) = hx_filter_inv s"
  "hx_filter_inv (s\<lparr>PinSCK := b\<rparr>) = hx_filter_inv s"
  "hx_filter_inv (s\<lparr>ChMode := m\<rparr>) = hx_filter_inv s"
  "hx_filter_inv (s\<lparr>Tim_callback := b\<rparr>) = hx_filter_inv s"
  by (simp_all add: hx_filter_inv_def)

lemma hx_inv_init: "hx_inv (HX711_init sck dout mode timer)"
  by (simp add: hx_inv_def HX711_init_def hx711_defaults_def hx_filter_inv_def hx_dataY0_def
                hx_status_values_def status_simps has_flag_def)

lemma PinDOUT_IRQHandler_inv: "hx_inv s \<Longrightarrow> hx_inv (PinDOUT_IRQHandler s)"
  by (auto simp: hx_inv_def hx_status_values_def PinDOUT_IRQHandler_def Let_def
                 has_flag_def status_simps)

lemma PowerOn_wait_inv:
  "hx_inv s \<Longrightarrow> PowerOn_wait n irq i s = Some s' \<Longrightarrow> hx_inv s'"
proof (induction n arbitrary: i s)
  case 0
  then show ?case by simp
next
  case (Suc n)
  show ?case
  proof (cases "Status s AND Status_OutReady = 0")
    case True
    let ?t = "if irq i \<and> dout_irq s then PinDOUT_IRQHandler s else s"
    have "hx_inv ?t" using Suc.prems(1) PinDOUT_IRQHandler_inv by simp
    moreover have "PowerOn_wait n irq (Suc i) ?t = Some s'" using Suc.prems(2) True by simp
    ultimately show ?thesis by (rule Suc.IH)
  next
    case False
    with Suc.prems show ?thesis by simp
  qed
qed

lemma PowerOn_inv: "hx_inv s \<Longrightarrow> PowerOn fuel irq s = Some s' \<Longrightarrow> hx_inv s'"
proof -
  assume inv: "hx_inv s" and r: "PowerOn fuel irq s = Some s'"
  show ?thesis
  proof (cases "Status s AND (Status_Inited OR Status_PowerOn) = Status_Inited")
    case True
    with inv have "hx_inv (s\<lparr>Status := Status s OR Status_PowerOn, dout_irq := True,
                             PinSCK := False\<rparr>)"
      by (auto simp: hx_inv_def hx_status_values_def has_flag_def status_simps)
    with True r show ?thesis
      by (auto simp: PowerOn_def intro: PowerOn_wait_inv)
  next
    case False
    with inv r show ?thesis by (simp add: PowerOn_def)
  qed
qed

lemma getRawData_inv: "hx_inv s \<Longrightarrow> hx_inv (snd (getRawData dout s))"
  by (auto simp: hx_inv_def hx_status_values_def getRawData_def has_flag_def status_simps)

lemma getRawData_filter_fields [simp]:
  "dataI (snd (getRawData dout s)) = dataI s" "dataY (snd (getRawData dout s)) = dataY s"
  "Check (snd (getRawData dout s)) = Check s" "ValStable (snd (getRawData dout s)) = ValStable s"
  "MeanValue (snd (getRawData dout s)) = MeanValue s"
  "LinRegVal (snd (getRawData dout s)) = LinRegVal s"
  "LinRegA (snd (getRawData dout s)) = LinRegA s" "LinRegB (snd (getRawData dout s)) = LinRegB s"
  "LinRegE (snd (getRawData dout s)) = LinRegE s" "dataX (snd (getRawData dout s)) = dataX s"
  "Tim_callback (snd (getRawData dout s)) = Tim_callback s"
  by (simp_all add: getRawData_def)

lemma updateADC_ok:
  assumes inv: "hx_inv s"
  shows "\<exists>s'. updateADC dout s = Inr s' \<and> hx_inv s'"
proof (cases "has_flag (Status s) Status_OutReady")
  case True
  obtain tmp s1 where g: "getRawData dout s = (tmp, s1)" by fastforce
  have i1: "hx_inv s1" using getRawData_inv [OF inv, of dout] g by simp
  show ?thesis
  proof (cases "tmp = hx_sentinel")
    case True
    with \<open>has_flag (Status s) Status_OutReady\<close> g i1 show ?thesis
      by (simp add: updateADC_def)
  next
    case False
    from i1 have f1: "hx_filter_inv s1" by (simp add: hx_inv_def)
    then obtain s2 where r: "hx_filter tmp s1 = Inr s2" and f2: "hx_filter_inv s2"
      using hx_filter_step_ok by blast
    have "hx_inv s2"
      using i1 f2 hx_filter_frame [OF f1 r] by (simp add: hx_inv_def)
    with \<open>has_flag (Status s) Status_OutReady\<close> g r False show ?thesis
      by (simp add: updateADC_def)
  qed
next
  case False
  with inv show ?thesis by (simp add: updateADC_def)
qed

lemma startReadADC_inv: "hx_inv s \<Longrightarrow> hx_inv (snd (startReadADC st f s))"
  by (auto simp: hx_inv_def hx_status_values_def startReadADC_def has_flag_def status_simps
                 hx_filter_inv_def reset_filter_def arm_timer_def disarm_timer_def)

lemma PowerOff_inv: "hx_inv s \<Longrightarrow> hx_inv (PowerOff s)"
  by (auto simp: hx_inv_def hx_status_values_def PowerOff_def has_flag_def status_simps)

lemma setChGain_inv: "hx_inv s \<Longrightarrow> hx_inv (setChGain m dout s)"
proof -
  assume "hx_inv s"
  then have "hx_inv (s\<lparr>ChMode := m\<rparr>)" by (simp add: hx_inv_def)
  then show ?thesis by (simp add: setChGain_def getRawData_inv \<open>hx_inv s\<close>)
qed

lemma HX711_del_inv: "hx_inv s \<Longrightarrow> hx_inv (HX711_del s)"
proof -
  assume inv: "hx_inv s"
  define s1 where "s1 = (if has_flag (Status s) Status_PeriodicRead then snd (startReadADC 0 2 s) else s)"
  define s2 where "s2 = (if has_flag (Status s1) Status_PowerOn then PowerOff s1 else s1)"
  have "hx_inv s1" using inv startReadADC_inv by (simp add: s1_def)
  then have "hx_inv s2" using PowerOff_inv by (simp add: s2_def)
  then have "hx_inv (s2\<lparr>Status := 0\<rparr>)" by (simp add: hx_inv_def hx_status_values_def has_flag_def)
  then show ?thesis by (simp add: HX711_del_def Let_def flip: s1_def s2_def)
qed

lemma hx_step_inv: "hx_step s s' \<Longrightarrow> hx_inv s \<Longrightarrow> hx_inv s'"
proof (induction rule: hx_step.induct)
  case (power_on fuel irq s s')
  then show ?case by (blast intro: PowerOn_inv)
next
  case (tick s dout s')
  then show ?case using updateADC_ok [of s dout] by auto
qed (simp_all add: PinDOUT_IRQHandler_inv startReadADC_inv PowerOff_inv setChGain_inv
                   HX711_del_inv)

lemma hx_reachable_inv: "hx_reachable s \<Longrightarrow> hx_inv s"
  by (induction rule: hx_reachable.induct) (auto simp: hx_inv_init hx_step_inv)

lemma and_not_flag_clear [simp]: "(st AND NOT c) AND c = (0 :: int)"
  by (rule bit_eqI) (simp add: bit_and_iff bit_not_iff)

lemma periodic_clear_keeps_mask:
  "(st AND NOT Status_PeriodicRead) AND MaskCanPeriodicRead = st AND MaskCanPeriodicRead"
  by (simp add: status_simps and.assoc)

lemma hx_reachable_init: "hx_reachable (HX711_init 5 4 25 True)"
  by (rule hx_reachable.init)

text \<open>The two facts of the wait loop: it returns once the edge arrives, and never without it.\<close>

lemma PinDOUT_IRQHandler_ready:
  "has_flag (Status t) Status_PowerOn \<Longrightarrow>
     has_flag (Status (PinDOUT_IRQHandler t)) Status_OutReady \<and>
     has_flag (Status (PinDOUT_IRQHandler t)) Status_PowerOn"
  by (simp add: PinDOUT_IRQHandler_def Let_def has_flag_or_mono status_simps)

lemma PowerOn_wait_ready:
  "has_flag (Status t) Status_OutReady \<Longrightarrow> PowerOn_wait (Suc n) irq i t = Some t"
  by (simp add: has_flag_def)

lemma PowerOn_wait_fire:
  assumes "has_flag (Status t) Status_PowerOn" and "\<not> has_flag (Status t) Status_OutReady"
    and "irq i" and "dout_irq t"
  shows "PowerOn_wait (Suc (Suc n)) irq i t = Some (PinDOUT_IRQHandler t)"
proof -
  have "has_flag (Status (PinDOUT_IRQHandler t)) Status_OutReady"
    using PinDOUT_IRQHandler_ready [OF assms(1)] by blast
  then have "PowerOn_wait (Suc n) irq (Suc i) (PinDOUT_IRQHandler t) = Some (PinDOUT_IRQHandler t)"
    by (rule PowerOn_wait_ready)
  with assms(2-4) show ?thesis by (simp add: has_flag_def)
qed

lemma PowerOn_wait_returns:
  assumes "has_flag (Status t) Status_PowerOn"
    and "dout_irq t \<or> has_flag (Status t) Status_OutReady"
    and "irq (i + k)" and "k + 2 \<le> n"
  shows "\<exists>t'. PowerOn_wait n irq i t = Some t' \<and> has_flag (Status t') Status_OutReady \<and>
               has_flag (Status t') Status_PowerOn"
  using assms
proof (induction k arbitrary: i n)
  case 0
  then obtain m where n: "n = Suc (Suc m)" by (cases n; cases "n - 1") auto
  show ?case
  proof (cases "has_flag (Status t) Status_OutReady")
    case True
    have "PowerOn_wait n irq i t = Some t" unfolding n by (rule PowerOn_wait_ready [OF True])
    then show ?thesis using True "0.prems"(1) by blast
  next
    case False
    with "0.prems" have "PowerOn_wait n irq i t = Some (PinDOUT_IRQHandler t)"
      unfolding n by (intro PowerOn_wait_fire) simp_all
    then show ?thesis using PinDOUT_IRQHandler_ready [OF "0.prems"(1)] by blast
  qed
next
  case (Suc k)
  then obtain m where n: "n = Suc m" and m: "k + 2 \<le> m" by (cases n) auto
  show ?case
  proof (cases "has_flag (Status t) Status_OutReady")
    case True
    have "PowerOn_wait n irq i t = Some t" unfolding n by (rule PowerOn_wait_ready [OF True])
    then show ?thesis using True Suc.prems(1) by blast
  next
    case False
    show ?thesis
    proof (cases "irq i \<and> dout_irq t")
      case True
      from m obtain m' where m': "m = Suc m'" by (cases m) auto
      have "PowerOn_wait n irq i t = Some (PinDOUT_IRQHandler t)"
        unfolding n m' using True False Suc.prems(1) by (intro PowerOn_wait_fire) simp_all
      then show ?thesis using PinDOUT_IRQHandler_ready [OF Suc.prems(1)] by blast
    next
      case nofire: False
      have "PowerOn_wait n irq i t = PowerOn_wait m irq (Suc i) t"
        using nofire False unfolding n by (auto simp: has_flag_def)
      moreover have "\<exists>t'. PowerOn_wait m irq (Suc i) t = Some t' \<and>
                 has_flag (Status t') Status_OutReady \<and> has_flag (Status t') Status_PowerOn"
        using Suc.IH [of "Suc i" m] Suc.prems m by simp
      ultimately show ?thesis by simp
    qed
  qed
qed

lemma PowerOn_wait_hangs:
  "(\<forall>j. \<not> irq j) \<Longrightarrow> Status t AND Status_OutReady = 0 \<Longrightarrow> PowerOn_wait n irq i t = None"
  by (induction n arbitrary: i) simp_all

section \<open>Properties of the driver\<close>

text \<open>
  Claim C13. In every reachable state the status integer stays within one byte, the
  periodic-read flag is only set while the device is powered and a timer callback is
  armed, and the ready flag is only set while the device is powered.
\<close>

theorem hx_reachable_status_byte:
  assumes "hx_reachable s"
  shows "0 \<le> Status s \<and> Status s < 256 \<and>
         (has_flag (Status s) Status_PeriodicRead \<longrightarrow>
            has_flag (Status s) Status_PowerOn \<and> Tim_callback s) \<and>
         (has_flag (Status s) Status_OutReady \<longrightarrow> has_flag (Status s) Status_PowerOn)"
  using hx_reachable_inv [OF assms]
  by (auto simp: hx_inv_def hx_status_values_def has_flag_def status_simps)

theorem hx_reachable_status_byte_witness:
  "hx_reachable (HX711_init 5 4 25 True) \<and> 0 \<le> Status (HX711_init 5 4 25 True) \<and>
   Status (HX711_init 5 4 25 True) < 256"
  using hx_reachable_status_byte [OF hx_reachable_init] hx_reachable_init by simp

text \<open>
  Claim C14. In every reachable state the timer callback \<open>updateADC\<close> raises no
  exception, whatever the converter delivers.
\<close>

theorem hx_tick_no_exception:
  "hx_reachable s \<Longrightarrow> \<exists>s'. updateADC dout s = Inr s'"
  using updateADC_ok hx_reachable_inv by blast

theorem hx_tick_no_exception_witness:
  "hx_reachable (HX711_init 5 4 25 True) \<and>
   (\<exists>s'. updateADC (\<lambda>_. True) (HX711_init 5 4 25 True) = Inr s')"
  using hx_tick_no_exception [OF hx_reachable_init] hx_reachable_init by blast

text \<open>
  Claim C15. \<open>startReadADC(1, Freq)\<close> succeeds exactly when the instance is
  initialised, has a timer and is powered, periodic reading is not already running,
  and \<open>0 < Freq \<le> 2\<close>.
\<close>

theorem startReadADC_start_iff:
  "fst (startReadADC 1 f s) = Some 1 \<longleftrightarrow>
     Status s AND MaskCanPeriodicRead = MaskCanPeriodicRead \<and>
     \<not> has_flag (Status s) Status_PeriodicRead \<and> 0 < f \<and> f \<le> 2"
  by (auto simp: startReadADC_def has_flag_def)

text \<open>
  Claim C16. A successful start resets the filter (fill index, outputs, recheck
  flag), arms the periodic timer at the requested frequency and sets the
  periodic-read flag.
\<close>

theorem startReadADC_start_resets:
  assumes "startReadADC 1 f s = (Some 1, s')"
  shows "dataI s' = 0 \<and> Check s' = 0 \<and> ValStable s' = 0 \<and> MeanValue s' = AvgNum 0 \<and>
         LinRegVal s' = 0 \<and> Tim_callback s' \<and> Tim_freq s' = f \<and>
         has_flag (Status s') Status_PeriodicRead"
  using assms
  by (auto simp: startReadADC_def reset_filter_def arm_timer_def status_simps split: if_splits)

theorem startReadADC_start_resets_witness:
  "startReadADC 1 2 (hx711_defaults\<lparr>Status := 0xB4\<rparr>) =
     (Some 1, snd (startReadADC 1 2 (hx711_defaults\<lparr>Status := 0xB4\<rparr>))) \<and>
   Tim_callback (snd (startReadADC 1 2 (hx711_defaults\<lparr>Status := 0xB4\<rparr>)))"
proof -
  have r: "startReadADC 1 2 (hx711_defaults\<lparr>Status := 0xB4\<rparr>) =
             (Some 1, snd (startReadADC 1 2 (hx711_defaults\<lparr>Status := 0xB4\<rparr>)))"
    by (simp add: startReadADC_def status_simps)
  show ?thesis using startReadADC_start_resets [OF r] r by simp
qed

text \<open>
  Claim C22. A constructor call with invalid pins or channel mode leaves an instance
  with status 0 on which \<open>PowerOn\<close> does nothing and \<open>startReadADC\<close> returns
  \<open>None\<close>: the instance exists but is inert.
\<close>

theorem HX711_init_invalid_inert:
  assumes "\<not> ((0 \<le> sck \<and> sck \<le> 22) \<and> (0 \<le> dout \<and> dout \<le> 22) \<and> sck \<noteq> dout \<and>
              (25 \<le> mode \<and> mode \<le> 27))"
  shows "Status (HX711_init sck dout mode timer) = 0 \<and>
         PowerOn fuel irq (HX711_init sck dout mode timer) = Some (HX711_init sck dout mode timer) \<and>
         fst (startReadADC st f (HX711_init sck dout mode timer)) = None"
  using assms
  by (simp add: HX711_init_def hx711_defaults_def PowerOn_def startReadADC_def status_simps)

theorem HX711_init_invalid_inert_witness:
  "\<not> ((0 \<le> (5::int) \<and> 5 \<le> (22::int)) \<and> (0 \<le> (5::int) \<and> 5 \<le> (22::int)) \<and> (5::int) \<noteq> 5 \<and>
        (25 \<le> (25::int) \<and> 25 \<le> (27::int))) \<and>
   Status (HX711_init 5 5 25 True) = 0 \<and>
   PowerOn 3 (\<lambda>_. True) (HX711_init 5 5 25 True) = Some (HX711_init 5 5 25 True) \<and>
   fst (startReadADC 1 2 (HX711_init 5 5 25 True)) = None"
  using HX711_init_invalid_inert [of 5 5 25 True 3 "\<lambda>_. True" 1 2] by simp

text \<open>
  Claim C18. \<open>PowerOn\<close> returns once the converter signals: from a constructed,
  unpowered instance, if the falling edge on DOUT arrives at poll \<open>k\<close>, the wait
  loop ends within \<open>k + 2\<close> polls with the device powered and ready.
\<close>

theorem PowerOn_returns:
  assumes "Status s AND (Status_Inited OR Status_PowerOn) = Status_Inited"
    and "irq k" and "k + 2 \<le> fuel"
  shows "\<exists>s'. PowerOn fuel irq s = Some s' \<and> has_flag (Status s') Status_OutReady \<and>
              has_flag (Status s') Status_PowerOn"
proof -
  let ?t = "s\<lparr>Status := Status s OR Status_PowerOn, dout_irq := True, PinSCK := False\<rparr>"
  have "has_flag (Status ?t) Status_PowerOn" by (simp add: status_simps)
  moreover have "dout_irq ?t \<or> has_flag (Status ?t) Status_OutReady" by simp
  ultimately show ?thesis
    using PowerOn_wait_returns [of ?t irq 0 k fuel] assms by (simp add: PowerOn_def)
qed

theorem PowerOn_returns_witness:
  "HX711_init 5 4 25 True = HX711_init 5 4 25 True \<and>
   Status (HX711_init 5 4 25 True) AND (Status_Inited OR Status_PowerOn) = Status_Inited \<and>
   (\<lambda>j. j = 3) 3 \<and> 3 + 2 \<le> (5::nat) \<and>
   (\<exists>s'. PowerOn 5 (\<lambda>j. j = 3) (HX711_init 5 4 25 True) = Some s' \<and>
         has_flag (Status s') Status_OutReady)"
proof -
  have g: "Status (HX711_init 5 4 25 True) AND (Status_Inited OR Status_PowerOn) = Status_Inited"
    by (simp add: HX711_init_def hx711_defaults_def status_simps)
  show ?thesis using PowerOn_returns [OF g, of "\<lambda>j. j = 3" 3 5] g by auto
qed

text \<open>
  Claim C19. \<open>PowerOn\<close> has no timeout: if the converter never signals ready, the
  call does not return, however many polls are allowed.
\<close>

theorem PowerOn_hangs:
  assumes "Status s AND (Status_Inited OR Status_PowerOn) = Status_Inited"
    and "\<not> has_flag (Status s) Status_OutReady" and "\<forall>j. \<not> irq j"
  shows "PowerOn fuel irq s = None"
proof -
  have "(Status s OR Status_PowerOn) AND Status_OutReady = Status s AND Status_OutReady"
    by (simp add: status_simps and.commute [of _ 4] or.commute bit.conj_disj_distrib)
  with assms show ?thesis
    by (simp add: PowerOn_def PowerOn_wait_hangs has_flag_def)
qed

theorem PowerOn_hangs_witness:
  "Status (HX711_init 5 4 25 True) AND (Status_Inited OR Status_PowerOn) = Status_Inited \<and>
   \<not> has_flag (Status (HX711_init 5 4 25 True)) Status_OutReady \<and> (\<forall>j::nat. \<not> False) \<and>
   PowerOn 1000 (\<lambda>_. False) (HX711_init 5 4 25 True) = None"
proof -
  have g: "Status (HX711_init 5 4 25 True) AND (Status_Inited OR Status_PowerOn) = Status_Inited"
    and r: "\<not> has_flag (Status (HX711_init 5 4 25 True)) Status_OutReady"
    by (simp_all add: HX711_init_def hx711_defaults_def status_simps has_flag_def)
  show ?thesis using PowerOn_hangs [OF g r, of "\<lambda>_. False" 1000] g r by simp
qed

end
