(* ===== verification/HX711_Read.thy ===== *)
theory HX711_Read
  imports HX711
begin

text \<open>
  What \<open>getRawData\<close> and \<open>updateADC\<close> of \<^verbatim>\<open>src/HX711/HX711.py\<close> make of the bits
  the converter shifts out: the clock loop assembles the first 24 levels of DOUT
  most significant bit first, and \<open>sign24\<close> reads them as two's complement. The
  theory proves the range of every reading, the round trip from a signed value to
  its bits and back, that the saturation code never reaches the filter, and a run
  showing that \<open>PowerOff\<close> leaves the periodic timer armed.
\<close>

unbundle bit_operations_syntax

section \<open>The clock loop\<close>

lemma shift_or_bit: "d * 2 OR of_bool b = 2 * d + of_bool b" for d :: int
  by (cases b) (simp_all add: or_one_eq)

lemma clock_in_0 [simp]: "clock_in dout 0 = 0"
  by (simp add: clock_in_def)

lemma clock_in_Suc:
  "clock_in dout (Suc n) =
     (if n < 24 then 2 * clock_in dout n + of_bool (dout n) else clock_in dout n)"
  by (simp add: clock_in_def shift_or_bit)

lemma clock_in_range: "0 \<le> clock_in dout n \<and> clock_in dout n < 2 ^ min n 24"
proof (induction n)
  case 0
  then show ?case by simp
next
  case (Suc n)
  show ?case
  proof (cases "n < 24")
    case True
    then have "min (Suc n) 24 = Suc (min n 24)" by simp
    with True Suc.IH show ?thesis by (simp add: clock_in_Suc)
  next
    case False
    then have "min (Suc n) 24 = min n 24" by simp
    with False Suc.IH show ?thesis by (simp add: clock_in_Suc)
  qed
qed

lemma clock_in_ge24: "24 \<le> n \<Longrightarrow> clock_in dout n = clock_in dout 24"
proof (induction n)
  case 0
  then show ?case by simp
next
  case (Suc n)
  show ?case
  proof (cases "24 \<le> n")
    case True
    with Suc.IH show ?thesis by (simp add: clock_in_Suc)
  next
    case False
    with Suc.prems have "Suc n = 24" by simp
    then show ?thesis by simp
  qed
qed

text \<open>Clocking out the 24 bits of \<open>v\<close>, most significant first, reads \<open>v mod 2^24\<close>.\<close>

lemma div_exp_step:
  "(t :: int) div 2 ^ j = 2 * (t div 2 ^ Suc j) + of_bool (bit t j)"
proof -
  have "t div 2 ^ Suc j = t div (2 ^ j * 2)" by (simp add: mult.commute)
  also have "\<dots> = t div 2 ^ j div 2" by (rule zdiv_zmult2_eq) simp
  finally have "t div 2 ^ Suc j = t div 2 ^ j div 2" .
  moreover have "of_bool (bit t j) = t div 2 ^ j mod 2"
    by (simp add: bit_iff_odd mod2_eq_if)
  ultimately show ?thesis by simp
qed

lemma clock_in_bits:
  "k \<le> 24 \<Longrightarrow> clock_in (\<lambda>i. bit v (23 - i)) k = (v mod 2 ^ 24) div 2 ^ (24 - k)"
proof (induction k)
  case 0
  have "0 \<le> v mod 2 ^ 24" and "v mod 2 ^ 24 < 2 ^ 24" by simp_all
  then show ?case by simp
next
  case (Suc k)
  then have k: "k < 24" by simp
  have e: "24 - k = Suc (23 - k)" using k by simp
  have b: "bit (v mod 2 ^ 24) (23 - k) = bit v (23 - k)"
    by (simp only: take_bit_eq_mod [symmetric]) (auto simp: bit_take_bit_iff)
  have "clock_in (\<lambda>i. bit v (23 - i)) (Suc k)
          = 2 * ((v mod 2 ^ 24) div 2 ^ Suc (23 - k)) + of_bool (bit v (23 - k))"
    using Suc k by (simp add: clock_in_Suc e)
  also have "\<dots> = (v mod 2 ^ 24) div 2 ^ (23 - k)"
    using div_exp_step [of "v mod 2 ^ 24" "23 - k"] b by simp
  finally show ?case using k by (simp add: Suc_diff_Suc)
qed

lemma clock_in_roundtrip:
  "24 \<le> n \<Longrightarrow> clock_in (\<lambda>i. bit v (23 - i)) n = v mod 2 ^ 24"
  using clock_in_ge24 [of n] clock_in_bits [of 24 v] by simp

section \<open>Properties of the read\<close>

text \<open>
  Claim C23. Every value \<open>getRawData\<close> returns lies in the signed 24-bit range
  \<open>[-2^23, 2^23)\<close>, whatever the levels on DOUT and the channel mode.
\<close>

theorem getRawData_range:
  "- (2 ^ 23) \<le> fst (getRawData dout s) \<and> fst (getRawData dout s) < 2 ^ 23"
proof (cases "has_flag (Status s) Status_OutReady")
  case True
  have "clock_in dout (nat (ChMode s)) < 2 ^ min (nat (ChMode s)) 24"
    by (simp add: clock_in_range)
  also have "\<dots> \<le> 2 ^ 24" by (rule power_increasing) simp_all
  finally have hi: "clock_in dout (nat (ChMode s)) < 2 ^ 24" .
  have lo: "0 \<le> clock_in dout (nat (ChMode s))" by (simp add: clock_in_range)
  have "fst (getRawData dout s) = sign24 (clock_in dout (nat (ChMode s)))"
    using True by (simp add: getRawData_def)
  with sign24_range [OF lo hi] show ?thesis by simp
next
  case False
  then show ?thesis by (simp add: getRawData_def)
qed

text \<open>
  Claim C24. Reading a conversion whose 24 bits encode the signed value \<open>v\<close> (most
  significant bit first, as the HX711 shifts them out) returns exactly \<open>v\<close>, for
  every \<open>v\<close> in the 24-bit range and every channel mode of at least 24 pulses.
\<close>

theorem getRawData_roundtrip:
  assumes "has_flag (Status s) Status_OutReady" and "24 \<le> ChMode s"
    and "- (2 ^ 23) \<le> v" and "v < 2 ^ 23"
  shows "fst (getRawData (\<lambda>i. bit v (23 - i)) s) = v"
proof -
  have "24 \<le> nat (ChMode s)" using assms(2) by simp
  then have c: "clock_in (\<lambda>i. bit v (23 - i)) (nat (ChMode s)) = v mod 2 ^ 24"
    by (rule clock_in_roundtrip)
  have "fst (getRawData (\<lambda>i. bit v (23 - i)) s) = sign24 (clock_in (\<lambda>i. bit v (23 - i)) (nat (ChMode s)))"
    using assms(1) by (simp add: getRawData_def)
  also have "\<dots> = sign24 (v mod 2 ^ 24)" by (simp only: c)
  also have "\<dots> = v" using assms(3,4) by (rule sign24_mod)
  finally show ?thesis .
qed

theorem getRawData_roundtrip_witness:
  "has_flag (Status (hx711_defaults\<lparr>Status := 0x94, ChMode := 25\<rparr>)) Status_OutReady \<and>
   24 \<le> ChMode (hx711_defaults\<lparr>Status := 0x94, ChMode := 25\<rparr>) \<and>
   - (2 ^ 23) \<le> (-5 :: int) \<and> (-5 :: int) < 2 ^ 23 \<and>
   fst (getRawData (\<lambda>i. bit (-5 :: int) (23 - i)) (hx711_defaults\<lparr>Status := 0x94, ChMode := 25\<rparr>)) = -5"
proof -
  have r: "has_flag (Status (hx711_defaults\<lparr>Status := 0x94, ChMode := 25\<rparr>)) Status_OutReady"
    by (simp add: has_flag_def status_simps)
  show ?thesis using getRawData_roundtrip [OF r, of "-5"] r by simp
qed

text \<open>
  Claim C20. A read that returns the saturation code \<open>8388607\<close> is dropped: the
  timer callback only consumes the ready flag and re-arms the interrupt, and the
  window, the fill index, the recheck flag and every published output keep their
  values.
\<close>

theorem updateADC_drops_sentinel:
  assumes "has_flag (Status s) Status_OutReady" and "fst (getRawData dout s) = hx_sentinel"
  shows "updateADC dout s = Inr (snd (getRawData dout s)) \<and>
         dataY (snd (getRawData dout s)) = dataY s \<and> dataI (snd (getRawData dout s)) = dataI s \<and>
         Check (snd (getRawData dout s)) = Check s \<and>
         ValStable (snd (getRawData dout s)) = ValStable s \<and>
         MeanValue (snd (getRawData dout s)) = MeanValue s \<and>
         LinRegVal (snd (getRawData dout s)) = LinRegVal s"
  using assms by (simp add: updateADC_def case_prod_beta)

theorem updateADC_drops_sentinel_witness:
  "has_flag (Status (hx711_defaults\<lparr>Status := 0x94, ChMode := 25\<rparr>)) Status_OutReady \<and>
   fst (getRawData (\<lambda>i. 0 < i) (hx711_defaults\<lparr>Status := 0x94, ChMode := 25\<rparr>)) = hx_sentinel \<and>
   dataI (snd (getRawData (\<lambda>i. 0 < i) (hx711_defaults\<lparr>Status := 0x94, ChMode := 25\<rparr>))) = 0 \<and>
   updateADC (\<lambda>i. 0 < i) (hx711_defaults\<lparr>Status := 0x94, ChMode := 25\<rparr>) =
     Inr (snd (getRawData (\<lambda>i. 0 < i) (hx711_defaults\<lparr>Status := 0x94, ChMode := 25\<rparr>)))"
proof -
  have r: "has_flag (Status (hx711_defaults\<lparr>Status := 0x94, ChMode := 25\<rparr>)) Status_OutReady"
    by (simp add: has_flag_def status_simps)
  have v: "fst (getRawData (\<lambda>i. 0 < i) (hx711_defaults\<lparr>Status := 0x94, ChMode := 25\<rparr>)) = hx_sentinel"
    using r by (simp add: getRawData_def clock_in_def sign24_def hx_sentinel_def upt_rec
                          shift_or_bit)
  show ?thesis using updateADC_drops_sentinel [OF r v] r v
    by (simp add: hx711_defaults_def)
qed

section \<open>Power-off with periodic reading running\<close>

text \<open>
  \<open>Status &= 0xE0\<close> keeps \<open>Inited\<close> and \<open>EnTimer\<close> and clears \<open>PowerOn\<close>,
  \<open>PeriodicRead\<close> and \<open>OutReady\<close>.
\<close>

lemma PowerOff_status:
  "has_flag (Status s) Status_PowerOn \<Longrightarrow> Status (PowerOff s) = Status s AND 0xE0"
  by (simp add: PowerOff_def)

lemma and_E0_flags:
  "\<not> has_flag (x AND 0xE0) Status_PowerOn" "\<not> has_flag (x AND 0xE0) Status_PeriodicRead"
  "\<not> has_flag (x AND 0xE0) Status_OutReady"
  by (simp_all add: has_flag_and status_simps)

lemma and_E0_cannot_start: "(x AND 0xE0) AND MaskCanPeriodicRead \<noteq> MaskCanPeriodicRead"
proof
  assume "(x AND 0xE0) AND MaskCanPeriodicRead = MaskCanPeriodicRead"
  then have "has_flag ((x AND 0xE0) AND MaskCanPeriodicRead) Status_PowerOn"
    by (simp add: has_flag_def status_simps)
  then show False by (simp add: has_flag_and status_simps)
qed

text \<open>
  Claim C21. \<open>PowerOff\<close> of a powered driver whose timer callback is armed clears the
  periodic-read flag but leaves the callback armed. From the powered-off state,
  \<open>startReadADC\<close> with any arguments returns \<open>None\<close> and changes nothing, so it
  cannot stop the timer. Every tick of the orphaned callback is a no-op, and
  \<open>__del__\<close> leaves the callback armed.
\<close>

theorem PowerOff_leaves_timer_armed:
  assumes "Tim_callback s" and "has_flag (Status s) Status_PowerOn"
  shows "Tim_callback (PowerOff s) \<and> \<not> has_flag (Status (PowerOff s)) Status_PeriodicRead \<and>
         startReadADC st f (PowerOff s) = (None, PowerOff s) \<and>
         updateADC dout (PowerOff s) = Inr (PowerOff s) \<and>
         Tim_callback (HX711_del (PowerOff s))"
  using assms
  by (simp add: PowerOff_status and_E0_flags and_E0_cannot_start startReadADC_def updateADC_def
                HX711_del_def)
     (simp add: PowerOff_def)

theorem PowerOff_leaves_timer_armed_witness:
  "Tim_callback (PowerOff (hx711_defaults\<lparr>Status := 0xBC, Tim_callback := True\<rparr>)) \<and>
   startReadADC 0 2 (PowerOff (hx711_defaults\<lparr>Status := 0xBC, Tim_callback := True\<rparr>)) =
     (None, PowerOff (hx711_defaults\<lparr>Status := 0xBC, Tim_callback := True\<rparr>)) \<and>
   Tim_callback (HX711_del (PowerOff (hx711_defaults\<lparr>Status := 0xBC, Tim_callback := True\<rparr>)))"
  using PowerOff_leaves_timer_armed [of "hx711_defaults\<lparr>Status := 0xBC, Tim_callback := True\<rparr>" 0 2]
  by (simp add: has_flag_def status_simps)

end
