(* ===== verification/NAU7802_Filter.thy ===== *)
theory NAU7802_Filter
  imports Adc_Common
begin

text \<open>
  The filter of the I2C driver: the body of \<open>NAU7802.updateADC\<close>
  (\<^verbatim>\<open>src/NAU7802/NAU7802.py\<close> lines 129--139) once a sample \<open>tmp\<close> has been read. It
  has no recheck mode and no saturation test: it fills 21 slots, then slides and
  refits on every sample, with the stability threshold 200. The theory proves it
  never raises, keeps its window invariant, publishes the fit of the current
  window, and that its window is always the last 21 samples of the stream it
  was fed since the last restart.
\<close>

section \<open>Definitions\<close>

text \<open>The class attributes \<open>__dataX\<close> and \<open>__dataY\<close> (lines 47--48).\<close>

definition nau_dataX :: "int list" where
  "nau_dataX = [-10, -9, -8, -7, -6, -5, -4, -3, -2, -1, 0, 1, 2, 3, 4, 5, 6, 7, 8, 9, 10]"

definition nau_dataY0 :: "int list" where
  "nau_dataY0 = replicate 21 0"

text \<open>
  The class's own copies of the regression engine, \<open>NAU7802.Average\<close> (lines
  162--168) and \<open>NAU7802.LinearReg\<close> (lines 170--190), which \<open>updateADC\<close> calls.
  Their text is the HX711 class's; the loops are the same \<open>reg_accum\<close> and
  \<open>resid_accum\<close>.
\<close>

definition Average_NAU :: "int list \<Rightarrow> avg_val" where
  "Average_NAU Y =
     (if 1 < length Y then AvgNum (of_int (sum_list Y) / real (length Y))
      else if length Y = 1 then AvgList Y
      else AvgNum 0)"

definition LinearReg_NAU :: "int list \<Rightarrow> int list \<Rightarrow> py_error + (real \<times> real \<times> real)" where
  "LinearReg_NAU X Y =
     (if 2 < length X \<and> length X = length Y then
        let n = real (length X);
            acc = reg_accum reg_acc0 (zip X Y);
            det = Sxx acc * n - Sx acc * Sx acc
        in if det = 0 then Inl ZeroDivisionError
           else let a = (Sxy acc * n - Sy acc * Sx acc) / det;
                    b = (Sxx acc * Sy acc - Sx acc * Sxy acc) / det
                in Inr (a, b, resid_accum a b 0 (zip X Y) / n)
      else Inr (0, 0, 0))"

text \<open>Filling (lines 129--131).\<close>

definition nau_fill :: "int \<Rightarrow> 'a adc_common_scheme \<Rightarrow> py_error + 'a adc_common_scheme" where
  "nau_fill tmp s =
     bindE (set_idx (dataY s) (dataI s) tmp) (\<lambda>ys. Inr (s\<lparr>dataY := ys, dataI := dataI s + 1\<rparr>))"

text \<open>Tracking (lines 133--139): slide, refit, publish, stability below 200.\<close>

definition nau_track :: "int \<Rightarrow> 'a adc_common_scheme \<Rightarrow> py_error + 'a adc_common_scheme" where
  "nau_track tmp s =
     bindE (pop_front (dataY s)) (\<lambda>(_, ys).
     let ys' = append_py ys tmp in
     bindE (LinearReg_NAU (dataX s) ys') (\<lambda>(a, b, e).
     let s1 = s\<lparr>dataY := ys', LinRegA := a, LinRegB := b, LinRegE := e\<rparr>;
         s2 = s1\<lparr>MeanValue := Average_NAU (dataY s1), LinRegVal := LinRegB s1\<rparr>
     in Inr (s2\<lparr>ValStable := (if LinRegE s2 < 200 then 1 else 0)\<rparr>)))"

definition nau_filter :: "int \<Rightarrow> 'a adc_common_scheme \<Rightarrow> py_error + 'a adc_common_scheme" where
  "nau_filter tmp s = (if dataI s < 21 then nau_fill tmp s else nau_track tmp s)"

text \<open>The class-attribute defaults of the filter fields (lines 45--56).\<close>

definition nau_filter_defaults :: adc_common where
  "nau_filter_defaults =
     \<lparr>Status = 0, SPS = 0, Tim_callback = False, Tim_freq = 0, dataI = 0,
      dataX = nau_dataX, dataY = nau_dataY0, LinRegA = 0, LinRegB = 0, LinRegE = 0,
      Check = 0, MeanValue = AvgNum 0, LinRegVal = 0, ValStable = 0\<rparr>"

fun nau_filter_run :: "int list \<Rightarrow> 'a adc_common_scheme \<Rightarrow> py_error + 'a adc_common_scheme" where
  "nau_filter_run [] s = Inr s"
| "nau_filter_run (v # vs) s = bindE (nau_filter v s) (nau_filter_run vs)"

definition nau_filter_inv :: "'a adc_common_scheme \<Rightarrow> bool" where
  "nau_filter_inv s \<longleftrightarrow> dataX s = nau_dataX \<and> length (dataY s) = 21 \<and> dataI s \<le> 21"

definition nau_outputs_consistent :: "'a adc_common_scheme \<Rightarrow> bool" where
  "nau_outputs_consistent s \<longleftrightarrow>
     (LinRegA s, LinRegB s, LinRegE s) = ols_fit nau_dataX (dataY s) \<and>
     MeanValue s = Average (dataY s) \<and> LinRegVal s = LinRegB s \<and>
     ValStable s = (if LinRegE s < 200 then 1 else 0)"

section \<open>Branch lemmas\<close>

text \<open>The two classes' copies of the engine compute the same functions.\<close>

lemma LinearReg_NAU_eq [simp]: "LinearReg_NAU = LinearReg"
  by (intro ext) (simp add: LinearReg_NAU_def LinearReg_def)

lemma Average_NAU_eq [simp]: "Average_NAU = Average"
  by (intro ext) (simp add: Average_NAU_def Average_def)

lemma ols_det_nau_dataX [simp]: "ols_det nau_dataX = 16170"
  by (simp add: ols_det_def nau_dataX_def)

lemma LinearReg_nau [simp]:
  "length Y = 21 \<Longrightarrow> LinearReg nau_dataX Y = Inr (ols_fit nau_dataX Y)"
  by (simp add: LinearReg_ols) (simp add: nau_dataX_def)

lemma nau_track_eq:
  assumes "dataX s = nau_dataX" and "length (dataY s) = 21"
  shows "nau_track tmp s =
     (let ys = tl (dataY s) @ [tmp]; (a, b, e) = ols_fit nau_dataX ys
      in Inr (s\<lparr>dataY := ys, LinRegA := a, LinRegB := b, LinRegE := e,
                 MeanValue := Average ys, LinRegVal := b,
                 ValStable := (if e < 200 then 1 else 0)\<rparr>))"
proof -
  obtain y ys where "dataY s = y # ys" and "length ys = 20"
    using assms(2) by (cases "dataY s") auto
  then show ?thesis
    using assms by (simp add: nau_track_def Let_def split: prod.splits)
qed

lemma nau_filter_step_ok:
  "nau_filter_inv s \<Longrightarrow> \<exists>s'. nau_filter tmp s = Inr s' \<and> nau_filter_inv s'"
  by (auto simp: nau_filter_inv_def nau_filter_def nau_fill_def nau_track_eq Let_def
           split: prod.splits)

lemma nau_filter_frame:
  assumes "nau_filter tmp s = Inr s'"
  shows "Status s' = Status s \<and> SPS s' = SPS s \<and> Tim_callback s' = Tim_callback s \<and>
         Tim_freq s' = Tim_freq s \<and> adc_common.more s' = adc_common.more s"
proof (cases "dataI s < 21")
  case True
  with assms show ?thesis by (auto simp: nau_filter_def nau_fill_def bindE_eq_Inr)
next
  case False
  with assms show ?thesis
    by (auto simp: nau_filter_def nau_track_def bindE_eq_Inr Let_def split: prod.splits)
qed

text \<open>Filling from slot \<open>dataI\<close>: the samples land in order and nothing else changes.\<close>

lemma nau_fill_run:
  assumes "nau_filter_inv s" and "dataI s + length vs \<le> 21"
  shows "nau_filter_run vs s =
           Inr (s\<lparr>dataY := take (dataI s) (dataY s) @ vs @ drop (dataI s + length vs) (dataY s),
                  dataI := dataI s + length vs\<rparr>)"
  using assms
proof (induction vs arbitrary: s)
  case Nil
  then show ?case by (simp add: nau_filter_inv_def)
next
  case (Cons v vs)
  let ?s1 = "s\<lparr>dataY := (dataY s)[dataI s := v], dataI := Suc (dataI s)\<rparr>"
  have step: "nau_filter v s = Inr ?s1"
    using Cons.prems by (simp add: nau_filter_def nau_fill_def nau_filter_inv_def)
  have i1: "nau_filter_inv ?s1" and l1: "dataI ?s1 + length vs \<le> 21"
    using Cons.prems by (simp_all add: nau_filter_inv_def)
  have "take (Suc (dataI s)) ((dataY s)[dataI s := v]) = take (dataI s) (dataY s) @ [v]"
    using Cons.prems by (simp add: nau_filter_inv_def take_Suc_conv_app_nth)
  moreover have "drop (Suc (dataI s) + length vs) ((dataY s)[dataI s := v])
                   = drop (Suc (dataI s) + length vs) (dataY s)"
    by simp
  ultimately show ?case
    using Cons.IH [OF i1 l1] step by simp
qed

text \<open>Sliding a full window: it follows the stream.\<close>

lemma nau_track_run:
  assumes "nau_filter_inv s" and "dataI s = 21"
  shows "\<exists>s'. nau_filter_run vs s = Inr s' \<and> dataY s' = drop (length vs) (dataY s @ vs) \<and>
              nau_filter_inv s' \<and> dataI s' = 21"
  using assms
proof (induction vs arbitrary: s)
  case Nil
  then show ?case by simp
next
  case (Cons v vs)
  let ?ys = "tl (dataY s) @ [v]"
  obtain a b e where fit: "ols_fit nau_dataX ?ys = (a, b, e)"
    by (cases "ols_fit nau_dataX ?ys") auto
  obtain s1 where step: "nau_filter v s = Inr s1" and y1: "dataY s1 = ?ys"
    and i1: "nau_filter_inv s1" and d1: "dataI s1 = 21"
    using Cons.prems fit by (auto simp: nau_filter_def nau_track_eq nau_filter_inv_def Let_def)
  obtain s' where r: "nau_filter_run vs s1 = Inr s'"
    and y': "dataY s' = drop (length vs) (dataY s1 @ vs)" and rest: "nau_filter_inv s' \<and> dataI s' = 21"
    using Cons.IH [OF i1 d1] by blast
  have "dataY s \<noteq> []" using Cons.prems by (auto simp: nau_filter_inv_def)
  then have "drop (length vs) (?ys @ vs) = drop (length (v # vs)) (dataY s @ v # vs)"
    by (cases "dataY s") simp_all
  with step r y' y1 rest show ?case by simp
qed

lemma nau_filter_run_append:
  "nau_filter_run (xs @ ys) s = bindE (nau_filter_run xs s) (nau_filter_run ys)"
  by (induction xs arbitrary: s) (auto simp: bindE_def split: sum.splits)

section \<open>Properties\<close>

text \<open>
  C37: after a restart (\<open>dataI = 0\<close>), once at least 21 samples have been fed, the
  window holds exactly the last 21 of them, oldest first, whatever the window held
  before: filling overwrites every slot and each later sample slides it by one.
\<close>

theorem nau_window_is_suffix:
  assumes "nau_filter_inv s" and "dataI s = 0" and "21 \<le> length vs"
  shows "\<exists>s'. nau_filter_run vs s = Inr s' \<and> dataY s' = drop (length vs - 21) vs"
proof -
  let ?xs = "take 21 vs" and ?ys = "drop 21 vs"
  let ?s1 = "s\<lparr>dataY := ?xs, dataI := 21\<rparr>"
  have l: "length ?xs = 21" using assms(3) by simp
  have "nau_filter_run ?xs s =
          Inr (s\<lparr>dataY := take 0 (dataY s) @ ?xs @ drop 21 (dataY s), dataI := 0 + 21\<rparr>)"
    using nau_fill_run [OF assms(1), of ?xs] assms(2) l by simp
  also have "\<dots> = Inr ?s1" using assms(1) by (simp add: nau_filter_inv_def)
  finally have fill: "nau_filter_run ?xs s = Inr ?s1" .
  have i1: "nau_filter_inv ?s1" using assms(1) l by (simp add: nau_filter_inv_def)
  obtain s' where r: "nau_filter_run ?ys ?s1 = Inr s'"
    and y: "dataY s' = drop (length ?ys) (?xs @ ?ys)"
    using nau_track_run [OF i1, of ?ys] by auto
  have "nau_filter_run vs s = Inr s'"
    using nau_filter_run_append [of ?xs ?ys s] fill r by simp
  moreover have "drop (length ?ys) (?xs @ ?ys) = drop (length vs - 21) vs"
    using assms(3) by simp
  ultimately show ?thesis using y by auto
qed

theorem nau_window_is_suffix_witness:
  "\<exists>s'. nau_filter_run [1 .. 25] nau_filter_defaults = Inr s' \<and> dataY s' = [5 .. 25]"
proof -
  have i: "nau_filter_inv nau_filter_defaults"
    by (simp add: nau_filter_inv_def nau_filter_defaults_def nau_dataY0_def)
  have d: "dataI nau_filter_defaults = 0" by (simp add: nau_filter_defaults_def)
  have "drop (length [1 .. (25::int)] - 21) [1 .. 25] = [5 .. 25]" by code_simp
  then show ?thesis using nau_window_is_suffix [OF i d, of "[1 .. 25]"] by simp
qed

end
