(* ===== verification/NAU7802.thy ===== *)
theory NAU7802
  imports NAU7802_Filter Sample_Decode
begin

text \<open>
  The I2C driver, \<^verbatim>\<open>src/NAU7802/NAU7802.py\<close>: the instance record, the
  constructor with its bus selection and rate decoding, power sequencing with the
  polling wait for a conversion, the 3-byte read, the timer callback
  \<open>updateADC\<close>, \<open>startReadADC\<close> and \<open>__del__\<close>. The names are the source's; a
  method whose name the HX711 driver also uses carries the suffix \<open>_NAU\<close>
  (\<open>PowerOn_NAU\<close> is \<open>NAU7802.PowerOn\<close>). The device enters as arguments: whether the address 0x2A answers the
  bus scan, at each poll of \<open>PowerOn\<close> the DRDY pin level and the two register
  bytes read, and the three bytes a read returns. Register writes are not modelled;
  \<open>CTRL1\<close> and \<open>CTRL2\<close> are kept as the values the constructor computes.
\<close>

unbundle bit_operations_syntax

section \<open>State and constants\<close>

record nau7802 = adc_common +
  CTRL1 :: int
  CTRL2 :: int
  I2CBus :: "int option"
  PinDRDY :: "int option"

definition Status_EnDRDY :: int where "Status_EnDRDY = 0x40"
definition Status_ADCReady :: int where "Status_ADCReady = 0x04"

definition Gain128 :: int where "Gain128 = 7"
definition Gain64 :: int where "Gain64 = 6"
definition Gain32 :: int where "Gain32 = 5"
definition Gain16 :: int where "Gain16 = 4"
definition Gain8 :: int where "Gain8 = 3"
definition Gain4 :: int where "Gain4 = 2"
definition Gain2 :: int where "Gain2 = 1"
definition Gain1 :: int where "Gain1 = 0"

definition maskSPS :: int where "maskSPS = 0x70"
definition SPS320 :: int where "SPS320 = 0x70"
definition SPS80 :: int where "SPS80 = 0x30"
definition SPS40 :: int where "SPS40 = 0x20"
definition SPS20 :: int where "SPS20 = 0x10"
definition SPS10 :: int where "SPS10 = 0x00"

text \<open>The class attributes (lines 38--56).\<close>

definition nau7802_defaults :: nau7802 where
  "nau7802_defaults =
     \<lparr>Status = 0, SPS = 0, Tim_callback = False, Tim_freq = 0, dataI = 0,
      dataX = nau_dataX, dataY = nau_dataY0, LinRegA = 0, LinRegB = 0, LinRegE = 0,
      Check = 0, MeanValue = AvgNum 0, LinRegVal = 0, ValStable = 0,
      CTRL1 = 0, CTRL2 = 0, I2CBus = None, PinDRDY = None\<rparr>"

section \<open>Operations\<close>

text \<open>
  \<open>__init__(SCL, SDA, PinDRDY, Ch, Gain, ADCSPS, TimerPort)\<close> (lines 57--86). \<open>Ch\<close>
  is unused by the code. \<open>timer\<close> says whether a \<open>TimerPort\<close> was given, \<open>found\<close>
  whether 0x2A is in the bus scan. Python's \<open>%\<close> and \<open>>>\<close> on ints are floor
  modulus and arithmetic shift, as \<open>mod\<close> and \<open>drop_bit\<close> are on \<open>int\<close>. Each
  \<open>return None\<close> leaves the fields set so far.
\<close>

definition NAU7802_init :: "int \<Rightarrow> int \<Rightarrow> int \<Rightarrow> int \<Rightarrow> int \<Rightarrow> bool \<Rightarrow> bool \<Rightarrow> nau7802" where
  "NAU7802_init scl sda pin gain adcsps timer found =
     (if (scl mod 4 = 1 \<and> sda mod 4 = 0) \<or> (scl mod 4 = 3 \<and> sda mod 4 = 2) then
        let s0 = nau7802_defaults\<lparr>I2CBus := Some (if scl mod 4 = 1 \<and> sda mod 4 = 0 then 0 else 1)\<rparr>
        in if found then
             let s1 = (if 0 \<le> pin \<and> pin \<le> 22
                       then s0\<lparr>PinDRDY := Some pin, Status := Status s0 OR Status_EnDRDY\<rparr>
                       else s0);
                 r = drop_bit 4 adcsps
             in if (gain \<le> 7 \<and> 0 \<le> gain) \<and> (r = 7 \<or> (r \<le> 3 \<and> 0 \<le> r)) then
                  s1\<lparr>CTRL1 := CTRL1 s1 OR (0x28 OR gain),
                     CTRL2 := (CTRL2 s1 AND NOT maskSPS) OR adcsps,
                     SPS := (if adcsps = SPS10 then 10 else if adcsps = SPS20 then 20
                             else if adcsps = SPS40 then 40 else if adcsps = SPS80 then 80
                             else if adcsps = SPS320 then 320 else SPS s1),
                     Status := Status s1 OR
                               (if timer then Status_Inited OR Status_EnTimer else Status_Inited)\<rparr>
                else s1
           else s0
      else nau7802_defaults)"

text \<open>
  The wait of \<open>PowerOn\<close> (lines 107--112): one iteration per poll \<open>i\<close>; \<open>drdy i\<close> is
  the DRDY pin level and \<open>regs i\<close> the bytes of registers 0x1F and 0x00 read at that
  poll. The loop has no bound in the code; the fuel counts polls.
\<close>

fun PowerOn_wait_NAU ::
  "nat \<Rightarrow> (nat \<Rightarrow> bool) \<Rightarrow> (nat \<Rightarrow> int \<times> int) \<Rightarrow> nat \<Rightarrow> nau7802 \<Rightarrow> nau7802 option" where
  "PowerOn_wait_NAU 0 drdy regs i s = None"
| "PowerOn_wait_NAU (Suc n) drdy regs i s =
     (if Status s AND Status_ADCReady = 0
      then PowerOn_wait_NAU n drdy regs (Suc i)
             (if (has_flag (Status s) Status_EnDRDY \<and> drdy i) \<or>
                 (fst (regs i) AND 0x0F = 0x0F \<and> snd (regs i) AND 0x20 = 0x20)
              then s\<lparr>Status := Status s OR Status_ADCReady\<rparr> else s)
      else Some s)"

text \<open>\<open>PowerOn\<close> (lines 93--112); the register writes before the wait are not modelled.\<close>

definition PowerOn_NAU ::
  "nat \<Rightarrow> (nat \<Rightarrow> bool) \<Rightarrow> (nat \<Rightarrow> int \<times> int) \<Rightarrow> nau7802 \<Rightarrow> nau7802 option" where
  "PowerOn_NAU fuel drdy regs s =
     (if Status s AND (Status_Inited OR Status_PowerOn) = Status_Inited
      then PowerOn_wait_NAU fuel drdy regs 0 (s\<lparr>Status := Status s OR Status_PowerOn\<rparr>)
      else Some s)"

text \<open>Whether poll \<open>i\<close> reports a conversion, the condition of line 110.\<close>

definition nau_poll_ready :: "(nat \<Rightarrow> bool) \<Rightarrow> (nat \<Rightarrow> int \<times> int) \<Rightarrow> int \<Rightarrow> nat \<Rightarrow> bool" where
  "nau_poll_ready drdy regs st i \<longleftrightarrow>
     (has_flag st Status_EnDRDY \<and> drdy i) \<or>
     (fst (regs i) AND 0x0F = 0x0F \<and> snd (regs i) AND 0x20 = 0x20)"

text \<open>\<open>PowerOff\<close> (lines 114--117): \<open>Status &= 0xC0\<close> keeps only \<open>Inited\<close> and \<open>EnDRDY\<close>.\<close>

definition PowerOff_NAU :: "nau7802 \<Rightarrow> nau7802" where
  "PowerOff_NAU s = (if has_flag (Status s) Status_PowerOn then s\<lparr>Status := Status s AND 0xC0\<rparr> else s)"

text \<open>\<open>getRawData\<close> (lines 119--125): \<open>rd\<close> is the three bytes read from register 0x12.\<close>

definition getRawData_NAU :: "int \<times> int \<times> int \<Rightarrow> nau7802 \<Rightarrow> int" where
  "getRawData_NAU rd s =
     (if has_flag (Status s) Status_ADCReady
      then (case rd of (b0, b1, b2) \<Rightarrow> sign24 (push_bit 16 b0 OR push_bit 8 b1 OR b2))
      else 0)"

text \<open>\<open>updateADC\<close> (lines 127--139), the timer callback: no saturation test.\<close>

definition updateADC_NAU :: "int \<times> int \<times> int \<Rightarrow> nau7802 \<Rightarrow> py_error + nau7802" where
  "updateADC_NAU rd s =
     (if has_flag (Status s) Status_ADCReady then nau_filter (getRawData_NAU rd s) s else Inr s)"

text \<open>
  \<open>startReadADC(state, Freq)\<close> (lines 141--160). The first component is the return
  value: \<open>None\<close> when the ready flag is clear and the method falls off its end.
\<close>

definition startReadADC_NAU :: "int \<Rightarrow> real \<Rightarrow> nau7802 \<Rightarrow> int option \<times> nau7802" where
  "startReadADC_NAU state freq s =
     (if has_flag (Status s) Status_ADCReady then
        if state = 1 \<and> Status s AND (Status_EnTimer OR Status_PeriodicRead) = Status_EnTimer \<and>
           (0 < freq \<and> freq \<le> of_int (SPS s))
        then (Some 1, (arm_timer freq (reset_filter s))\<lparr>Status := Status s OR Status_PeriodicRead\<rparr>)
        else if state = 0 \<and> has_flag (Status s) Status_PeriodicRead
        then (Some 1, (disarm_timer s)\<lparr>Status := Status s AND NOT Status_PeriodicRead\<rparr>)
        else (Some 0, s)
      else (None, s))"

text \<open>\<open>__del__\<close> (lines 88--91); \<open>startReadADC(0)\<close> takes the default \<open>Freq=10\<close>.\<close>

definition NAU7802_del :: "nau7802 \<Rightarrow> nau7802" where
  "NAU7802_del s =
     (let s1 = (if has_flag (Status s) Status_PeriodicRead then snd (startReadADC_NAU 0 10 s) else s);
          s2 = (if has_flag (Status s1) Status_PowerOn then PowerOff_NAU s1 else s1)
      in s2\<lparr>Status := 0\<rparr>)"

section \<open>The driver as a state machine\<close>

text \<open>
  One rule per entry point: the caller's methods, and the timer tick while a
  callback is armed. There is no interrupt handler in this driver.
\<close>

inductive nau_step :: "nau7802 \<Rightarrow> nau7802 \<Rightarrow> bool" where
  power_on: "PowerOn_NAU fuel drdy regs s = Some s' \<Longrightarrow> nau_step s s'"
| tick: "Tim_callback s \<Longrightarrow> updateADC_NAU rd s = Inr s' \<Longrightarrow> nau_step s s'"
| start_read: "nau_step s (snd (startReadADC_NAU st f s))"
| power_off: "nau_step s (PowerOff_NAU s)"
| del: "nau_step s (NAU7802_del s)"

inductive nau_reachable :: "nau7802 \<Rightarrow> bool" where
  init: "nau_reachable (NAU7802_init scl sda pin gain adcsps timer found)"
| step: "nau_reachable s \<Longrightarrow> nau_step s s' \<Longrightarrow> nau_reachable s'"

text \<open>
  The status values: 0 and \<open>EnDRDY\<close> alone for an instance whose construction
  stopped early; otherwise \<open>Inited\<close>, with or without \<open>EnDRDY\<close> and \<open>EnTimer\<close>,
  powered only together with \<open>ADCReady\<close>, periodic only with \<open>EnTimer\<close>.
\<close>

definition nau_status_values :: "int list" where
  "nau_status_values =
     [0, 0x40, 0x80, 0xC0, 0xA0, 0xE0, 0x94, 0xD4, 0xB4, 0xF4, 0xBC, 0xFC]"

definition nau_inv :: "nau7802 \<Rightarrow> bool" where
  "nau_inv s \<longleftrightarrow>
     Status s \<in> set nau_status_values \<and> nau_filter_inv s \<and>
     (has_flag (Status s) Status_PeriodicRead \<longrightarrow> Tim_callback s)"

section \<open>Invariant of the state machine\<close>

lemmas nau_status_defs [status_simps] =
  Status_EnDRDY_def Status_ADCReady_def common_status_defs

lemma nau_filter_inv_update [simp]:
  "nau_filter_inv (s\<lparr>Status := x\<rparr>) = nau_filter_inv s"
  "nau_filter_inv (s\<lparr>Tim_callback := b\<rparr>) = nau_filter_inv s"
  by (simp_all add: nau_filter_inv_def)

lemma nau_inv_init: "nau_inv (NAU7802_init scl sda pin gain adcsps timer found)"
  by (simp add: nau_inv_def NAU7802_init_def nau7802_defaults_def nau_filter_inv_def
                nau_dataY0_def nau_status_values_def status_simps has_flag_def Let_def)

text \<open>The wait changes nothing but the ready flag, whenever it returns.\<close>

lemma nau_PowerOn_wait_Some:
  "PowerOn_wait_NAU n drdy regs i s = Some s' \<Longrightarrow> s' = s\<lparr>Status := Status s OR Status_ADCReady\<rparr>"
proof (induction n arbitrary: i s)
  case 0
  then show ?case by simp
next
  case (Suc n)
  show ?case
  proof (cases "Status s AND Status_ADCReady = 0")
    case True
    let ?c = "(has_flag (Status s) Status_EnDRDY \<and> drdy i) \<or>
              (fst (regs i) AND 0x0F = 0x0F \<and> snd (regs i) AND 0x20 = 0x20)"
    let ?t = "if ?c then s\<lparr>Status := Status s OR Status_ADCReady\<rparr> else s"
    have "PowerOn_wait_NAU n drdy regs (Suc i) ?t = Some s'" using Suc.prems True by simp
    then have "s' = ?t\<lparr>Status := Status ?t OR Status_ADCReady\<rparr>" by (rule Suc.IH)
    then show ?thesis by (simp add: or.assoc)
  next
    case False
    then have "Status s OR Status_ADCReady = Status s"
      using or_flag_absorb [of "Status s" 2] by (simp add: status_simps)
    with Suc.prems False show ?thesis by simp
  qed
qed

lemma nau_PowerOn_Some:
  "PowerOn_NAU fuel drdy regs s = Some s' \<Longrightarrow>
     s' = (if Status s AND (Status_Inited OR Status_PowerOn) = Status_Inited
           then s\<lparr>Status := (Status s OR Status_PowerOn) OR Status_ADCReady\<rparr> else s)"
proof (cases "Status s AND (Status_Inited OR Status_PowerOn) = Status_Inited")
  case True
  moreover assume "PowerOn_NAU fuel drdy regs s = Some s'"
  ultimately have "PowerOn_wait_NAU fuel drdy regs 0 (s\<lparr>Status := Status s OR Status_PowerOn\<rparr>) = Some s'"
    by (simp add: PowerOn_NAU_def)
  then have "s' = s\<lparr>Status := (Status s OR Status_PowerOn) OR Status_ADCReady\<rparr>"
    by (auto dest: nau_PowerOn_wait_Some)
  with True show ?thesis by simp
qed (simp add: PowerOn_NAU_def)

lemma nau_PowerOn_inv: "nau_inv s \<Longrightarrow> PowerOn_NAU fuel drdy regs s = Some s' \<Longrightarrow> nau_inv s'"
  by (drule nau_PowerOn_Some)
     (auto simp: nau_inv_def nau_status_values_def has_flag_def status_simps)

lemma nau_updateADC_ok:
  assumes inv: "nau_inv s"
  shows "\<exists>s'. updateADC_NAU rd s = Inr s' \<and> nau_inv s'"
proof (cases "has_flag (Status s) Status_ADCReady")
  case True
  from inv have f: "nau_filter_inv s" by (simp add: nau_inv_def)
  then obtain s' where r: "nau_filter (getRawData_NAU rd s) s = Inr s'" and f': "nau_filter_inv s'"
    using nau_filter_step_ok by blast
  have "nau_inv s'"
    using inv f' nau_filter_frame [OF r] by (simp add: nau_inv_def)
  with True r show ?thesis by (simp add: updateADC_NAU_def)
next
  case False
  with inv show ?thesis by (simp add: updateADC_NAU_def)
qed

lemma nau_startReadADC_inv: "nau_inv s \<Longrightarrow> nau_inv (snd (startReadADC_NAU st f s))"
  by (auto simp: nau_inv_def nau_status_values_def startReadADC_NAU_def has_flag_def status_simps
                 nau_filter_inv_def reset_filter_def arm_timer_def disarm_timer_def)

lemma nau_PowerOff_inv: "nau_inv s \<Longrightarrow> nau_inv (PowerOff_NAU s)"
  by (auto simp: nau_inv_def nau_status_values_def PowerOff_NAU_def has_flag_def status_simps)

lemma nau_NAU7802_del_inv: "nau_inv s \<Longrightarrow> nau_inv (NAU7802_del s)"
proof -
  assume inv: "nau_inv s"
  define s1 where "s1 = (if has_flag (Status s) Status_PeriodicRead then snd (startReadADC_NAU 0 10 s) else s)"
  define s2 where "s2 = (if has_flag (Status s1) Status_PowerOn then PowerOff_NAU s1 else s1)"
  have "nau_inv s1" using inv nau_startReadADC_inv by (simp add: s1_def)
  then have "nau_inv s2" using nau_PowerOff_inv by (simp add: s2_def)
  then have "nau_inv (s2\<lparr>Status := 0\<rparr>)"
    by (simp add: nau_inv_def nau_status_values_def has_flag_def)
  then show ?thesis by (simp add: NAU7802_del_def Let_def flip: s1_def s2_def)
qed

lemma nau_step_inv: "nau_step s s' \<Longrightarrow> nau_inv s \<Longrightarrow> nau_inv s'"
proof (induction rule: nau_step.induct)
  case (power_on fuel drdy regs s s')
  then show ?case by (blast intro: nau_PowerOn_inv)
next
  case (tick s rd s')
  then show ?case using nau_updateADC_ok [of s rd] by auto
qed (simp_all add: nau_startReadADC_inv nau_PowerOff_inv nau_NAU7802_del_inv)

lemma nau_reachable_inv: "nau_reachable s \<Longrightarrow> nau_inv s"
  by (induction rule: nau_reachable.induct) (auto simp: nau_inv_init nau_step_inv)

section \<open>After a power cycle\<close>

text \<open>
  No operation sets \<open>EnTimer\<close>, and \<open>PeriodicRead\<close> is set only with \<open>EnTimer\<close>;
  so once both are clear they stay clear, and the armed state of the timer and the
  rate \<open>SPS\<close> never change again.
\<close>

lemma nau_updateADC_frame:
  "updateADC_NAU rd s = Inr s' \<Longrightarrow> Status s' = Status s \<and> SPS s' = SPS s \<and> Tim_callback s' = Tim_callback s"
  by (auto simp: updateADC_NAU_def split: if_splits dest: nau_filter_frame)

lemma nau_step_SPS: "nau_step s s' \<Longrightarrow> SPS s' = SPS s"
proof (induction rule: nau_step.induct)
  case (power_on fuel drdy regs s s')
  then show ?case by (auto dest: nau_PowerOn_Some)
next
  case (tick s rd s')
  then show ?case by (simp add: nau_updateADC_frame)
qed (simp_all add: startReadADC_NAU_def PowerOff_NAU_def NAU7802_del_def Let_def reset_filter_def
                   arm_timer_def disarm_timer_def)

lemma nau_step_no_timer:
  assumes "nau_step s s'"
    and "\<not> has_flag (Status s) Status_EnTimer" and "\<not> has_flag (Status s) Status_PeriodicRead"
  shows "\<not> has_flag (Status s') Status_EnTimer \<and> \<not> has_flag (Status s') Status_PeriodicRead \<and>
         Tim_callback s' = Tim_callback s"
  using assms
proof (induction rule: nau_step.induct)
  case (power_on fuel drdy regs s s')
  then show ?case
    by (auto dest!: nau_PowerOn_Some simp: has_flag_or status_simps split: if_splits)
       (simp_all add: has_flag_def)
next
  case (tick s rd s')
  then show ?case by (simp add: nau_updateADC_frame)
next
  case (start_read s st f)
  have "\<not> Status s AND (Status_EnTimer OR Status_PeriodicRead) = Status_EnTimer"
    using start_read.prems has_flag_of_masked [of "Status s" _ Status_EnTimer Status_EnTimer]
    by (auto simp: status_simps)
  with start_read.prems show ?case by (simp add: startReadADC_NAU_def)
next
  case (power_off s)
  then show ?case by (simp add: PowerOff_NAU_def has_flag_and status_simps)
next
  case (del s)
  then show ?case by (simp add: NAU7802_del_def PowerOff_NAU_def has_flag_def)
qed

lemma nau_steps_no_timer:
  assumes "nau_step\<^sup>*\<^sup>* s s'"
    and "\<not> has_flag (Status s) Status_EnTimer" and "\<not> has_flag (Status s) Status_PeriodicRead"
  shows "\<not> has_flag (Status s') Status_EnTimer \<and> Tim_callback s' = Tim_callback s \<and> SPS s' = SPS s"
proof -
  have "\<not> has_flag (Status s') Status_EnTimer \<and> \<not> has_flag (Status s') Status_PeriodicRead \<and>
        Tim_callback s' = Tim_callback s \<and> SPS s' = SPS s"
    using assms
  proof (induction rule: rtranclp_induct)
    case base
    then show ?case by simp
  next
    case (step y z)
    then show ?case using nau_step_no_timer [of y z] nau_step_SPS [of y z] by auto
  qed
  then show ?thesis by simp
qed

lemma nau_PowerOff_no_timer:
  "has_flag (Status s) Status_PowerOn \<Longrightarrow>
     \<not> has_flag (Status (PowerOff_NAU s)) Status_EnTimer \<and>
     \<not> has_flag (Status (PowerOff_NAU s)) Status_PeriodicRead"
  by (simp add: PowerOff_NAU_def has_flag_and status_simps)

lemma nau_startReadADC_needs_timer:
  "fst (startReadADC_NAU 1 f s) = Some 1 \<Longrightarrow> has_flag (Status s) Status_EnTimer \<and> 0 < f \<and> f \<le> of_int (SPS s)"
  by (auto simp: startReadADC_NAU_def split: if_splits
           intro: has_flag_of_masked [of "Status s" _ Status_EnTimer] simp: status_simps)

section \<open>The wait of \<open>PowerOn\<close>\<close>

lemma nau_ready_set [simp]: "(st OR Status_ADCReady) AND Status_ADCReady \<noteq> 0"
  using has_flag_or_self [of Status_ADCReady st] by (simp add: has_flag_def status_simps)

lemma nau_PowerOn_wait_step:
  "Status s AND Status_ADCReady = 0 \<Longrightarrow>
   PowerOn_wait_NAU (Suc n) drdy regs i s =
     PowerOn_wait_NAU n drdy regs (Suc i)
       (if nau_poll_ready drdy regs (Status s) i then s\<lparr>Status := Status s OR Status_ADCReady\<rparr> else s)"
  by (simp add: nau_poll_ready_def)

lemma nau_PowerOn_wait_done:
  "Status s AND Status_ADCReady \<noteq> 0 \<Longrightarrow> PowerOn_wait_NAU (Suc n) drdy regs i s = Some s"
  by simp

lemma nau_PowerOn_wait_returns:
  assumes "Status s AND Status_ADCReady = 0" and "nau_poll_ready drdy regs (Status s) (i + k)"
    and "k + 2 \<le> n"
  shows "PowerOn_wait_NAU n drdy regs i s = Some (s\<lparr>Status := Status s OR Status_ADCReady\<rparr>)"
  using assms
proof (induction k arbitrary: i n)
  case 0
  then obtain m where n: "n = Suc (Suc m)" by (auto dest: le_Suc_ex)
  show ?case using 0 unfolding n by (simp add: nau_PowerOn_wait_step nau_PowerOn_wait_done del: PowerOn_wait_NAU.simps)
next
  case (Suc k)
  then obtain m where n: "n = Suc m" and m: "k + 2 \<le> m" by (auto dest: le_Suc_ex)
  then obtain m' where m': "m = Suc m'" by (auto dest: le_Suc_ex)
  show ?case
  proof (cases "nau_poll_ready drdy regs (Status s) i")
    case True
    then show ?thesis using Suc.prems(1) unfolding n m' by (simp add: nau_PowerOn_wait_step nau_PowerOn_wait_done del: PowerOn_wait_NAU.simps)
  next
    case False
    have "PowerOn_wait_NAU m drdy regs (Suc i) s = Some (s\<lparr>Status := Status s OR Status_ADCReady\<rparr>)"
      using Suc.IH [of "Suc i" m] Suc.prems m by simp
    with False Suc.prems(1) show ?thesis unfolding n by (simp add: nau_PowerOn_wait_step nau_PowerOn_wait_done del: PowerOn_wait_NAU.simps)
  qed
qed

lemma nau_PowerOn_wait_hangs:
  assumes "Status s AND Status_ADCReady = 0" and "\<forall>j. \<not> nau_poll_ready drdy regs (Status s) j"
  shows "PowerOn_wait_NAU n drdy regs i s = None"
  using assms
proof (induction n arbitrary: i)
  case 0
  then show ?case by simp
next
  case (Suc n)
  then show ?case by (simp add: nau_PowerOn_wait_step nau_PowerOn_wait_done del: PowerOn_wait_NAU.simps)
qed

lemma nau_poll_ready_powering [simp]:
  "nau_poll_ready drdy regs (st OR Status_PowerOn) j = nau_poll_ready drdy regs st j"
  by (simp add: nau_poll_ready_def has_flag_or status_simps) (simp add: has_flag_def)

lemma nau_powering_not_ready:
  "\<not> has_flag st Status_ADCReady \<Longrightarrow> (st OR Status_PowerOn) AND Status_ADCReady = 0"
  using has_flag_or [of st Status_PowerOn Status_ADCReady]
  by (simp add: status_simps) (simp add: has_flag_def)

lemma nau_steps_SPS: "nau_step\<^sup>*\<^sup>* s s' \<Longrightarrow> SPS s' = SPS s"
  by (induction rule: rtranclp_induct) (auto dest: nau_step_SPS)

lemma nau_reachable_init_demo: "nau_reachable (NAU7802_init 5 4 (-1) 7 48 True True)"
  by (rule nau_reachable.init)

section \<open>Properties of the driver\<close>

text \<open>
  C25: in every reachable state the status byte is one of twelve values; periodic
  reading implies an armed timer, \<open>EnTimer\<close> and a ready converter; and the device
  is powered exactly when the ready flag is set.
\<close>

theorem nau_reachable_status_byte:
  assumes "nau_reachable s"
  shows "Status s \<in> set nau_status_values \<and> 0 \<le> Status s \<and> Status s < 256 \<and>
         (has_flag (Status s) Status_PeriodicRead \<longrightarrow>
            Tim_callback s \<and> has_flag (Status s) Status_EnTimer \<and>
            has_flag (Status s) Status_ADCReady) \<and>
         (has_flag (Status s) Status_PowerOn \<longleftrightarrow> has_flag (Status s) Status_ADCReady)"
  using nau_reachable_inv [OF assms]
  by (auto simp: nau_inv_def nau_status_values_def has_flag_def status_simps)

theorem nau_reachable_status_byte_witness:
  "Status (NAU7802_init 5 4 (-1) 7 48 True True) \<in> set nau_status_values \<and>
   has_flag (Status (NAU7802_init 5 4 (-1) 7 48 True True)) Status_PowerOn =
   has_flag (Status (NAU7802_init 5 4 (-1) 7 48 True True)) Status_ADCReady"
  using nau_reachable_status_byte [OF nau_reachable_init_demo] by simp

text \<open>
  C26: the timer callback never raises in a reachable state, and its result is
  again reachable.
\<close>

theorem nau_tick_no_exception:
  assumes "nau_reachable s" and "Tim_callback s"
  shows "\<exists>s'. updateADC_NAU rd s = Inr s' \<and> nau_reachable s'"
proof -
  obtain s' where r: "updateADC_NAU rd s = Inr s'"
    using nau_updateADC_ok [OF nau_reachable_inv [OF assms(1)]] by blast
  then have "nau_reachable s'"
    using assms by (blast intro: nau_reachable.step nau_step.tick)
  with r show ?thesis by blast
qed

lemma nau_demo_powered:
  "PowerOn_NAU 2 (\<lambda>_. False) (\<lambda>_. (15, 32)) (NAU7802_init 5 4 (-1) 7 48 True True) =
     Some (nau7802_defaults\<lparr>I2CBus := Some 0, CTRL1 := 47, CTRL2 := 48, SPS := 80, Status := 0xB4\<rparr>)"
  by (simp add: PowerOn_NAU_def NAU7802_init_def nau7802_defaults_def Let_def status_simps
                SPS10_def SPS20_def SPS40_def SPS80_def maskSPS_def numeral_eq_Suc has_flag_def)

lemma nau_demo_reachable:
  "nau_reachable (nau7802_defaults\<lparr>I2CBus := Some 0, CTRL1 := 47, CTRL2 := 48, SPS := 80, Status := 0xB4\<rparr>)"
  by (rule nau_reachable.step [OF nau_reachable_init_demo nau_step.power_on [OF nau_demo_powered]])

theorem nau_tick_no_exception_witness:
  "\<exists>s'. updateADC_NAU (0, 0, 1)
          (snd (startReadADC_NAU 1 10 (nau7802_defaults\<lparr>I2CBus := Some 0, CTRL1 := 47, CTRL2 := 48,
                                     SPS := 80, Status := 0xB4\<rparr>))) = Inr s'"
proof -
  let ?s = "snd (startReadADC_NAU 1 10 (nau7802_defaults\<lparr>I2CBus := Some 0, CTRL1 := 47, CTRL2 := 48,
                                     SPS := 80, Status := 0xB4\<rparr>))"
  have r: "nau_reachable ?s"
    by (rule nau_reachable.step [OF nau_demo_reachable nau_step.start_read])
  have t: "Tim_callback ?s"
    by (simp add: startReadADC_NAU_def nau7802_defaults_def has_flag_def status_simps arm_timer_def
                  reset_filter_def)
  show ?thesis using nau_tick_no_exception [OF r t] by blast
qed

text \<open>
  C27: \<open>PowerOff\<close> clears \<open>EnTimer\<close> (it keeps \<open>Status & 0xC0\<close>), and no method sets
  it again: after a powered instance is switched off, whatever sequence of
  operations follows, \<open>PowerOn\<close> included, \<open>startReadADC(1, f)\<close> never succeeds.
\<close>

theorem nau_power_off_blocks_restart:
  assumes "has_flag (Status s) Status_PowerOn" and "nau_step\<^sup>*\<^sup>* (PowerOff_NAU s) s'"
  shows "fst (startReadADC_NAU 1 f s') \<noteq> Some 1"
proof
  assume "fst (startReadADC_NAU 1 f s') = Some 1"
  then have "has_flag (Status s') Status_EnTimer" by (rule nau_startReadADC_needs_timer [THEN conjunct1])
  moreover have "\<not> has_flag (Status s') Status_EnTimer"
    using nau_steps_no_timer [OF assms(2)] nau_PowerOff_no_timer [OF assms(1)] by blast
  ultimately show False by contradiction
qed

theorem nau_power_off_blocks_restart_witness:
  "fst (startReadADC_NAU 1 10
     (the (PowerOn_NAU 2 (\<lambda>_. False) (\<lambda>_. (15, 32))
       (PowerOff_NAU (nau7802_defaults\<lparr>I2CBus := Some 0, CTRL1 := 47, CTRL2 := 48, SPS := 80,
                                    Status := 0xB4\<rparr>))))) \<noteq> Some 1"
proof -
  let ?s = "nau7802_defaults\<lparr>I2CBus := Some 0, CTRL1 := 47, CTRL2 := 48, SPS := 80, Status := 0xB4\<rparr>"
  let ?s' = "the (PowerOn_NAU 2 (\<lambda>_. False) (\<lambda>_. (15, 32)) (PowerOff_NAU ?s))"
  have on: "has_flag (Status ?s) Status_PowerOn" by (simp add: has_flag_def status_simps)
  have "PowerOn_NAU 2 (\<lambda>_. False) (\<lambda>_. (15, 32)) (PowerOff_NAU ?s) = Some ?s'"
    by (simp add: PowerOn_NAU_def PowerOff_NAU_def has_flag_def status_simps numeral_eq_Suc)
  then have "nau_step\<^sup>*\<^sup>* (PowerOff_NAU ?s) ?s'" by (blast intro: nau_step.power_on)
  then show ?thesis by (rule nau_power_off_blocks_restart [OF on])
qed

text \<open>
  C28: a timer that was armed when a powered instance is switched off stays armed
  through every later operation, \<open>__del__\<close> included: \<open>startReadADC(0)\<close> disarms
  only while \<open>PeriodicRead\<close> is set, which \<open>PowerOff\<close> cleared and nothing sets
  again. After the next \<open>PowerOn\<close> the orphaned callback feeds the filter.
\<close>

theorem nau_power_off_orphans_timer:
  assumes "Tim_callback s" and "has_flag (Status s) Status_PowerOn"
    and "nau_step\<^sup>*\<^sup>* (PowerOff_NAU s) s'"
  shows "Tim_callback s'"
proof -
  have "Tim_callback s' = Tim_callback (PowerOff_NAU s)"
    using nau_steps_no_timer [OF assms(3)] nau_PowerOff_no_timer [OF assms(2)] by blast
  with assms(1) show ?thesis by (simp add: PowerOff_NAU_def)
qed

theorem nau_power_off_orphans_timer_witness:
  "Tim_callback (NAU7802_del (PowerOff_NAU (snd (startReadADC_NAU 1 10
     (nau7802_defaults\<lparr>I2CBus := Some 0, CTRL1 := 47, CTRL2 := 48, SPS := 80, Status := 0xB4\<rparr>)))))"
proof -
  let ?s = "snd (startReadADC_NAU 1 10
     (nau7802_defaults\<lparr>I2CBus := Some 0, CTRL1 := 47, CTRL2 := 48, SPS := 80, Status := 0xB4\<rparr>))"
  have t: "Tim_callback ?s" and on: "has_flag (Status ?s) Status_PowerOn"
    by (simp_all add: startReadADC_NAU_def nau7802_defaults_def has_flag_def status_simps arm_timer_def
                      reset_filter_def)
  have "nau_step\<^sup>*\<^sup>* (PowerOff_NAU ?s) (NAU7802_del (PowerOff_NAU ?s))" by (blast intro: nau_step.del)
  then show ?thesis by (rule nau_power_off_orphans_timer [OF t on])
qed

text \<open>
  C29: the constructor validates \<open>ADCSPS >> 4\<close> but sets \<open>SPS\<close> only on the five
  exact constants. A rate code such as 0x31 is accepted, the instance is
  initialised, \<open>SPS\<close> stays 0, and \<open>startReadADC(1, f)\<close> fails for every
  frequency in every state the instance reaches.
\<close>

theorem NAU7802_init_sps_unmatched:
  assumes "(scl mod 4 = 1 \<and> sda mod 4 = 0) \<or> (scl mod 4 = 3 \<and> sda mod 4 = 2)"
    and "0 \<le> gain" and "gain \<le> 7"
    and "drop_bit 4 adcsps = 7 \<or> (drop_bit 4 adcsps \<le> 3 \<and> 0 \<le> drop_bit 4 adcsps)"
    and "adcsps \<notin> {SPS10, SPS20, SPS40, SPS80, SPS320}"
    and "nau_step\<^sup>*\<^sup>* (NAU7802_init scl sda pin gain adcsps timer True) s"
  shows "has_flag (Status (NAU7802_init scl sda pin gain adcsps timer True)) Status_Inited \<and>
         SPS s = 0 \<and> fst (startReadADC_NAU 1 f s) \<noteq> Some 1"
proof -
  let ?s0 = "NAU7802_init scl sda pin gain adcsps timer True"
  have i: "has_flag (Status ?s0) Status_Inited" and z: "SPS ?s0 = 0"
    using assms(1-5)
    by (auto simp: NAU7802_init_def Let_def nau7802_defaults_def has_flag_or status_simps)
       (simp_all add: has_flag_def)
  have "SPS s = 0" using nau_steps_SPS [OF assms(6)] z by simp
  then have "fst (startReadADC_NAU 1 f s) \<noteq> Some 1" using nau_startReadADC_needs_timer by force
  with i \<open>SPS s = 0\<close> show ?thesis by blast
qed

theorem NAU7802_init_sps_unmatched_witness:
  "has_flag (Status (NAU7802_init 5 4 (-1) 7 0x31 True True)) Status_Inited \<and>
   fst (startReadADC_NAU 1 10 (NAU7802_init 5 4 (-1) 7 0x31 True True)) \<noteq> Some 1"
proof -
  have "drop_bit 4 (0x31 :: int) = 3" by simp
  then show ?thesis
    using NAU7802_init_sps_unmatched [of 5 4 7 "0x31" "-1" True "NAU7802_init 5 4 (-1) 7 0x31 True True" 10]
    by (simp add: SPS10_def SPS20_def SPS40_def SPS80_def SPS320_def)
qed

text \<open>
  C31: \<open>PowerOn\<close> on an initialised, unpowered instance returns once a poll reports
  a conversion: if poll \<open>k\<close> does, \<open>k + 2\<close> polls suffice, and the result is the
  instance with \<open>PowerOn\<close> and \<open>ADCReady\<close> set and nothing else changed.
\<close>

theorem nau_PowerOn_returns:
  assumes "Status s AND (Status_Inited OR Status_PowerOn) = Status_Inited"
    and "\<not> has_flag (Status s) Status_ADCReady"
    and "nau_poll_ready drdy regs (Status s) k" and "k + 2 \<le> fuel"
  shows "PowerOn_NAU fuel drdy regs s =
           Some (s\<lparr>Status := (Status s OR Status_PowerOn) OR Status_ADCReady\<rparr>)"
  using assms nau_PowerOn_wait_returns [of "s\<lparr>Status := Status s OR Status_PowerOn\<rparr>" drdy regs 0 k fuel]
  by (simp add: PowerOn_NAU_def nau_powering_not_ready)

theorem nau_PowerOn_returns_witness:
  "PowerOn_NAU 5 (\<lambda>_. False) (\<lambda>i. if i = 3 then (15, 32) else (0, 0))
     (NAU7802_init 5 4 (-1) 7 48 True True) =
   Some ((NAU7802_init 5 4 (-1) 7 48 True True)\<lparr>Status := 0xB4\<rparr>)"
proof -
  let ?s = "NAU7802_init 5 4 (-1) 7 48 True True"
  have st: "Status ?s = 0xA0"
    by (simp add: NAU7802_init_def Let_def nau7802_defaults_def status_simps)
  have "nau_poll_ready (\<lambda>_. False) (\<lambda>i. if i = 3 then (15, 32) else (0, 0)) (Status ?s) 3"
    by (simp add: nau_poll_ready_def)
  then show ?thesis
    using nau_PowerOn_returns [of ?s "\<lambda>_. False" "\<lambda>i. if i = 3 then (15, 32) else (0, 0)" 3 5] st
    by (simp add: status_simps has_flag_def)
qed

text \<open>
  C32: the wait has no timeout. If no poll ever reports a conversion, \<open>PowerOn\<close>
  does not return for any number of polls. Without \<open>EnDRDY\<close> the DRDY pin is not
  consulted, whatever its level.
\<close>

theorem nau_PowerOn_hangs:
  assumes "Status s AND (Status_Inited OR Status_PowerOn) = Status_Inited"
    and "\<not> has_flag (Status s) Status_ADCReady"
    and "\<forall>j. \<not> nau_poll_ready drdy regs (Status s) j"
  shows "PowerOn_NAU fuel drdy regs s = None"
  using assms nau_PowerOn_wait_hangs [of "s\<lparr>Status := Status s OR Status_PowerOn\<rparr>" drdy regs fuel 0]
  by (simp add: PowerOn_NAU_def nau_powering_not_ready)

theorem nau_PowerOn_hangs_witness:
  "PowerOn_NAU 1000 (\<lambda>_. True) (\<lambda>_. (0, 0)) (NAU7802_init 5 4 (-1) 7 48 True True) = None"
proof -
  let ?s = "NAU7802_init 5 4 (-1) 7 48 True True"
  have st: "Status ?s = 0xA0"
    by (simp add: NAU7802_init_def Let_def nau7802_defaults_def status_simps)
  have "\<forall>j. \<not> nau_poll_ready (\<lambda>_. True) (\<lambda>_. (0, 0)) (Status ?s) j"
    using st by (simp add: nau_poll_ready_def has_flag_def status_simps)
  then show ?thesis
    using nau_PowerOn_hangs [of ?s "\<lambda>_. True" "\<lambda>_. (0, 0)" 1000] st
    by (simp add: status_simps has_flag_def)
qed

end
