(* ===== verification/NAU7802_Read.thy ===== *)
theory NAU7802_Read
  imports NAU7802
begin

text \<open>
  What \<open>NAU7802.getRawData\<close> makes of the three bytes of register 0x12, and what
  the timer callback does with the saturation code. \<open>nau_bytes\<close> is the device's
  side: the big-endian bytes of a 24-bit two's-complement conversion result.
\<close>

unbundle bit_operations_syntax

definition nau_bytes :: "int \<Rightarrow> int \<times> int \<times> int" where
  "nau_bytes v = (let u = v mod 2 ^ 24 in (u div 2 ^ 16, u div 2 ^ 8 mod 2 ^ 8, u mod 2 ^ 8))"

section \<open>Composing the bytes\<close>

text \<open>An \<open>OR\<close> below a shifted value is an addition (the bits are disjoint).\<close>

lemma push_bit_or_low:
  assumes "0 \<le> c" and "c < 2 ^ k"
  shows "push_bit k a OR c = push_bit k a + (c :: int)"
proof -
  have "take_bit k c = c" using assms by (simp add: take_bit_int_eq_self)
  then have "\<not> bit c n" if "k \<le> n" for n
    using that by (metis bit_take_bit_iff not_le)
  then have "push_bit k a AND c = 0"
    by (intro bit_eqI) (auto simp: bit_and_iff bit_push_bit_iff)
  then show ?thesis by (simp add: disjunctive_add_eq_or)
qed

lemma bytes_value:
  assumes "0 \<le> b1" and "b1 < 256" and "0 \<le> b2" and "b2 < (256 :: int)"
  shows "push_bit 16 b0 OR push_bit 8 b1 OR b2 = b0 * 65536 + b1 * 256 + b2"
proof -
  have l: "push_bit 8 b1 OR b2 = b1 * 256 + b2"
    using push_bit_or_low [of b2 8 b1] assms by (simp add: push_bit_eq_mult)
  have "0 \<le> b1 * 256 + b2" and "b1 * 256 + b2 < 2 ^ 16" using assms by simp_all
  then have "push_bit 16 b0 OR (b1 * 256 + b2) = push_bit 16 b0 + (b1 * 256 + b2)"
    by (rule push_bit_or_low)
  with l show ?thesis by (simp add: push_bit_eq_mult)
qed

lemma bytes_div: "(u :: int) div 65536 * 65536 + u div 256 mod 256 * 256 + u mod 256 = u"
proof -
  have d: "u div 256 div 256 = u div 65536"
    by (simp add: zdiv_zmult2_eq [symmetric])
  have e1: "u div 256 = u div 256 div 256 * 256 + u div 256 mod 256"
    by (rule div_mult_mod_eq [symmetric])
  have e0: "u = u div 256 * 256 + u mod 256"
    by (rule div_mult_mod_eq [symmetric])
  from d e1 e0 show ?thesis by linarith
qed

lemma nau_bytes_value:
  "case nau_bytes v of (b0, b1, b2) \<Rightarrow> b0 * 65536 + b1 * 256 + b2 = v mod 2 ^ 24"
proof -
  have p: "(2 :: int) ^ 16 = 65536" "(2 :: int) ^ 8 = 256" by simp_all
  show ?thesis by (simp only: nau_bytes_def Let_def p prod.case bytes_div)
qed

lemma nau_bytes_range:
  "case nau_bytes v of (b0, b1, b2) \<Rightarrow> 0 \<le> b1 \<and> b1 < 256 \<and> 0 \<le> b2 \<and> b2 < 256"
  by (simp add: nau_bytes_def Let_def)

lemma nau_getRawData_ready:
  "has_flag (Status s) Status_ADCReady \<Longrightarrow> 0 \<le> b1 \<Longrightarrow> b1 < 256 \<Longrightarrow> 0 \<le> b2 \<Longrightarrow> b2 < 256 \<Longrightarrow>
   getRawData_NAU (b0, b1, b2) s = sign24 (b0 * 65536 + b1 * 256 + b2)"
  by (simp add: getRawData_NAU_def bytes_value)

section \<open>Properties of the read\<close>

text \<open>
  C33: whatever three bytes the bus returns, the reading lies in the 24-bit signed
  range \<open>[-2^23, 2^23)\<close> (and is 0 when the converter is not ready).
\<close>

theorem nau_getRawData_range:
  assumes "0 \<le> b0" "b0 < 256" "0 \<le> b1" "b1 < 256" "0 \<le> b2" "b2 < 256"
  shows "- (2 ^ 23) \<le> getRawData_NAU (b0, b1, b2) s \<and> getRawData_NAU (b0, b1, b2) s < 2 ^ 23"
proof (cases "has_flag (Status s) Status_ADCReady")
  case True
  let ?u = "b0 * 65536 + b1 * 256 + b2"
  have "0 \<le> ?u" and "?u < 2 ^ 24" using assms by simp_all
  then have "- (2 ^ 23) \<le> sign24 ?u \<and> sign24 ?u < 2 ^ 23" by (rule sign24_range)
  with True assms show ?thesis by (simp add: nau_getRawData_ready)
next
  case False
  then show ?thesis by (simp add: getRawData_NAU_def)
qed

theorem nau_getRawData_range_witness:
  "- (2 ^ 23) \<le> getRawData_NAU (255, 255, 255) (nau7802_defaults\<lparr>Status := 0xB4\<rparr>) \<and>
   getRawData_NAU (255, 255, 255) (nau7802_defaults\<lparr>Status := 0xB4\<rparr>) < 2 ^ 23"
  by (rule nau_getRawData_range) simp_all

text \<open>
  C34: round trip: when the converter sends the big-endian bytes of a 24-bit
  two's-complement value \<open>v\<close>, \<open>getRawData\<close> returns \<open>v\<close>.
\<close>

theorem nau_getRawData_roundtrip:
  assumes "has_flag (Status s) Status_ADCReady" and "- (2 ^ 23) \<le> v" and "v < 2 ^ 23"
  shows "getRawData_NAU (nau_bytes v) s = v"
proof -
  obtain b0 b1 b2 where b: "nau_bytes v = (b0, b1, b2)" by (cases "nau_bytes v") auto
  have r: "0 \<le> b1" "b1 < 256" "0 \<le> b2" "b2 < 256" using nau_bytes_range [of v] b by simp_all
  have u: "b0 * 65536 + b1 * 256 + b2 = v mod 2 ^ 24" using nau_bytes_value [of v] b by simp
  have "getRawData_NAU (nau_bytes v) s = sign24 (v mod 2 ^ 24)"
    using nau_getRawData_ready [OF assms(1) r] b u by simp
  also have "\<dots> = v" using assms(2,3) by (rule sign24_mod)
  finally show ?thesis .
qed

theorem nau_getRawData_roundtrip_witness:
  "getRawData_NAU (nau_bytes (-5)) (nau7802_defaults\<lparr>Status := 0xB4\<rparr>) = -5"
  by (rule nau_getRawData_roundtrip) (simp_all add: has_flag_def status_simps)

text \<open>
  C35: the timer callback has no saturation test. When the converter returns the
  full-scale code 0x7FFFFF (8388607), that value enters the window: it is written
  into the next slot while filling and appended while tracking.
\<close>

theorem nau_updateADC_keeps_sentinel:
  assumes "nau_filter_inv s" and "has_flag (Status s) Status_ADCReady"
  shows "\<exists>s'. updateADC_NAU (0x7F, 0xFF, 0xFF) s = Inr s' \<and>
              dataY s' = (if dataI s < 21 then (dataY s)[dataI s := 8388607]
                          else tl (dataY s) @ [8388607])"
proof -
  have g: "getRawData_NAU (0x7F, 0xFF, 0xFF) s = 8388607"
  proof -
    have "getRawData_NAU (0x7F, 0xFF, 0xFF) s = sign24 8388607"
      using nau_getRawData_ready [OF assms(2), of 255 255 127] by simp
    also have "\<dots> = 8388607" by (simp add: sign24_code)
    finally show ?thesis .
  qed
  show ?thesis
  proof (cases "dataI s < 21")
    case True
    with assms g show ?thesis
      by (simp add: updateADC_NAU_def nau_filter_def nau_fill_def nau_filter_inv_def)
  next
    case False
    obtain a b e where "ols_fit nau_dataX (tl (dataY s) @ [8388607]) = (a, b, e)"
      by (cases "ols_fit nau_dataX (tl (dataY s) @ [8388607])") auto
    with assms g False show ?thesis
      by (auto simp: updateADC_NAU_def nau_filter_def nau_track_eq nau_filter_inv_def Let_def)
  qed
qed

theorem nau_updateADC_keeps_sentinel_witness:
  "\<exists>s'. updateADC_NAU (0x7F, 0xFF, 0xFF) (nau7802_defaults\<lparr>Status := 0xBC\<rparr>) = Inr s' \<and>
        dataY s' = (replicate 21 0)[0 := 8388607]"
proof -
  let ?s = "nau7802_defaults\<lparr>Status := 0xBC\<rparr>"
  have i: "nau_filter_inv ?s"
    by (simp add: nau_filter_inv_def nau7802_defaults_def nau_dataY0_def)
  have r: "has_flag (Status ?s) Status_ADCReady" by (simp add: has_flag_def status_simps)
  show ?thesis
    using nau_updateADC_keeps_sentinel [OF i r] by (simp add: nau7802_defaults_def nau_dataY0_def)
qed

end
