(* ===== verification/NAU7802_Regs.thy ===== *)
theory NAU7802_Regs
  imports NAU7802
begin

text \<open>
  The register side of the I2C driver: the writes of \<open>NAU7802.PowerOn\<close>
  (\<^verbatim>\<open>src/NAU7802/NAU7802.py\<close> lines 96--104) and \<open>NAU7802.PowerOff\<close> (line 116) to
  the converter at address 0x2A. The converter's register file is a store from
  register numbers to byte values, after the store of \<open>HOL/IMP/OO\<close>. A write
  \<open>writeto(0x2A, bytearray([r, d0, d1, ...]))\<close> first builds the \<open>bytearray\<close>, which
  raises \<open>ValueError\<close> on a value outside \<open>0..255\<close>; the device then stores
  \<open>d0, d1, ...\<close> into registers \<open>r, r+1, ...\<close> (its register pointer increments
  on each byte). A read \<open>readfrom_mem(0x2A, r, 1)\<close> is the stored byte. The status
  registers the wait polls (0x1F, 0x00) change with the converter's own progress;
  the wait takes them as arguments (\<open>NAU7802\<close>), not from this store.
\<close>

unbundle bit_operations_syntax

type_synonym regfile = "nat \<Rightarrow> int"

definition bytearray :: "int list \<Rightarrow> py_error + int list" where
  "bytearray xs = (if list_all (\<lambda>b. 0 \<le> b \<and> b < 256) xs then Inr xs else Inl ValueError)"

fun write_regs :: "nat \<Rightarrow> int list \<Rightarrow> regfile \<Rightarrow> regfile" where
  "write_regs r [] rf = rf"
| "write_regs r (b # bs) rf = write_regs (Suc r) bs (rf(r := b))"

definition writeto :: "int list \<Rightarrow> regfile \<Rightarrow> py_error + regfile" where
  "writeto buf rf =
     bindE (bytearray buf) (\<lambda>bs. case bs of [] \<Rightarrow> Inr rf | r # ds \<Rightarrow> Inr (write_regs (nat r) ds rf))"

text \<open>
  Lines 96--104, run under the guard of \<open>PowerOn\<close> before the status flag is set:
  power-up and the control registers, then read-modify-write of 0x15, 0x1C and
  0x1B.
\<close>

definition PowerOn_regs :: "nau7802 \<Rightarrow> regfile \<Rightarrow> py_error + regfile" where
  "PowerOn_regs s rf =
     (if Status s AND (Status_Inited OR Status_PowerOn) = Status_Inited then
        bindE (writeto [0x00, 0x86, CTRL1 s, CTRL2 s] rf) (\<lambda>rf1.
        bindE (writeto [0x15, rf1 0x15 OR 0x30] rf1) (\<lambda>rf2.
        bindE (writeto [0x1C, 0x80] rf2) (\<lambda>rf3.
        writeto [0x1B, rf3 0x1B AND 0xBF] rf3)))
      else Inr rf)"

text \<open>Line 116: the power-down write.\<close>

definition PowerOff_regs :: "nau7802 \<Rightarrow> regfile \<Rightarrow> py_error + regfile" where
  "PowerOff_regs s rf =
     (if has_flag (Status s) Status_PowerOn then writeto [0x00, 0x01] rf else Inr rf)"

text \<open>Every register holds a byte.\<close>

definition byte_regs :: "regfile \<Rightarrow> bool" where
  "byte_regs rf \<longleftrightarrow> (\<forall>r. 0 \<le> rf r \<and> rf r < 256)"

section \<open>Lemmas\<close>

lemma writeto_bytes:
  "list_all (\<lambda>b. 0 \<le> b \<and> b < 256) (r # ds) \<Longrightarrow> writeto (r # ds) rf = Inr (write_regs (nat r) ds rf)"
  by (simp add: writeto_def bytearray_def)

lemma byte_regs_upd [simp]:
  "byte_regs rf \<Longrightarrow> 0 \<le> v \<Longrightarrow> v < 256 \<Longrightarrow> byte_regs (rf(r := v))"
  by (simp add: byte_regs_def)

text \<open>An initialised instance passed the constructor's checks, and its control bytes are bytes.\<close>

lemma NAU7802_init_ctrl:
  assumes "Status (NAU7802_init scl sda pin gain adcsps timer found) AND (Status_Inited OR Status_PowerOn)
             = Status_Inited"
  shows "CTRL1 (NAU7802_init scl sda pin gain adcsps timer found) = 0x28 OR gain \<and>
         CTRL2 (NAU7802_init scl sda pin gain adcsps timer found) = adcsps \<and>
         0 \<le> gain \<and> gain \<le> 7 \<and> 0 \<le> adcsps \<and> adcsps < 128"
proof -
  let ?r = "drop_bit 4 adcsps"
  have "found \<and> (gain \<le> 7 \<and> 0 \<le> gain) \<and> (?r = 7 \<or> (?r \<le> 3 \<and> 0 \<le> ?r)) \<and>
        CTRL1 (NAU7802_init scl sda pin gain adcsps timer found) = 0x28 OR gain \<and>
        CTRL2 (NAU7802_init scl sda pin gain adcsps timer found) = adcsps"
    using assms
    by (auto simp: NAU7802_init_def Let_def nau7802_defaults_def status_simps maskSPS_def
             split: if_splits)
  moreover have "0 \<le> adcsps \<and> adcsps < 128"
  proof -
    have q: "0 \<le> adcsps div 16 \<and> adcsps div 16 \<le> 7"
      using calculation by (auto simp: drop_bit_eq_div)
    have "adcsps = 16 * (adcsps div 16) + adcsps mod 16" by simp
    moreover have "0 \<le> adcsps mod 16" and "adcsps mod 16 < 16" by simp_all
    ultimately show ?thesis using q by linarith
  qed
  ultimately show ?thesis by auto
qed

lemma ctrl1_byte: "0 \<le> gain \<Longrightarrow> gain \<le> 7 \<Longrightarrow> 0 \<le> 0x28 OR gain \<and> (0x28 OR gain :: int) < 256"
  using int_or_byte_bounded [where a = 40 and b = gain] by simp

lemma or_30_byte: "0 \<le> (v :: int) \<Longrightarrow> v < 256 \<Longrightarrow> 0 \<le> v OR 0x30 \<and> v OR 0x30 < 256"
  using int_or_byte_bounded [where a = v and b = 48] by simp

lemma and_BF_byte: "0 \<le> (v :: int) \<Longrightarrow> v < 256 \<Longrightarrow> 0 \<le> v AND 0xBF \<and> v AND 0xBF < 256"
  using int_and_byte_bounded [where a = v and b = 191] by simp

section \<open>Properties\<close>

text \<open>
  C30: the first \<open>PowerOn\<close> of a constructed instance configures the converter as
  asked and raises nothing. Every \<open>bytearray\<close> holds bytes (the constructor's
  checks bound \<open>Gain\<close> to 0..7 and \<open>ADCSPS\<close> to 0..127), so no \<open>ValueError\<close>; the
  write sets the power-up register 0x00 to 0x86, CTRL1 (0x01) to \<open>0x28 | Gain\<close>,
  CTRL2 (0x02) to \<open>ADCSPS\<close> exactly as passed (low bits included), sets bits 4--5 of
  0x15, writes 0x80 to 0x1C, clears bit 6 of 0x1B, and leaves every other
  register and the byte range of all registers as they were.
\<close>

theorem nau_PowerOn_configures:
  assumes "byte_regs rf"
    and "Status (NAU7802_init scl sda pin gain adcsps timer found) AND (Status_Inited OR Status_PowerOn)
           = Status_Inited"
  shows "PowerOn_regs (NAU7802_init scl sda pin gain adcsps timer found) rf =
           Inr (rf(0 := 0x86, 1 := 0x28 OR gain, 2 := adcsps, 0x15 := rf 0x15 OR 0x30,
                   0x1C := 0x80, 0x1B := rf 0x1B AND 0xBF)) \<and>
         byte_regs (rf(0 := 0x86, 1 := 0x28 OR gain, 2 := adcsps, 0x15 := rf 0x15 OR 0x30,
                       0x1C := 0x80, 0x1B := rf 0x1B AND 0xBF))"
proof -
  let ?s = "NAU7802_init scl sda pin gain adcsps timer found"
  have c: "CTRL1 ?s = 0x28 OR gain" "CTRL2 ?s = adcsps" "0 \<le> gain" "gain \<le> 7"
          "0 \<le> adcsps" "adcsps < 128"
    using NAU7802_init_ctrl [OF assms(2)] by auto
  have g: "0 \<le> 0x28 OR gain" "(0x28 OR gain :: int) < 256" using ctrl1_byte [OF c(3,4)] by auto
  have b15: "0 \<le> rf 0x15" "rf 0x15 < 256" and b1B: "0 \<le> rf 0x1B" "rf 0x1B < 256"
    using assms(1) by (auto simp: byte_regs_def)
  have o: "0 \<le> rf 0x15 OR 0x30" "rf 0x15 OR 0x30 < 256" using or_30_byte [OF b15] by auto
  have a: "0 \<le> rf 0x1B AND 0xBF" "rf 0x1B AND 0xBF < 256" using and_BF_byte [OF b1B] by auto
  have run: "PowerOn_regs ?s rf =
           Inr (rf(0 := 0x86, 1 := 0x28 OR gain, 2 := adcsps, 0x15 := rf 0x15 OR 0x30,
                   0x1C := 0x80, 0x1B := rf 0x1B AND 0xBF))"
    using assms(2) c g o a
    by (simp add: PowerOn_regs_def writeto_bytes numeral_eq_Suc)
  have "byte_regs (rf(0 := 0x86, 1 := 0x28 OR gain, 2 := adcsps, 0x15 := rf 0x15 OR 0x30,
                       0x1C := 0x80, 0x1B := rf 0x1B AND 0xBF))"
    using assms(1) c g o a by simp
  with run show ?thesis by blast
qed

theorem nau_PowerOn_configures_witness:
  "PowerOn_regs (NAU7802_init 5 4 (-1) 7 48 True True) (\<lambda>_. 0) =
     Inr ((\<lambda>_. 0)(0 := 0x86, 1 := 0x28 OR 7, 2 := 48, 0x15 := 0 OR 0x30, 0x1C := 0x80, 0x1B := 0 AND 0xBF))"
proof -
  have b: "byte_regs (\<lambda>_. 0)" by (simp add: byte_regs_def)
  have i: "Status (NAU7802_init 5 4 (-1) 7 48 True True) AND (Status_Inited OR Status_PowerOn) = Status_Inited"
    by (simp add: NAU7802_init_def Let_def nau7802_defaults_def status_simps SPS10_def SPS20_def
                  SPS40_def SPS80_def)
  show ?thesis using nau_PowerOn_configures [OF b i] by simp
qed

end
