(* ===== verification/Drift_Filter.thy ===== *)
theory Drift_Filter
  imports HX711_Filter NAU7802_Filter
begin

text \<open>
  The specification's \<open>DriftFilter<N>\<close> (section 4.3 of the specification) as an
  abstract step on the window and the published outputs, and the refinement of it
  by the two drivers' filters. Filling appends a sample; once the window holds
  \<open>N\<close> samples every sample slides it and republishes the least-squares fit, the
  average and the stability flag. \<open>adc_abs\<close> reads the abstract state off the
  fields both classes share: the window is the filled prefix of \<open>__dataY\<close>. The
  NAU7802 filter refines the step on every sample. The HX711 filter refines it on
  every step that neither starts nor resolves a spike recheck; the recheck is the
  part where the code departs from the specification.
\<close>

section \<open>The abstract filter\<close>

record drift_state =
  win :: "int list"
  fit :: "real \<times> real \<times> real"
  mean :: avg_val
  stable :: bool

definition drift_step :: "nat \<Rightarrow> real \<Rightarrow> int list \<Rightarrow> int \<Rightarrow> drift_state \<Rightarrow> drift_state" where
  "drift_step N thr xs v a =
     (if length (win a) < N then a\<lparr>win := win a @ [v]\<rparr>
      else let w = tl (win a) @ [v]; f = ols_fit xs w
           in \<lparr>win = w, fit = f, mean = Average w, stable = (snd (snd f) < thr)\<rparr>)"

definition adc_abs :: "'a adc_common_scheme \<Rightarrow> drift_state" where
  "adc_abs s =
     \<lparr>win = take (dataI s) (dataY s), fit = (LinRegA s, LinRegB s, LinRegE s),
      mean = MeanValue s, stable = (ValStable s = 1)\<rparr>"

section \<open>Simulation lemmas\<close>

lemma take_update_append:
  "i < length ys \<Longrightarrow> take (Suc i) (ys[i := v]) = take i ys @ [v]"
  by (simp add: take_Suc_conv_app_nth)

lemma nau_refines_step:
  assumes "nau_filter_inv s" and "nau_filter v s = Inr s'"
  shows "adc_abs s' = drift_step 21 200 nau_dataX v (adc_abs s)"
proof (cases "dataI s < 21")
  case True
  with assms show ?thesis
    by (auto simp: nau_filter_def nau_fill_def nau_filter_inv_def adc_abs_def drift_step_def
                   take_update_append min_def)
next
  case False
  then have d: "dataI s = 21" using assms(1) by (simp add: nau_filter_inv_def)
  obtain a b e where f: "ols_fit nau_dataX (tl (dataY s) @ [v]) = (a, b, e)"
    by (cases "ols_fit nau_dataX (tl (dataY s) @ [v])") auto
  with assms d show ?thesis
    by (auto simp: nau_filter_def nau_track_eq nau_filter_inv_def adc_abs_def drift_step_def
                   Let_def split: if_splits)
qed

section \<open>Refinement\<close>

text \<open>
  C39: the NAU7802 filter refines the specification's \<open>DriftFilter<21>\<close> with
  stability threshold 200: from any state satisfying the window invariant, the
  abstraction of the state reached by any sample stream is the abstract filter run
  on that stream from the abstraction of the start.
\<close>

theorem nau_refines_drift:
  assumes "nau_filter_inv s" and "nau_filter_run vs s = Inr s'"
  shows "adc_abs s' = fold (drift_step 21 200 nau_dataX) vs (adc_abs s)"
  using assms
proof (induction vs arbitrary: s)
  case Nil
  then show ?case by simp
next
  case (Cons v vs)
  obtain s1 where r1: "nau_filter v s = Inr s1" and i1: "nau_filter_inv s1"
    using nau_filter_step_ok [OF Cons.prems(1)] by blast
  have "nau_filter_run vs s1 = Inr s'" using Cons.prems(2) r1 by simp
  then have "adc_abs s' = fold (drift_step 21 200 nau_dataX) vs (adc_abs s1)"
    by (rule Cons.IH [OF i1])
  with nau_refines_step [OF Cons.prems(1) r1] show ?case by simp
qed

theorem nau_refines_drift_witness:
  "nau_filter_run [1, 2, 3] nau_filter_defaults =
     Inr (nau_filter_defaults\<lparr>dataY := [1, 2, 3] @ replicate 18 0, dataI := 3\<rparr>) \<and>
   adc_abs (nau_filter_defaults\<lparr>dataY := [1, 2, 3] @ replicate 18 0, dataI := 3\<rparr>) =
     fold (drift_step 21 200 nau_dataX) [1, 2, 3] (adc_abs nau_filter_defaults)"
proof -
  have i: "nau_filter_inv nau_filter_defaults"
    by (simp add: nau_filter_inv_def nau_filter_defaults_def nau_dataY0_def)
  have r: "nau_filter_run [1, 2, 3] nau_filter_defaults =
             Inr (nau_filter_defaults\<lparr>dataY := [1, 2, 3] @ replicate 18 0, dataI := 3\<rparr>)"
    using nau_fill_run [OF i, of "[1, 2, 3]"]
    by (simp add: nau_filter_defaults_def nau_dataY0_def numeral_eq_Suc)
  show ?thesis using r nau_refines_drift [OF i r] by simp
qed

text \<open>
  C40: the HX711 filter refines \<open>DriftFilter<11>\<close> with stability threshold 250 on
  every step taken with no recheck pending that does not raise a new suspicion
  (\<open>Check\<close> 0 before and after): filling appends, tracking slides and publishes
  the fit, the average and the stability flag of the new window.
\<close>

theorem hx_refines_drift:
  assumes "hx_filter_inv s" and "Check s = 0" and "hx_filter v s = Inr s'" and "Check s' = 0"
  shows "adc_abs s' = drift_step 11 250 hx_dataX v (adc_abs s)"
proof (cases "dataI s < 11")
  case True
  with assms show ?thesis
    by (auto simp: hx_filter_def hx_fill_def hx_filter_inv_def adc_abs_def drift_step_def
                   take_update_append min_def)
next
  case False
  then have d: "dataI s = 11" using assms(1) by (simp add: hx_filter_inv_def)
  obtain a b e where f: "ols_fit hx_dataX (tl (dataY s) @ [v]) = (a, b, e)"
    by (cases "ols_fit hx_dataX (tl (dataY s) @ [v])") auto
  with assms d show ?thesis
    by (auto simp: hx_filter_def hx_track_eq hx_filter_inv_def adc_abs_def drift_step_def
                   Let_def split: if_splits)
qed

theorem hx_refines_drift_witness:
  "hx_filter 0 (hx_filter_defaults\<lparr>dataI := 11\<rparr>) = Inr (hx_filter_defaults\<lparr>dataI := 11, ValStable := 1\<rparr>) \<and>
   adc_abs (hx_filter_defaults\<lparr>dataI := 11, ValStable := 1\<rparr>) =
     drift_step 11 250 hx_dataX 0 (adc_abs (hx_filter_defaults\<lparr>dataI := 11\<rparr>))"
proof -
  let ?s = "hx_filter_defaults\<lparr>dataI := 11\<rparr>"
  have i: "hx_filter_inv ?s" and c: "Check ?s = 0"
    by (simp_all add: hx_filter_inv_def hx_filter_defaults_def hx_dataY0_def)
  have z: "ols_fit hx_dataX (0 # replicate 10 0) = (0, 0, 0)"
    by (simp add: ols_fit_def hx_dataX_def Let_def numeral_eq_Suc)
  have r: "hx_filter 0 ?s = Inr (hx_filter_defaults\<lparr>dataI := 11, ValStable := 1\<rparr>)"
    using z
    by (simp add: hx_filter_def hx_track_eq hx_filter_defaults_def hx_dataY0_def Average_def
                  replicate_append_same) (simp add: numeral_eq_Suc)
  have c': "Check (hx_filter_defaults\<lparr>dataI := 11, ValStable := 1\<rparr>) = 0"
    by (simp add: hx_filter_defaults_def)
  show ?thesis using r hx_refines_drift [OF i c r c'] by simp
qed

end
