(* ===== verification/Shared_Window.thy ===== *)
theory Shared_Window
  imports HX711
begin

text \<open>
  \<open>__dataY\<close> is a class attribute of \<open>HX711\<close> (\<^verbatim>\<open>src/HX711/HX711.py\<close> line 34), and
  \<open>updateADC\<close> only ever mutates it in place (\<open>self.__dataY[i] = ...\<close>, \<open>pop\<close>,
  \<open>append\<close>); it never assigns \<open>self.__dataY\<close>. So every instance reads and writes
  the one list of the class, while \<open>__dataI\<close>, \<open>__Check\<close> and the outputs become
  attributes of each instance on first assignment. This theory models the class
  and its instances as a store, after the heap model of \<open>HOL/Hoare/Heap\<close>: the
  shared list and a map from instance identifiers to instance states, whose own
  \<open>dataY\<close> field is replaced by the shared list on every call.
\<close>

record hx_class =
  cls_dataY :: "int list"
  inst :: "nat \<Rightarrow> hx711"

text \<open>The timer callback of instance \<open>i\<close>, run against the class's list.\<close>

definition hx_updateADC_shared :: "nat \<Rightarrow> (nat \<Rightarrow> bool) \<Rightarrow> hx_class \<Rightarrow> py_error + hx_class" where
  "hx_updateADC_shared i dout c =
     bindE (updateADC dout ((inst c i)\<lparr>dataY := cls_dataY c\<rparr>))
       (\<lambda>s'. Inr \<lparr>cls_dataY = dataY s', inst = (inst c)(i := s')\<rparr>)"

section \<open>Lemmas\<close>

lemma hx_filter_sample_in_window:
  assumes "hx_filter_inv s" and "hx_filter v s = Inr s'"
  shows "v \<in> set (dataY s')"
proof (cases "dataI s < 11")
  case True
  with assms show ?thesis
    by (auto simp: hx_filter_def hx_fill_def hx_filter_inv_def set_update_memI)
next
  case False
  with assms show ?thesis
    by (auto simp: hx_filter_def hx_track_eq hx_recheck_eq hx_filter_inv_def Let_def
             split: prod.splits if_splits)
qed

section \<open>Interference between instances\<close>

text \<open>
  C17: two instances of \<open>HX711\<close> share one window. When instance \<open>i\<close> accepts a
  sample, that sample is in the window every other instance \<open>j\<close> fits next, while
  \<open>j\<close>'s own state (its fill index, recheck flag and outputs) is unchanged: two
  load cells on one board mix their readings.
\<close>

theorem hx_shared_window_interference:
  assumes "i \<noteq> j" and "hx_filter_inv ((inst c i)\<lparr>dataY := cls_dataY c\<rparr>)"
    and "has_flag (Status (inst c i)) Status_OutReady"
    and "fst (getRawData dout (inst c i)) \<noteq> hx_sentinel"
    and "hx_updateADC_shared i dout c = Inr c'"
  shows "inst c' j = inst c j \<and> fst (getRawData dout (inst c i)) \<in> set (cls_dataY c')"
proof -
  let ?s = "(inst c i)\<lparr>dataY := cls_dataY c\<rparr>"
  obtain s' where u: "updateADC dout ?s = Inr s'" and c': "c' = \<lparr>cls_dataY = dataY s', inst = (inst c)(i := s')\<rparr>"
    using assms(5) by (auto simp: hx_updateADC_shared_def bindE_eq_Inr)
  let ?v = "fst (getRawData dout (inst c i))"
  have g: "getRawData dout ?s = (?v, (snd (getRawData dout (inst c i)))\<lparr>dataY := cls_dataY c\<rparr>)"
    by (simp add: getRawData_def)
  have f: "hx_filter ?v ((snd (getRawData dout (inst c i)))\<lparr>dataY := cls_dataY c\<rparr>) = Inr s'"
    using u assms(3,4) g by (simp add: updateADC_def)
  have "hx_filter_inv ((snd (getRawData dout (inst c i)))\<lparr>dataY := cls_dataY c\<rparr>)"
    using assms(2) by (simp add: hx_filter_inv_def getRawData_def)
  then have "?v \<in> set (dataY s')" using f by (rule hx_filter_sample_in_window)
  moreover have "inst c' j = inst c j" using c' assms(1) by simp
  ultimately show ?thesis using c' by simp
qed

theorem hx_shared_window_interference_witness:
  "\<exists>c'. hx_updateADC_shared 0 (\<lambda>k. k = 23)
          \<lparr>cls_dataY = replicate 11 0, inst = \<lambda>_. hx711_defaults\<lparr>Status := 0xB4, ChMode := 25\<rparr>\<rparr> = Inr c' \<and>
        inst c' 1 = hx711_defaults\<lparr>Status := 0xB4, ChMode := 25\<rparr> \<and> 1 \<in> set (cls_dataY c')"
proof -
  let ?c = "\<lparr>cls_dataY = replicate 11 0, inst = \<lambda>_. hx711_defaults\<lparr>Status := 0xB4, ChMode := 25\<rparr>\<rparr>"
  have r: "clock_in (\<lambda>k. k = 23) 25 = 1" by code_simp
  have g: "fst (getRawData (\<lambda>k. k = 23) (inst ?c 0)) = 1"
    using r by (simp add: getRawData_def has_flag_def status_simps sign24_def)
  have i: "hx_filter_inv ((inst ?c 0)\<lparr>dataY := cls_dataY ?c\<rparr>)"
    by (simp add: hx_filter_inv_def hx711_defaults_def)
  have o: "has_flag (Status (inst ?c 0)) Status_OutReady" by (simp add: has_flag_def status_simps)
  have n: "fst (getRawData (\<lambda>k. k = 23) (inst ?c 0)) \<noteq> hx_sentinel" using g by (simp add: hx_sentinel_def)
  obtain c' where u: "hx_updateADC_shared 0 (\<lambda>k. k = 23) ?c = Inr c'"
    using r by (simp add: hx_updateADC_shared_def updateADC_def getRawData_def has_flag_def status_simps
                          sign24_def hx_sentinel_def hx_filter_def hx_fill_def hx711_defaults_def)
  show ?thesis using hx_shared_window_interference [OF _ i o n u, of 1] g u by auto
qed

end
