(* ===== verification/Main_Demo.thy ===== *)
theory Main_Demo
  imports HX711 NAU7802
begin

text \<open>
  The demonstration programs at the end of both driver files
  (\<^verbatim>\<open>if __name__ == "__main__"\<close>): construct an instance with a timer, power it on,
  and start periodic reading; the loop that follows only prints the outputs. The
  result is \<open>None\<close> when \<open>PowerOn\<close> does not return within the fuel, otherwise the
  value \<open>startReadADC\<close> returned and the instance, on which the printing loop runs
  while the timer callback updates it. The \<open>KeyboardInterrupt\<close> handler is not
  modelled (see the header of \<open>Spec2Isabelle\<close>).
\<close>

unbundle bit_operations_syntax

definition hx_main :: "nat \<Rightarrow> (nat \<Rightarrow> bool) \<Rightarrow> (int option \<times> hx711) option" where
  "hx_main fuel irq =
     (case PowerOn fuel irq (HX711_init 5 4 ChAx128 True) of
        None \<Rightarrow> None
      | Some s \<Rightarrow> Some (startReadADC 1 2 s))"

definition nau_main ::
  "bool \<Rightarrow> nat \<Rightarrow> (nat \<Rightarrow> bool) \<Rightarrow> (nat \<Rightarrow> int \<times> int) \<Rightarrow> (int option \<times> nau7802) option" where
  "nau_main found fuel drdy regs =
     (case PowerOn_NAU fuel drdy regs (NAU7802_init 5 4 (-1) Gain128 SPS80 True found) of
        None \<Rightarrow> None
      | Some s \<Rightarrow> Some (startReadADC_NAU 1 80 s))"

section \<open>Lemmas\<close>

lemma PinDOUT_IRQHandler_status:
  "Status (PinDOUT_IRQHandler s) = Status s \<or> Status (PinDOUT_IRQHandler s) = Status s OR Status_OutReady"
  by (simp add: PinDOUT_IRQHandler_def Let_def)

lemma PowerOn_wait_status:
  "PowerOn_wait n irq i t = Some t' \<Longrightarrow>
     Status t' = Status t \<or> Status t' = Status t OR Status_OutReady"
proof (induction n arbitrary: i t)
  case 0
  then show ?case by simp
next
  case (Suc n)
  show ?case
  proof (cases "Status t AND Status_OutReady = 0")
    case True
    let ?u = "if irq i \<and> dout_irq t then PinDOUT_IRQHandler t else t"
    have "PowerOn_wait n irq (Suc i) ?u = Some t'" using Suc.prems True by simp
    then have "Status t' = Status ?u \<or> Status t' = Status ?u OR Status_OutReady" by (rule Suc.IH)
    moreover have "Status ?u = Status t \<or> Status ?u = Status t OR Status_OutReady"
      using PinDOUT_IRQHandler_status [of t] by auto
    ultimately show ?thesis by (auto simp: or.assoc)
  next
    case False
    with Suc.prems show ?thesis by simp
  qed
qed

lemma hx_main_init: "HX711_init 5 4 ChAx128 True = hx711_defaults\<lparr>PinSCK := True, ChMode := 25, Status := 0xA0\<rparr>"
  by (simp add: HX711_init_def ChAx128_def status_simps)

lemma nau_main_init:
  "NAU7802_init 5 4 (-1) Gain128 SPS80 True True =
     nau7802_defaults\<lparr>I2CBus := Some 0, CTRL1 := 47, CTRL2 := 48, SPS := 80, Status := 0xA0\<rparr>"
  by (simp add: NAU7802_init_def nau7802_defaults_def Let_def Gain128_def SPS80_def SPS10_def
                SPS20_def SPS40_def maskSPS_def status_simps)

section \<open>Properties\<close>

text \<open>
  C36: the HX711 demonstration starts periodic reading. If the converter's falling
  edge arrives at poll \<open>k\<close> of \<open>PowerOn\<close> and the wait is given \<open>k + 2\<close> polls,
  \<open>startReadADC(1, 2)\<close> returns 1, and the instance the printing loop watches is
  a reachable state with status 0xBC and the timer armed at 2 Hz.
\<close>

theorem hx_main_starts:
  assumes "irq k" and "k + 2 \<le> fuel"
  shows "\<exists>s. hx_main fuel irq = Some (Some 1, s) \<and> hx_reachable s \<and> Status s = 0xBC \<and>
             Tim_callback s \<and> Tim_freq s = 2"
proof -
  let ?s0 = "HX711_init 5 4 ChAx128 True"
  let ?t = "?s0\<lparr>Status := Status ?s0 OR Status_PowerOn, dout_irq := True, PinSCK := False\<rparr>"
  have st: "Status ?t = 0xB0" by (simp add: hx_main_init status_simps)
  have "has_flag (Status ?t) Status_PowerOn" using st by (simp add: has_flag_def status_simps)
  moreover have "dout_irq ?t \<or> has_flag (Status ?t) Status_OutReady" by simp
  ultimately obtain s1 where w: "PowerOn_wait fuel irq 0 ?t = Some s1"
    and r: "has_flag (Status s1) Status_OutReady"
    using PowerOn_wait_returns [of ?t irq 0 k fuel] assms by auto
  have p: "PowerOn fuel irq ?s0 = Some s1"
    using w by (simp add: PowerOn_def hx_main_init status_simps)
  have "Status s1 = 0xB4"
    using PowerOn_wait_status [OF w] r st by (auto simp: has_flag_def status_simps)
  then have start: "startReadADC 1 2 s1 =
                      (Some 1, (arm_timer 2 (reset_filter s1))\<lparr>Status := 0xBC\<rparr>)"
    by (simp add: startReadADC_def status_simps)
  have "hx_reachable s1" by (rule hx_reachable.step [OF hx_reachable.init hx_step.power_on [OF p]])
  then have "hx_reachable (snd (startReadADC 1 2 s1))" by (rule hx_reachable.step [OF _ hx_step.start_read])
  with start p show ?thesis by (simp add: hx_main_def arm_timer_def)
qed

theorem hx_main_starts_witness:
  "\<exists>s. hx_main 5 (\<lambda>j. j = 3) = Some (Some 1, s) \<and> Status s = 0xBC \<and> Tim_freq s = 2"
  using hx_main_starts [of "\<lambda>j. j = 3" 3 5] by auto

text \<open>
  C38: the NAU7802 demonstration starts periodic reading at 80 Hz when the device
  answers the bus scan and a poll of \<open>PowerOn\<close> reports a conversion (the DRDY pin
  is not used, \<open>PinDRDY=-1\<close>): \<open>startReadADC(1, 80)\<close> returns 1, within the cap
  \<open>SPS = 80\<close> decoded from \<open>SPS80\<close>. When the device does not answer, \<open>PowerOn\<close> does
  nothing and \<open>startReadADC\<close> returns \<open>None\<close>, so the demonstration ends at once.
\<close>

theorem nau_main_starts:
  assumes "nau_poll_ready drdy regs 0xA0 k" and "k + 2 \<le> fuel"
  shows "(\<exists>s. nau_main True fuel drdy regs = Some (Some 1, s) \<and> nau_reachable s \<and>
              Status s = 0xBC \<and> Tim_callback s \<and> Tim_freq s = 80 \<and> SPS s = 80) \<and>
         nau_main False fuel drdy regs = Some (None, NAU7802_init 5 4 (-1) Gain128 SPS80 True False)"
proof -
  let ?s0 = "NAU7802_init 5 4 (-1) Gain128 SPS80 True True"
  let ?t = "?s0\<lparr>Status := Status ?s0 OR Status_PowerOn\<rparr>"
  have st: "Status ?t = 0xB0" by (simp add: nau_main_init status_simps)
  have "nau_poll_ready drdy regs (Status ?t) (0 + k)"
    using assms(1) by (simp add: nau_poll_ready_def nau_main_init has_flag_def status_simps)
  moreover have "Status ?t AND Status_ADCReady = 0" using st by (simp add: status_simps)
  ultimately have w: "PowerOn_wait_NAU fuel drdy regs 0 ?t = Some (?t\<lparr>Status := Status ?t OR Status_ADCReady\<rparr>)"
    using nau_PowerOn_wait_returns assms(2) by blast
  let ?s1 = "?t\<lparr>Status := Status ?t OR Status_ADCReady\<rparr>"
  have p: "PowerOn_NAU fuel drdy regs ?s0 = Some ?s1"
    using w by (simp add: PowerOn_NAU_def nau_main_init status_simps)
  have s1: "Status ?s1 = 0xB4" and sps: "SPS ?s1 = 80"
    using st by (simp_all add: status_simps nau_main_init)
  have start: "startReadADC_NAU 1 80 ?s1 =
                 (Some 1, (arm_timer 80 (reset_filter ?s1))\<lparr>Status := 0xBC\<rparr>)"
    using s1 sps by (simp add: startReadADC_NAU_def has_flag_def status_simps)
  have "nau_reachable ?s1"
    by (rule nau_reachable.step [OF nau_reachable.init nau_step.power_on [OF p]])
  then have "nau_reachable (snd (startReadADC_NAU 1 80 ?s1))"
    by (rule nau_reachable.step [OF _ nau_step.start_read])
  with start p sps have on: "\<exists>s. nau_main True fuel drdy regs = Some (Some 1, s) \<and> nau_reachable s \<and>
              Status s = 0xBC \<and> Tim_callback s \<and> Tim_freq s = 80 \<and> SPS s = 80"
    by (simp add: nau_main_def arm_timer_def reset_filter_def)
  have off: "nau_main False fuel drdy regs = Some (None, NAU7802_init 5 4 (-1) Gain128 SPS80 True False)"
    by (simp add: nau_main_def PowerOn_NAU_def startReadADC_NAU_def NAU7802_init_def Let_def
                  nau7802_defaults_def has_flag_def status_simps)
  from on off show ?thesis by blast
qed

theorem nau_main_starts_witness:
  "\<exists>s. nau_main True 5 (\<lambda>_. False) (\<lambda>j. if j = 3 then (15, 32) else (0, 0)) = Some (Some 1, s) \<and>
       Tim_freq s = 80"
proof -
  have "nau_poll_ready (\<lambda>_. False) (\<lambda>j. if j = 3 then (15, 32) else (0, 0)) 0xA0 3"
    by (simp add: nau_poll_ready_def)
  then show ?thesis
    using nau_main_starts [of "\<lambda>_. False" "\<lambda>j. if j = 3 then (15, 32) else (0, 0)" 3 5] by auto
qed

end
