(* ===== verification/Spec2Isabelle.thy ===== *)
theory Spec2Isabelle
  imports HX711_Read NAU7802_Read NAU7802_Regs Drift_Filter Shared_Window Main_Demo
begin

text \<open>
  \<^bold>\<open>A verification development of RPi-pico-weight.\<close>

  \<^medskip>\<^bold>\<open>The program.\<close> Two MicroPython drivers for 24-bit load-cell converters on a
  Raspberry Pi Pico: \<^verbatim>\<open>src/HX711/HX711.py\<close> (a bit-banged converter whose DOUT line
  falls when a conversion is ready) and \<^verbatim>\<open>src/NAU7802/NAU7802.py\<close> (an I2C converter).
  Each class keeps a status byte of OR'd flags, a periodic \<open>machine.Timer\<close> whose
  callback \<open>updateADC\<close> reads one sample per tick, and a drift filter: a window of the
  last \<open>N\<close> samples (11 and 21) fitted by least squares against fixed offsets
  \<open>-(N-1)/2 .. (N-1)/2\<close>. The fit publishes \<open>MeanValue\<close>, \<open>LinRegVal\<close> and
  \<open>ValStable\<close>. The HX711 filter also rechecks a window whose fit is poor
  (mean absolute residual above 10000) against the next sample. The caller drives
  \<open>PowerOn\<close>, \<open>PowerOff\<close> and \<open>startReadADC\<close>; the DOUT interrupt handler and the
  timer callback run asynchronously.

  \<^medskip>\<^bold>\<open>Theories, leaf to root.\<close>
  \<^item> \<open>Prelude\<close>: Python's \<open>IndexError\<close> and \<open>ZeroDivisionError\<close> as the datatype
    \<open>py_error\<close>, statement sequencing \<open>bindE\<close> over \<open>py_error + 'a\<close>, list and
    bit-set lemmas, the collections \<open>py_simps\<close> and \<open>status_simps\<close>.
  \<^item> \<open>Regression\<close>: \<open>LinearReg\<close> (its two \<open>for\<close> loops as \<open>reg_accum\<close> and
    \<open>resid_accum\<close>) and \<open>Average\<close>, as written in both files (the NAU7802 class's
    own copies are \<open>LinearReg_NAU\<close> and \<open>Average_NAU\<close> in \<open>NAU7802_Filter\<close>,
    proved equal to these). Floats are exact
    reals. \<open>ols_fit\<close> is the textbook specification the code is proved equal to.
  \<^item> \<open>Window\<close>: the Python list operations the filters call on \<open>__dataY\<close>
    (\<open>pop(0)\<close>, \<open>pop()\<close>, \<open>append\<close>, index assignment), each with its \<open>IndexError\<close>.
  \<^item> \<open>Sample_Decode\<close>: the two's-complement conversion \<open>sign24\<close> both drivers use.
  \<^item> \<open>Adc_Common\<close>: the record \<open>adc_common\<close> of the fields both classes declare,
    the shared status bits, and the reset and timer arming of \<open>startReadADC\<close>.
  \<^item> \<open>HX711_Filter\<close>: lines 102--129 of \<open>HX711.updateADC\<close> as \<open>hx_fill\<close>,
    \<open>hx_track\<close>, \<open>hx_recheck\<close> and \<open>hx_filter\<close>, over \<open>'a adc_common_scheme\<close>. The
    modes are the code's own encoding: \<open>dataI < 11\<close> filling, \<open>Check = 0\<close>
    tracking, \<open>Check = 1\<close> rechecking.
  \<^item> \<open>HX711\<close>: the record \<open>hx711\<close> (extends \<open>adc_common\<close> with \<open>ChMode\<close>, the SCK
    level and whether the DOUT handler is armed) and one definition per method:
    \<open>HX711_init\<close>, \<open>PowerOn\<close> with its wait loop \<open>PowerOn_wait\<close>,
    \<open>PinDOUT_IRQHandler\<close>, \<open>PowerOff\<close>, \<open>getRawData\<close> with its clock loop
    \<open>clock_in\<close>, \<open>setChGain\<close>, \<open>updateADC\<close>, \<open>startReadADC\<close>, \<open>HX711_del\<close>. The
    inductive \<open>hx_step\<close> has one rule per entry point (caller methods, the
    interrupt when armed, the timer tick when armed); \<open>hx_reachable\<close> closes the
    constructor's results under it.
  \<^item> \<open>HX711_Read\<close>: what the read makes of the converter's bits, and a run
    through \<open>PowerOff\<close> during periodic reading.
  \<^item> \<open>NAU7802_Filter\<close>: lines 129--139 of \<open>NAU7802.updateADC\<close> as \<open>nau_fill\<close>,
    \<open>nau_track\<close> and \<open>nau_filter\<close>: 21 samples, no recheck, threshold 200.
  \<^item> \<open>NAU7802\<close>: the record \<open>nau7802\<close> (extends \<open>adc_common\<close> with \<open>CTRL1\<close>,
    \<open>CTRL2\<close>, the bus and the DRDY pin) and one definition per method:
    \<open>NAU7802_init\<close> (bus selection, rate decoding), \<open>PowerOn_NAU\<close> with its poll
    loop \<open>PowerOn_wait_NAU\<close> and the poll condition \<open>nau_poll_ready\<close>,
    \<open>PowerOff_NAU\<close>, \<open>getRawData_NAU\<close>, \<open>updateADC_NAU\<close>, \<open>startReadADC_NAU\<close>,
    \<open>NAU7802_del\<close>; the suffix \<open>_NAU\<close> marks the methods whose names the HX711
    class also uses. \<open>nau_step\<close> and \<open>nau_reachable\<close> are its state machine.
  \<^item> \<open>NAU7802_Regs\<close>: the converter's register file as a store, \<open>bytearray\<close>
    with its \<open>ValueError\<close>, \<open>writeto\<close>, and the register writes of \<open>PowerOn\<close>
    (\<open>PowerOn_regs\<close>) and \<open>PowerOff\<close> (\<open>PowerOff_regs\<close>).
  \<^item> \<open>NAU7802_Read\<close>: the 3-byte composition of the read, its range and round
    trip, and the callback on the saturation code.
  \<^item> \<open>Drift_Filter\<close>: the specification's \<open>DriftFilter<N>\<close> as the abstract step
    \<open>drift_step\<close> on \<open>drift_state\<close> (window, fit, mean, stability), the
    abstraction \<open>adc_abs\<close> shared by both drivers, and the refinement lemmas.
  \<^item> \<open>Shared_Window\<close>: the class attribute \<open>__dataY\<close> and the instances as a
    store (\<open>hx_class\<close>), and the timer callback of one instance against it
    (\<open>hx_updateADC_shared\<close>).
  \<^item> \<open>Main_Demo\<close>: the two \<open>__main__\<close> programs up to the printing loop
    (\<open>hx_main\<close>, \<open>nau_main\<close>).
  \<^item> This theory: the type of the published mean across both drivers.

  \<^medskip>\<^bold>\<open>Environment and fuel.\<close> Hardware enters as arguments. For the NAU7802:
  whether the bus scan finds address 0x2A, at each poll of \<open>PowerOn\<close> the DRDY level
  and the bytes of registers 0x1F and 0x00, and the three bytes of a read; the
  same fuel argument applies to its poll loop. For the HX711, \<open>dout :: nat \<Rightarrow> bool\<close>
  is the DOUT level at each clock pulse of a read. \<open>irq :: nat \<Rightarrow> bool\<close> says whether
  the falling edge arrives during each 100 us sleep of \<open>PowerOn\<close>. The wait loop has
  no bound in the code, so \<open>PowerOn_wait\<close> counts polls with fuel and returns
  \<open>None\<close> when the fuel runs out. The termination lemmas show \<open>k + 2\<close> polls suffice when
  the edge arrives at poll \<open>k\<close>. the non-termination lemmas show no amount suffices when the
  edge never arrives, i.e. the code's loop does not terminate.

  \<^medskip>\<^bold>\<open>What is proved.\<close>
  \<^item> Regression: equality of the loops with the least-squares formulas, including
    the error on a zero determinant; invariance under a tare offset; exact fits of
    collinear data; on symmetric offsets the intercept is the average.
  \<^item> HX711 filter: no exception and preservation of the window invariant; a
    pending recheck is resolved by the next sample; the tracking slide and the
    suspect flag; the stability flag against the current window's fit;
    \<open>LinRegVal\<close> equals the mean (the code publishes the intercept, not the
    slope); after a restart eleven samples only fill the window, whatever
    their values, and every longer constant stream is reported stable at its value.
  \<^item> HX711 driver: the status byte stays within \<open>[0, 256)\<close> with consistent
    flags in every reachable state; the timer callback never raises; the guards
    and effects of \<open>startReadADC\<close>; termination and
    non-termination of \<open>PowerOn\<close>; the range and round trip of the 24-bit read;
    the saturation code is dropped; invalid construction yields an inert
    instance; \<open>PowerOff\<close> of any powered state leaves an armed timer armed,
    beyond the reach of \<open>startReadADC\<close> and \<open>__del__\<close>.

  \<^item> NAU7802 driver: twelve reachable status values with consistent flags; the
    callback never raises; \<open>PowerOff\<close> clears \<open>EnTimer\<close>, so periodic reading
    can never restart after a power cycle, and it orphans an armed timer that
    nothing can disarm; an accepted but unmatched rate code leaves \<open>SPS = 0\<close>;
    the register configuration written by \<open>PowerOn\<close>; termination and non-termination of
    \<open>PowerOn\<close>; range and round trip of the 3-byte read; the saturation code
    enters the window; the window is the last 21 samples of the stream.
  \<^item> Refinement: the NAU7802 filter refines \<open>DriftFilter<21>\<close> on every
    stream; the HX711 filter refines \<open>DriftFilter<11>\<close> on every step outside
    the spike recheck.

  \<^medskip>\<^bold>\<open>Not modelled, and why.\<close> Pin and I2C electrical timing (\<open>sleep_us\<close>,
  \<open>sleep\<close>), the converter's own behaviour behind its registers (whether address
  0x2A answers the scan, the status registers polled by \<open>PowerOn\<close> and the bytes of
  a read enter as arguments; the register writes are modelled in
  \<open>NAU7802_Regs\<close>, separately from the driver's record), \<open>print\<close>, the printing loop and the \<open>KeyboardInterrupt\<close> handler of the
  \<open>__main__\<close> programs (it reads \<open>ADC.__Status\<close> from outside the class and calls
  \<open>machine.reset\<close> without importing \<open>machine\<close>; what that does depends on the
  interpreter's name mangling and import handling, outside this model), and
  float rounding (MicroPython on the RP2040 uses single-precision floats; the
  thresholds 250, 500 and 10000 are compared against exact values here). An
  exception raised in a timer callback is not modelled beyond proving that none
  occurs.

  \<^medskip>\<^bold>\<open>Further properties.\<close>
  \<^item> Taring: a constant offset added to every sample changes only the intercept.
  \<^item> Type: in every reachable state of either driver \<open>MeanValue\<close> is a number.
  \<^item> Sharing: one instance's sample enters every other instance's window.
  \<^item> The demonstration programs start periodic reading when the converter answers.
  \<^item> Registers: the first \<open>PowerOn\<close> of a constructed NAU7802 writes byte values
    only, so \<open>bytearray\<close> never raises, and configures the gain and rate asked for.
\<close>

section \<open>The type of the published mean\<close>

text \<open>
  \<open>Average\<close> returns a number on every list but one of length 1, for which it
  returns the list itself. \<open>is_num\<close> tells the two kinds of value apart.
\<close>

definition is_num :: "avg_val \<Rightarrow> bool" where
  "is_num v = (case v of AvgNum _ \<Rightarrow> True | AvgList _ \<Rightarrow> False)"

lemma Average_is_num: "length Y \<noteq> 1 \<Longrightarrow> is_num (Average Y)"
  by (simp add: Average_def is_num_def)

lemma hx_filter_mean:
  assumes "hx_filter_inv s" and "hx_filter v s = Inr s'" and "is_num (MeanValue s)"
  shows "is_num (MeanValue s')"
proof (cases "dataI s < 11")
  case True
  with assms show ?thesis by (auto simp: hx_filter_def hx_fill_def hx_filter_inv_def)
next
  case False
  have "MeanValue s' = Average (dataY s')"
    using assms(1,2) False
    by (auto simp: hx_filter_def hx_track_eq hx_recheck_eq hx_filter_inv_def Let_def
             split: prod.splits if_splits)
  moreover obtain s'' where "hx_filter v s = Inr s''" and "hx_filter_inv s''"
    using hx_filter_step_ok [OF assms(1)] by blast
  ultimately show ?thesis
    using assms(2) by (simp add: Average_is_num hx_filter_inv_def)
qed

lemma nau_filter_mean:
  assumes "nau_filter_inv s" and "nau_filter v s = Inr s'" and "is_num (MeanValue s)"
  shows "is_num (MeanValue s')"
proof (cases "dataI s < 21")
  case True
  with assms show ?thesis by (auto simp: nau_filter_def nau_fill_def nau_filter_inv_def)
next
  case False
  obtain a b e where "ols_fit nau_dataX (tl (dataY s) @ [v]) = (a, b, e)"
    by (cases "ols_fit nau_dataX (tl (dataY s) @ [v])") auto
  with assms False show ?thesis
    by (auto simp: nau_filter_def nau_track_eq nau_filter_inv_def Let_def Average_is_num)
qed

lemma PowerOn_wait_mean:
  "PowerOn_wait n irq i t = Some t' \<Longrightarrow> MeanValue t' = MeanValue t"
proof (induction n arbitrary: i t)
  case 0
  then show ?case by simp
next
  case (Suc n)
  then show ?case
    by (fastforce simp: PinDOUT_IRQHandler_def Let_def split: if_splits)
qed

lemma hx_reachable_mean: "hx_reachable s \<Longrightarrow> is_num (MeanValue s)"
proof (induction rule: hx_reachable.induct)
  case (init sck dout mode timer)
  then show ?case by (simp add: HX711_init_def hx711_defaults_def is_num_def)
next
  case (step s s')
  have inv: "hx_inv s" using step.hyps(1) by (rule hx_reachable_inv)
  from step.hyps(2) show ?case
  proof (cases rule: hx_step.cases)
    case (power_on fuel irq)
    then show ?thesis using step.IH
      by (auto simp: PowerOn_def dest!: PowerOn_wait_mean split: if_splits)
  next
    case (tick dout)
    obtain tmp s1 where g: "getRawData dout s = (tmp, s1)" by fastforce
    have i1: "hx_inv s1" using getRawData_inv [OF inv, of dout] g by simp
    have m1: "is_num (MeanValue s1)" using step.IH g getRawData_filter_fields(5) [of dout s] by simp
    show ?thesis
      using tick g i1 m1 hx_filter_mean [of s1 tmp s'] step.IH
      by (auto simp: updateADC_def hx_inv_def split: if_splits)
  qed (use step.IH in \<open>auto simp: PinDOUT_IRQHandler_def Let_def startReadADC_def reset_filter_def
        arm_timer_def disarm_timer_def PowerOff_def setChGain_def getRawData_def HX711_del_def
        is_num_def\<close>)
qed

lemma nau_reachable_mean: "nau_reachable s \<Longrightarrow> is_num (MeanValue s)"
proof (induction rule: nau_reachable.induct)
  case (init scl sda pin gain adcsps timer found)
  then show ?case by (simp add: NAU7802_init_def nau7802_defaults_def is_num_def Let_def)
next
  case (step s s')
  have inv: "nau_inv s" using step.hyps(1) by (rule nau_reachable_inv)
  from step.hyps(2) show ?case
  proof (cases rule: nau_step.cases)
    case (power_on fuel drdy regs)
    then show ?thesis using step.IH by (auto dest!: nau_PowerOn_Some)
  next
    case (tick rd)
    then show ?thesis using step.IH inv nau_filter_mean [of s "getRawData_NAU rd s" s']
      by (auto simp: updateADC_NAU_def nau_inv_def split: if_splits)
  qed (use step.IH in \<open>auto simp: startReadADC_NAU_def reset_filter_def arm_timer_def
        disarm_timer_def PowerOff_NAU_def NAU7802_del_def Let_def is_num_def\<close>)
qed

text \<open>
  C10: the published mean has the type the caller expects. In every reachable
  state of either driver \<open>MeanValue\<close> is a number: the list-valued branch of
  \<open>Average\<close> (a list of length 1) is never taken, since the windows have 11 and
  21 samples and filling does not touch the mean.
\<close>

theorem mean_value_is_number:
  "(hx_reachable s \<longrightarrow> is_num (MeanValue s)) \<and> (nau_reachable t \<longrightarrow> is_num (MeanValue t))"
  using hx_reachable_mean nau_reachable_mean by blast

theorem mean_value_is_number_witness:
  "hx_reachable (HX711_init 5 4 25 True) \<and> nau_reachable (NAU7802_init 5 4 (-1) 7 48 True True) \<and>
   is_num (MeanValue (HX711_init 5 4 25 True)) \<and> is_num (MeanValue (NAU7802_init 5 4 (-1) 7 48 True True))"
  using mean_value_is_number [of "HX711_init 5 4 25 True" "NAU7802_init 5 4 (-1) 7 48 True True"]
        hx_reachable.init nau_reachable.init by blast

end
